theory Spec2Isabelle
  imports Main "HOL-Library.Word"
begin

unbundle bit_operations_syntax

section \<open>The JNI boundary\<close>

text \<open>
  The notification handlers of \<^verbatim>\<open>UwbEventManager.cpp\<close> (the active copy under
  \<^verbatim>\<open>jni/\<close> and the superseded copy under \<^verbatim>\<open>jni_unused/\<close>) are sequences of JNI calls.
  They are embedded as functions over an explicit world: the JNI environment the calling
  thread obtains, the behaviour of the registered listener, the pending Java exception and
  the chronological trace of log lines and JNI calls.

  Managed references are modelled as values. Every array of the source is created, filled
  and handed to a constructor exactly once, so no property below depends on aliasing; an operation
  that mutates an array returns the updated array, which the model binds to the same name.
\<close>

type_synonym jbyte = "8 word"
type_synonym jint = "32 word"
type_synonym jlong = "64 word"

text \<open>A cached class reference: \<open>None\<close> is \<^verbatim>\<open>NULL\<close>, otherwise the class name.\<close>
type_synonym jclass = "string option"

text \<open>A method id: the method name and its JNI signature.\<close>
datatype jmethodID = MethodID string string

datatype jobject =
    Null
  | ByteArray "jbyte list"
  | IntArray "jint list"
  | LongArray "jlong list"
  | ObjectArray jclass "jobject list"
  | Object jclass jmethodID "jvalue list"
and jvalue =
    I jint
  | J jlong
  | L jobject

datatype event =
    TraceE string
  | TraceI string
  | EvNewByteArray nat
  | EvNewIntArray nat
  | EvNewLongArray nat
  | EvNewObjectArray nat jclass
  | EvSetByteArrayRegion nat nat
  | EvSetIntArrayRegion nat nat
  | EvSetLongArrayRegion nat nat
  | EvSetObjectArrayElement nat
  | EvGetMethodID jclass string string
  | EvNewObject jobject
  | EvCallVoidMethod jobject jmethodID "jvalue list"
  | EvExceptionCheck
  | EvExceptionDescribe
  | EvExceptionClear

text \<open>
  What goes wrong in native code is a value: dereferencing a null \<^verbatim>\<open>JNIEnv*\<close>, reading a
  C array past its declared capacity, or handing JNI a reference of the wrong kind.
\<close>
datatype fault = NullEnvDereference | OutOfBoundsRead | BadReference

datatype JNIEnv = NULL_ENV | Env

record jni_world =
  thread_env :: JNIEnv
  listener_throws :: "jmethodID \<Rightarrow> jvalue list \<Rightarrow> bool"
  pending :: bool
  trace :: "event list"

type_synonym 'a jni = "jni_world \<Rightarrow> (fault \<times> jni_world) + ('a \<times> jni_world)"

definition jni_return :: "'a \<Rightarrow> 'a jni" where
  "jni_return x w = Inr (x, w)"

definition jni_bind :: "'a jni \<Rightarrow> ('a \<Rightarrow> 'b jni) \<Rightarrow> 'b jni" where
  "jni_bind m f w = (case m w of Inl e \<Rightarrow> Inl e | Inr (x, w') \<Rightarrow> f x w')"

definition jni_then :: "unit jni \<Rightarrow> 'b jni \<Rightarrow> 'b jni" where
  "jni_then m k = jni_bind m (\<lambda>_. k)"

definition jni_fault :: "fault \<Rightarrow> 'a jni" where
  "jni_fault e w = Inl (e, w)"

definition log_event :: "event \<Rightarrow> unit jni" where
  "log_event ev w = Inr ((), w\<lparr>trace := trace w @ [ev]\<rparr>)"

text \<open>
  \<^verbatim>\<open>JNI_TRACE_E\<close> and \<^verbatim>\<open>JNI_TRACE_I\<close>: the entry records the format string, without its leading
  function-name placeholder and without the values formatted into it.
\<close>
definition JNI_TRACE_E :: "string \<Rightarrow> unit jni" where
  "JNI_TRACE_E msg = log_event (TraceE msg)"

definition JNI_TRACE_I :: "string \<Rightarrow> unit jni" where
  "JNI_TRACE_I msg = log_event (TraceI msg)"

text \<open>
  \<^verbatim>\<open>ScopedJniEnv env(mVm)\<close>: the class is declared in \<^verbatim>\<open>ScopedJniEnv.h\<close>, which is not among
  the sources; what it obtains for the calling thread is the world's \<open>thread_env\<close>.
\<close>
definition ScopedJniEnv :: "JNIEnv jni" where
  "ScopedJniEnv w = Inr (thread_env w, w)"

text \<open>\<^verbatim>\<open>env->f(...)\<close>: a call through a null environment is a fault; otherwise it is traced.\<close>
definition env_call :: "JNIEnv \<Rightarrow> event \<Rightarrow> unit jni" where
  "env_call env ev =
     (case env of NULL_ENV \<Rightarrow> jni_fault NullEnvDereference | Env \<Rightarrow> log_event ev)"

definition raise_pending :: "unit jni" where
  "raise_pending w = Inr ((), w\<lparr>pending := True\<rparr>)"

text \<open>Reading \<open>n\<close> elements from the start of a C array whose capacity is the list's length.\<close>
definition c_read :: "'a list \<Rightarrow> nat \<Rightarrow> 'a list jni" where
  "c_read buf n = (if n \<le> length buf then jni_return (take n buf) else jni_fault OutOfBoundsRead)"

text \<open>\<^verbatim>\<open>a[i]\<close> on a C array.\<close>
definition c_index :: "'a list \<Rightarrow> nat \<Rightarrow> 'a jni" where
  "c_index a i = (if i < length a then jni_return (a ! i) else jni_fault OutOfBoundsRead)"

text \<open>Allocation is taken to succeed; a fresh primitive array is zero-filled.\<close>
definition NewByteArray :: "JNIEnv \<Rightarrow> nat \<Rightarrow> jobject jni" where
  "NewByteArray env n =
     jni_then (env_call env (EvNewByteArray n)) (jni_return (ByteArray (replicate n 0)))"

definition NewIntArray :: "JNIEnv \<Rightarrow> nat \<Rightarrow> jobject jni" where
  "NewIntArray env n =
     jni_then (env_call env (EvNewIntArray n)) (jni_return (IntArray (replicate n 0)))"

definition NewLongArray :: "JNIEnv \<Rightarrow> nat \<Rightarrow> jobject jni" where
  "NewLongArray env n =
     jni_then (env_call env (EvNewLongArray n)) (jni_return (LongArray (replicate n 0)))"

definition NewObjectArray :: "JNIEnv \<Rightarrow> nat \<Rightarrow> jclass \<Rightarrow> jobject \<Rightarrow> jobject jni" where
  "NewObjectArray env n cls init =
     jni_then (env_call env (EvNewObjectArray n cls)) (jni_return (ObjectArray cls (replicate n init)))"

text \<open>
  Copying \<open>len\<close> elements of a native buffer into a managed array at \<open>start\<close>. The native
  read comes first; a region outside the managed array raises
  \<^verbatim>\<open>ArrayIndexOutOfBoundsException\<close> and leaves the array unchanged.
\<close>
definition set_region :: "'a list \<Rightarrow> nat \<Rightarrow> 'a list \<Rightarrow> 'a list" where
  "set_region xs start src = take start xs @ src @ drop (start + length src) xs"

definition SetByteArrayRegion :: "JNIEnv \<Rightarrow> jobject \<Rightarrow> nat \<Rightarrow> nat \<Rightarrow> jbyte list \<Rightarrow> jobject jni" where
  "SetByteArrayRegion env arr start len buf =
     jni_then (env_call env (EvSetByteArrayRegion start len))
       (case arr of
          ByteArray xs \<Rightarrow>
            jni_bind (c_read buf len) (\<lambda>src.
              if start + len \<le> length xs then jni_return (ByteArray (set_region xs start src))
              else jni_then raise_pending (jni_return arr))
        | _ \<Rightarrow> jni_fault BadReference)"

definition SetIntArrayRegion :: "JNIEnv \<Rightarrow> jobject \<Rightarrow> nat \<Rightarrow> nat \<Rightarrow> jint list \<Rightarrow> jobject jni" where
  "SetIntArrayRegion env arr start len buf =
     jni_then (env_call env (EvSetIntArrayRegion start len))
       (case arr of
          IntArray xs \<Rightarrow>
            jni_bind (c_read buf len) (\<lambda>src.
              if start + len \<le> length xs then jni_return (IntArray (set_region xs start src))
              else jni_then raise_pending (jni_return arr))
        | _ \<Rightarrow> jni_fault BadReference)"

definition SetLongArrayRegion :: "JNIEnv \<Rightarrow> jobject \<Rightarrow> nat \<Rightarrow> nat \<Rightarrow> jlong list \<Rightarrow> jobject jni" where
  "SetLongArrayRegion env arr start len buf =
     jni_then (env_call env (EvSetLongArrayRegion start len))
       (case arr of
          LongArray xs \<Rightarrow>
            jni_bind (c_read buf len) (\<lambda>src.
              if start + len \<le> length xs then jni_return (LongArray (set_region xs start src))
              else jni_then raise_pending (jni_return arr))
        | _ \<Rightarrow> jni_fault BadReference)"

definition SetObjectArrayElement :: "JNIEnv \<Rightarrow> jobject \<Rightarrow> nat \<Rightarrow> jobject \<Rightarrow> jobject jni" where
  "SetObjectArrayElement env arr i v =
     jni_then (env_call env (EvSetObjectArrayElement i))
       (case arr of
          ObjectArray cls xs \<Rightarrow>
            if i < length xs then jni_return (ObjectArray cls (xs[i := v]))
            else jni_then raise_pending (jni_return arr)
        | _ \<Rightarrow> jni_fault BadReference)"

text \<open>
  The Java classes are external to the sources; looking up one of their methods is taken to
  succeed and yields the id of the method asked for.
\<close>
definition GetMethodID :: "JNIEnv \<Rightarrow> jclass \<Rightarrow> string \<Rightarrow> string \<Rightarrow> jmethodID jni" where
  "GetMethodID env cls name sig =
     jni_then (env_call env (EvGetMethodID cls name sig)) (jni_return (MethodID name sig))"

definition NewObject :: "JNIEnv \<Rightarrow> jclass \<Rightarrow> jmethodID \<Rightarrow> jvalue list \<Rightarrow> jobject jni" where
  "NewObject env cls ctor args =
     jni_then (env_call env (EvNewObject (Object cls ctor args))) (jni_return (Object cls ctor args))"

text \<open>Calling into the listener: whether it throws is the world's \<open>listener_throws\<close>.\<close>
definition CallVoidMethod :: "JNIEnv \<Rightarrow> jobject \<Rightarrow> jmethodID \<Rightarrow> jvalue list \<Rightarrow> unit jni" where
  "CallVoidMethod env obj mid args =
     jni_then (env_call env (EvCallVoidMethod obj mid args))
       (\<lambda>w. Inr ((), w\<lparr>pending := pending w \<or> listener_throws w mid args\<rparr>))"

definition ExceptionCheck :: "JNIEnv \<Rightarrow> bool jni" where
  "ExceptionCheck env = jni_then (env_call env EvExceptionCheck) (\<lambda>w. Inr (pending w, w))"

definition ExceptionDescribe :: "JNIEnv \<Rightarrow> unit jni" where
  "ExceptionDescribe env = env_call env EvExceptionDescribe"

definition ExceptionClear :: "JNIEnv \<Rightarrow> unit jni" where
  "ExceptionClear env =
     jni_then (env_call env EvExceptionClear) (\<lambda>w. Inr ((), w\<lparr>pending := False\<rparr>))"

text \<open>A counted \<^verbatim>\<open>for (int i = 0; i < n; i++)\<close> loop over the indices, threading the locals.\<close>
primrec for_each :: "nat list \<Rightarrow> (nat \<Rightarrow> 'a \<Rightarrow> 'a jni) \<Rightarrow> 'a \<Rightarrow> 'a jni" where
  "for_each [] body acc = jni_return acc"
| "for_each (i # is) body acc = jni_bind (body i acc) (for_each is body)"

definition for_loop :: "nat \<Rightarrow> (nat \<Rightarrow> 'a \<Rightarrow> 'a jni) \<Rightarrow> 'a \<Rightarrow> 'a jni" where
  "for_loop n body acc = for_each [0..<n] body acc"

text \<open>The casts \<^verbatim>\<open>(int)x\<close> and \<^verbatim>\<open>(long)x\<close> of an integer field (two's complement, LP64).\<close>
definition to_int :: "int \<Rightarrow> jvalue" where
  "to_int x = I (word_of_int x)"

definition to_long :: "int \<Rightarrow> jvalue" where
  "to_long x = J (word_of_int x)"

section \<open>Native declarations\<close>

text \<open>
  \<^verbatim>\<open>uwa_api.h\<close> and the headers it includes are not among the sources. The constants the handlers
  compare against are parameters; the notification structs carry the fields the handlers
  read. Integer fields hold their values as \<open>int\<close> (their declared widths are in the
  missing headers; the casts of the handlers are \<open>to_int\<close> and \<open>to_long\<close>), counts and lengths
  are unsigned and held as \<open>nat\<close>, and a fixed-size byte array is a list whose length is the
  declared capacity. Fields of different structs that share a name carry a prefix.
\<close>

record uci_defs =
  MEASUREMENT_TYPE_TWOWAY :: int
  MEASUREMENT_TYPE_DLTDOA :: int
  MEASUREMENT_TYPE_OWR_WITH_AOA :: int
  SHORT_MAC_ADDRESS :: int
  MAX_NUM_CONTROLLEES :: nat

text \<open>
  The constants of \<^verbatim>\<open>UwbJniInternal.h\<close>. C's \<^verbatim>\<open>int\<close> is a 32-bit word; every value the
  handlers compute in it is a masked, zero-extended 16-bit value, on which the signed and the
  unsigned reading, and the arithmetic and the logical right shift, agree.
\<close>

type_synonym c_int = "32 word"
type_synonym uint16_t = "16 word"

definition TDOA_TX_TIMESTAMP_OFFSET :: c_int where "TDOA_TX_TIMESTAMP_OFFSET = 0x00FF"
definition TDOA_TX_TIMESTAMP_OFFSET_MASK :: c_int where "TDOA_TX_TIMESTAMP_OFFSET_MASK = 0x06"
definition TDOA_RX_TIMESTAMP_OFFSET :: c_int where "TDOA_RX_TIMESTAMP_OFFSET = 0x00FF"
definition TDOA_RX_TIMESTAMP_OFFSET_MASK :: c_int where "TDOA_RX_TIMESTAMP_OFFSET_MASK = 0x18"
definition TDOA_ANCHOR_LOC_OFFSET :: c_int where "TDOA_ANCHOR_LOC_OFFSET = 0x00FF"
definition TDOA_ANCHOR_LOC_OFFSET_MASK :: c_int where "TDOA_ANCHOR_LOC_OFFSET_MASK = 0x60"
definition TDOA_ACTIVE_RR_OFFSET :: c_int where "TDOA_ACTIVE_RR_OFFSET = 0x0FF0"
definition TDOA_ACTIVE_RR_OFFSET_MASK :: c_int where "TDOA_ACTIVE_RR_OFFSET_MASK = 0x0780"

definition TDOA_TX_TIMESTAMP_40BITS :: c_int where "TDOA_TX_TIMESTAMP_40BITS = 0"
definition TDOA_TX_TIMESTAMP_64BITS :: c_int where "TDOA_TX_TIMESTAMP_64BITS = 2"
definition TDOA_RX_TIMESTAMP_40BITS :: c_int where "TDOA_RX_TIMESTAMP_40BITS = 0"
definition TDOA_RX_TIMESTAMP_64BITS :: c_int where "TDOA_RX_TIMESTAMP_64BITS = 8"
definition TDOA_ANCHOR_LOC_NOT_INCLUDED :: c_int where "TDOA_ANCHOR_LOC_NOT_INCLUDED = 0"
definition TDOA_ANCHOR_LOC_IN_RELATIVE_SYSTEM :: c_int where "TDOA_ANCHOR_LOC_IN_RELATIVE_SYSTEM = 0x40"
definition TDOA_ANCHOR_LOC_IN_WGS84_SYSTEM :: c_int where "TDOA_ANCHOR_LOC_IN_WGS84_SYSTEM = 0x20"
definition MAC_SHORT_ADD_LEN :: nat where "MAC_SHORT_ADD_LEN = 2"
definition MAC_EXT_ADD_LEN :: nat where "MAC_EXT_ADD_LEN = 8"
definition TDOA_TIMESTAMP_LEN_40BITS :: nat where "TDOA_TIMESTAMP_LEN_40BITS = 5"
definition TDOA_TIMESTAMP_LEN_64BITS :: nat where "TDOA_TIMESTAMP_LEN_64BITS = 8"
definition TDOA_ANCHOR_LOC_LEN_10BYTES :: nat where "TDOA_ANCHOR_LOC_LEN_10BYTES = 10"
definition TDOA_ANCHOR_LOC_LEN_12BYTES :: nat where "TDOA_ANCHOR_LOC_LEN_12BYTES = 12"
definition TDOA_ACTIVE_RR_INDEX_POSITION :: nat where "TDOA_ACTIVE_RR_INDEX_POSITION = 7"

record tUWA_TWR_RANGING_MEASR =
  twr_mac_addr :: "jbyte list"
  twr_status :: int
  twr_nLos :: int
  twr_distance :: int
  twr_aoa_azimuth :: int
  twr_aoa_azimuth_FOM :: int
  twr_aoa_elevation :: int
  twr_aoa_elevation_FOM :: int
  twr_aoa_dest_azimuth :: int
  twr_aoa_dest_azimuth_FOM :: int
  twr_aoa_dest_elevation :: int
  twr_aoa_dest_elevation_FOM :: int
  twr_slot_index :: int
  twr_rssi :: int
  twr_rfu :: "jbyte list"

record tUWA_DLTDOA_RANGING_MEASR =
  dl_mac_addr :: "jbyte list"
  dl_status :: int
  dl_message_type :: int
  dl_message_control :: uint16_t
  dl_block_index :: int
  dl_round_index :: int
  dl_nLos :: int
  dl_aoa_azimuth :: int
  dl_aoa_azimuth_FOM :: int
  dl_aoa_elevation :: int
  dl_aoa_elevation_FOM :: int
  dl_txTimeStamp :: "jbyte list"
  dl_rxTimeStamp :: "jbyte list"
  dl_cfo_anchor :: int
  dl_cfo :: int
  dl_initiator_reply_time :: int
  dl_responder_reply_time :: int
  dl_initiator_responder_TOF :: int
  dl_anchor_location :: "jbyte list"
  dl_active_ranging_round :: "jbyte list"

record tUWA_OWR_WITH_AOA_RANGING_MEASR =
  owr_mac_addr :: "jbyte list"
  owr_status :: int
  owr_nLos :: int
  owr_frame_seq_num :: int
  owr_block_index :: int
  owr_aoa_azimuth :: int
  owr_aoa_azimuth_FOM :: int
  owr_aoa_elevation :: int
  owr_aoa_elevation_FOM :: int

record tUWA_TDoA_RANGING_MEASR =
  tdoa_mac_addr :: "jbyte list"
  tdoa_frame_type :: int
  tdoa_nLos :: int
  tdoa_aoa_azimuth :: int
  tdoa_aoa_azimuth_FOM :: int
  tdoa_aoa_elevation :: int
  tdoa_aoa_elevation_FOM :: int
  tdoa_timeStamp :: int
  tdoa_blink_frame_number :: int
  tdoa_rfu :: "jbyte list"
  tdoa_device_info_size :: nat
  tdoa_device_info :: "jbyte list"
  tdoa_blink_payload_size :: nat
  tdoa_blink_payload_data :: "jbyte list"

record tUWA_VENDOR_SPECIFIC_NTF =
  vs_len :: nat
  vs_data :: "jbyte list"

text \<open>
  \<^verbatim>\<open>ranging_measures\<close> is a union in C. Each of its members is a field of its own here:
  a handler reads one member only, and what is proved for independent members holds in
  particular for members that overlay the same bytes.
\<close>
record tUWA_RANGE_DATA_NTF =
  seq_counter :: int
  session_id :: int
  rcr_indication :: int
  curr_range_interval :: int
  ranging_measure_type :: int
  mac_addr_mode_indicator :: int
  no_of_measurements :: nat
  twr_range_measr :: "tUWA_TWR_RANGING_MEASR list"
  dltdoa_range_measr :: "tUWA_DLTDOA_RANGING_MEASR list"
  owr_with_aoa_range_measr :: tUWA_OWR_WITH_AOA_RANGING_MEASR
  tdoa_range_measr :: "tUWA_TDoA_RANGING_MEASR list"
  vendor_specific_ntf :: tUWA_VENDOR_SPECIFIC_NTF

record tUWA_SESSION_UPDATE_MULTICAST_LIST_NTF =
  mc_session_id :: int
  remaining_list :: int
  no_of_controlees :: nat
  controlee_mac_address_list :: "int list"
  subsession_id_list :: "int list"
  status_list :: "int list"

text \<open>The members of the singleton, as the constructor and \<^verbatim>\<open>doLoadSymbols\<close> name them.\<close>
record UwbEventManager =
  mObject :: jobject
  mRangeDataClass :: jclass
  mRangingTwoWayMeasuresClass :: jclass
  mRangingOwrAoaMeasuresClass :: jclass
  mRangeTdoaMeasuresClass :: jclass
  mRangeDlTdoaMeasuresClass :: jclass
  mMulticastUpdateListDataClass :: jclass
  mOnDeviceStateNotificationReceived :: "jmethodID option"
  mOnRangeDataNotificationReceived :: "jmethodID option"
  mOnSessionStatusNotificationReceived :: "jmethodID option"
  mOnCoreGenericErrorNotificationReceived :: "jmethodID option"
  mOnMulticastListUpdateNotificationReceived :: "jmethodID option"
  mOnBlinkDataTxNotificationReceived :: "jmethodID option"
  mOnRawUciNotificationReceived :: "jmethodID option"
  mOnVendorUciNotificationReceived :: "jmethodID option"
  mOnVendorDeviceInfo :: "jmethodID option"

section \<open>The superseded copy: ranging data\<close>

subsection \<open>One downlink-TDoA measurement (\<^verbatim>\<open>jni_unused/UwbEventManager.cpp\<close>, lines 178 to 320)\<close>

text \<open>Lines 189 to 201: the MAC address.\<close>
definition dltdoa_mac_address ::
  "JNIEnv \<Rightarrow> uci_defs \<Rightarrow> tUWA_RANGE_DATA_NTF \<Rightarrow> tUWA_DLTDOA_RANGING_MEASR \<Rightarrow> jobject jni" where
  "dltdoa_mac_address env defs ranging_ntf_data m =
     (if mac_addr_mode_indicator ranging_ntf_data = SHORT_MAC_ADDRESS defs then
        jni_bind (NewByteArray env MAC_SHORT_ADD_LEN) (\<lambda>dlTdoaMacAddress.
        SetByteArrayRegion env dlTdoaMacAddress 0 MAC_SHORT_ADD_LEN (dl_mac_addr m))
      else
        jni_bind (NewByteArray env MAC_EXT_ADD_LEN) (\<lambda>dlTdoaMacAddress.
        SetByteArrayRegion env dlTdoaMacAddress 0 MAC_EXT_ADD_LEN (dl_mac_addr m)))"

text \<open>
  Lines 203 to 207. The \<^verbatim>\<open>uint16_t\<close> control word is promoted to \<^verbatim>\<open>int\<close>, masked twice and
  stored back into a \<^verbatim>\<open>uint16_t\<close>.
\<close>
definition txTimeStampValue :: "uint16_t \<Rightarrow> uint16_t" where
  "txTimeStampValue message_control =
     ucast (((ucast message_control :: c_int) AND TDOA_TX_TIMESTAMP_OFFSET)
            AND TDOA_TX_TIMESTAMP_OFFSET_MASK)"

text \<open>Lines 208 to 222: the transmit timestamp.\<close>
definition dltdoa_tx_timestamp :: "JNIEnv \<Rightarrow> tUWA_DLTDOA_RANGING_MEASR \<Rightarrow> jobject jni" where
  "dltdoa_tx_timestamp env m =
     (if (ucast (txTimeStampValue (dl_message_control m)) :: c_int) = TDOA_TX_TIMESTAMP_40BITS then
        jni_bind (NewByteArray env TDOA_TIMESTAMP_LEN_40BITS) (\<lambda>dlTdoaTxTimeStamp.
        SetByteArrayRegion env dlTdoaTxTimeStamp 0 TDOA_TIMESTAMP_LEN_40BITS (dl_txTimeStamp m))
      else if (ucast (txTimeStampValue (dl_message_control m)) :: c_int) = TDOA_TX_TIMESTAMP_64BITS then
        jni_bind (NewByteArray env TDOA_TIMESTAMP_LEN_64BITS) (\<lambda>dlTdoaTxTimeStamp.
        SetByteArrayRegion env dlTdoaTxTimeStamp 0 TDOA_TIMESTAMP_LEN_64BITS (dl_txTimeStamp m))
      else
        jni_then (JNI_TRACE_E ''Invalid dlTdoaTxTimeStamp'') (jni_return Null))"

text \<open>Lines 224 to 228.\<close>
definition rxTimeStampValue :: "uint16_t \<Rightarrow> uint16_t" where
  "rxTimeStampValue message_control =
     ucast (((ucast message_control :: c_int) AND TDOA_RX_TIMESTAMP_OFFSET)
            AND TDOA_RX_TIMESTAMP_OFFSET_MASK)"

text \<open>Lines 229 to 243: the receive timestamp.\<close>
definition dltdoa_rx_timestamp :: "JNIEnv \<Rightarrow> tUWA_DLTDOA_RANGING_MEASR \<Rightarrow> jobject jni" where
  "dltdoa_rx_timestamp env m =
     (if (ucast (rxTimeStampValue (dl_message_control m)) :: c_int) = TDOA_RX_TIMESTAMP_40BITS then
        jni_bind (NewByteArray env TDOA_TIMESTAMP_LEN_40BITS) (\<lambda>dlTdoaRxTimeStamp.
        SetByteArrayRegion env dlTdoaRxTimeStamp 0 TDOA_TIMESTAMP_LEN_40BITS (dl_rxTimeStamp m))
      else if (ucast (rxTimeStampValue (dl_message_control m)) :: c_int) = TDOA_RX_TIMESTAMP_64BITS then
        jni_bind (NewByteArray env TDOA_TIMESTAMP_LEN_64BITS) (\<lambda>dlTdoaRxTimeStamp.
        SetByteArrayRegion env dlTdoaRxTimeStamp 0 TDOA_TIMESTAMP_LEN_64BITS (dl_rxTimeStamp m))
      else
        jni_then (JNI_TRACE_E ''Invalid dlTdoaRxTimeStamp'') (jni_return Null))"

text \<open>Lines 245 to 249.\<close>
definition anchorLocationValue :: "uint16_t \<Rightarrow> uint16_t" where
  "anchorLocationValue message_control =
     ucast (((ucast message_control :: c_int) AND TDOA_ANCHOR_LOC_OFFSET)
            AND TDOA_ANCHOR_LOC_OFFSET_MASK)"

text \<open>Lines 250 to 266: the anchor location.\<close>
definition dltdoa_anchor_location :: "JNIEnv \<Rightarrow> tUWA_DLTDOA_RANGING_MEASR \<Rightarrow> jobject jni" where
  "dltdoa_anchor_location env m =
     (if (ucast (anchorLocationValue (dl_message_control m)) :: c_int) = TDOA_ANCHOR_LOC_NOT_INCLUDED then
        jni_then (JNI_TRACE_I ''AnchorLocation not included'') (jni_return Null)
      else if (ucast (anchorLocationValue (dl_message_control m)) :: c_int)
                = TDOA_ANCHOR_LOC_IN_RELATIVE_SYSTEM then
        jni_bind (NewByteArray env TDOA_ANCHOR_LOC_LEN_10BYTES) (\<lambda>dlTdoaAnchorLocation.
        SetByteArrayRegion env dlTdoaAnchorLocation 0 TDOA_ANCHOR_LOC_LEN_10BYTES (dl_anchor_location m))
      else if (ucast (anchorLocationValue (dl_message_control m)) :: c_int)
                = TDOA_ANCHOR_LOC_IN_WGS84_SYSTEM then
        jni_bind (NewByteArray env TDOA_ANCHOR_LOC_LEN_12BYTES) (\<lambda>dlTdoaAnchorLocation.
        SetByteArrayRegion env dlTdoaAnchorLocation 0 TDOA_ANCHOR_LOC_LEN_12BYTES (dl_anchor_location m))
      else
        jni_then (JNI_TRACE_E ''Invalid dlTdoaAnchorLocation'') (jni_return Null))"

text \<open>Lines 268 to 273: masked twice, then shifted right, all in \<^verbatim>\<open>int\<close>.\<close>
definition activeRangingRoundValue :: "uint16_t \<Rightarrow> uint16_t" where
  "activeRangingRoundValue message_control =
     ucast (drop_bit TDOA_ACTIVE_RR_INDEX_POSITION
              (((ucast message_control :: c_int) AND TDOA_ACTIVE_RR_OFFSET)
               AND TDOA_ACTIVE_RR_OFFSET_MASK))"

text \<open>Lines 274 to 282: the active ranging rounds.\<close>
definition dltdoa_active_ranging_round :: "JNIEnv \<Rightarrow> tUWA_DLTDOA_RANGING_MEASR \<Rightarrow> jobject jni" where
  "dltdoa_active_ranging_round env m =
     (if activeRangingRoundValue (dl_message_control m) \<noteq> 0 then
        jni_bind (NewByteArray env (unat (activeRangingRoundValue (dl_message_control m))))
          (\<lambda>dlTdoaActiveRangingRound.
        SetByteArrayRegion env dlTdoaActiveRangingRound 0
          (unat (activeRangingRoundValue (dl_message_control m))) (dl_active_ranging_round m))
      else
        jni_then (JNI_TRACE_I ''dlTdoaActiveRangingRound not included'') (jni_return Null))"

text \<open>Lines 283 to 320: the constructor call, with its arguments in the source's order.\<close>
definition dltdoa_measure ::
  "JNIEnv \<Rightarrow> UwbEventManager \<Rightarrow> uci_defs \<Rightarrow> tUWA_RANGE_DATA_NTF \<Rightarrow> tUWA_DLTDOA_RANGING_MEASR
     \<Rightarrow> jobject jni" where
  "dltdoa_measure env mgr defs ranging_ntf_data m =
     jni_bind (dltdoa_mac_address env defs ranging_ntf_data m) (\<lambda>dlTdoaMacAddress.
     jni_bind (dltdoa_tx_timestamp env m) (\<lambda>dlTdoaTxTimeStamp.
     jni_bind (dltdoa_rx_timestamp env m) (\<lambda>dlTdoaRxTimeStamp.
     jni_bind (dltdoa_anchor_location env m) (\<lambda>dlTdoaAnchorLocation.
     jni_bind (dltdoa_active_ranging_round env m) (\<lambda>dlTdoaActiveRangingRound.
     jni_bind (GetMethodID env (mRangeDlTdoaMeasuresClass mgr) ''<init>''
                 ''([BIIIIIIIIII[B[BIIJJI[B[B)V'') (\<lambda>rngDlTdoaMeasuresCtor.
     NewObject env (mRangeDlTdoaMeasuresClass mgr) rngDlTdoaMeasuresCtor
       [L dlTdoaMacAddress,
        to_int (dl_status m),
        to_int (dl_message_type m),
        I (ucast (dl_message_control m)),
        to_int (dl_block_index m),
        to_int (dl_round_index m),
        to_int (dl_nLos m),
        to_int (dl_aoa_azimuth m),
        to_int (dl_aoa_azimuth_FOM m),
        to_int (dl_aoa_elevation m),
        to_int (dl_aoa_elevation_FOM m),
        L dlTdoaTxTimeStamp,
        L dlTdoaRxTimeStamp,
        to_int (dl_cfo_anchor m),
        to_int (dl_cfo m),
        to_long (dl_initiator_reply_time m),
        to_long (dl_responder_reply_time m),
        to_int (dl_initiator_responder_TOF m),
        L dlTdoaAnchorLocation,
        L dlTdoaActiveRangingRound]))))))"

text \<open>
  Lines 170 to 334: the downlink-TDoA branch. Each iteration reads element \<open>i\<close> of the
  measurement array, builds its object and stores it.
\<close>
definition dltdoa_branch ::
  "JNIEnv \<Rightarrow> UwbEventManager \<Rightarrow> uci_defs \<Rightarrow> tUWA_RANGE_DATA_NTF \<Rightarrow> jobject \<Rightarrow> jobject jni" where
  "dltdoa_branch env mgr defs ranging_ntf_data vendorSpecificData =
     jni_then (JNI_TRACE_I ''ranging_measure_type = MEASUREMENT_TYPE_DLTDOA'')
     (jni_bind (NewObjectArray env (no_of_measurements ranging_ntf_data)
                  (mRangeDlTdoaMeasuresClass mgr) Null) (\<lambda>rangeDlTdoaMeasuresArray.
      jni_bind (for_loop (no_of_measurements ranging_ntf_data)
                  (\<lambda>i rangeDlTdoaMeasuresArray.
                     jni_bind (c_index (dltdoa_range_measr ranging_ntf_data) i) (\<lambda>m.
                     jni_bind (dltdoa_measure env mgr defs ranging_ntf_data m) (\<lambda>obj.
                     SetObjectArrayElement env rangeDlTdoaMeasuresArray i obj)))
                  rangeDlTdoaMeasuresArray) (\<lambda>rangeDlTdoaMeasuresArray.
      jni_bind (GetMethodID env (mRangeDataClass mgr) ''<init>''
                  ''(JJIJBBI[Lcom/android/server/uwb/data/UwbDownLinkTDoAMeasurement;[B)V'')
        (\<lambda>rngDataCtorDlTdoa.
      NewObject env (mRangeDataClass mgr) rngDataCtorDlTdoa
        [to_long (seq_counter ranging_ntf_data),
         to_long (session_id ranging_ntf_data),
         to_int (rcr_indication ranging_ntf_data),
         to_long (curr_range_interval ranging_ntf_data),
         to_int (ranging_measure_type ranging_ntf_data),
         to_int (mac_addr_mode_indicator ranging_ntf_data),
         to_int (int (no_of_measurements ranging_ntf_data)),
         L rangeDlTdoaMeasuresArray,
         L vendorSpecificData]))))"

subsection \<open>One two-way measurement (lines 101 to 155)\<close>

text \<open>
  The constructor is looked up under a signature that ends with its last \<^verbatim>\<open>int\<close>; the
  argument list records what the native code passes, \<^verbatim>\<open>rfu\<close> included.
\<close>
definition twr_measure_unused ::
  "JNIEnv \<Rightarrow> UwbEventManager \<Rightarrow> uci_defs \<Rightarrow> tUWA_RANGE_DATA_NTF \<Rightarrow> tUWA_TWR_RANGING_MEASR
     \<Rightarrow> jobject jni" where
  "twr_measure_unused env mgr defs ranging_ntf_data m =
     jni_bind
       (if mac_addr_mode_indicator ranging_ntf_data = SHORT_MAC_ADDRESS defs then
          jni_bind (NewByteArray env 2) (\<lambda>macAddress.
          jni_bind (SetByteArrayRegion env macAddress 0 2 (twr_mac_addr m)) (\<lambda>macAddress.
          jni_bind (NewByteArray env 12) (\<lambda>rfu.
          jni_bind (SetByteArrayRegion env rfu 0 12 (twr_rfu m)) (\<lambda>rfu.
          jni_return (macAddress, rfu)))))
        else
          jni_bind (NewByteArray env 8) (\<lambda>macAddress.
          jni_bind (SetByteArrayRegion env macAddress 0 8 (twr_mac_addr m)) (\<lambda>macAddress.
          jni_bind (NewByteArray env 6) (\<lambda>rfu.
          jni_bind (SetByteArrayRegion env rfu 0 6 (twr_rfu m)) (\<lambda>rfu.
          jni_return (macAddress, rfu))))))
       (\<lambda>(macAddress, rfu).
     jni_bind (GetMethodID env (mRangingTwoWayMeasuresClass mgr) ''<init>'' ''([BIIIIIIIIIIIII)V'')
       (\<lambda>rngMeasuresCtor.
     NewObject env (mRangingTwoWayMeasuresClass mgr) rngMeasuresCtor
       [L macAddress,
        to_int (twr_status m),
        to_int (twr_nLos m),
        to_int (twr_distance m),
        to_int (twr_aoa_azimuth m),
        to_int (twr_aoa_azimuth_FOM m),
        to_int (twr_aoa_elevation m),
        to_int (twr_aoa_elevation_FOM m),
        to_int (twr_aoa_dest_azimuth m),
        to_int (twr_aoa_dest_azimuth_FOM m),
        to_int (twr_aoa_dest_elevation m),
        to_int (twr_aoa_dest_elevation_FOM m),
        to_int (twr_slot_index m),
        to_int (twr_rssi m),
        L rfu]))"

text \<open>Lines 90 to 169: the two-way branch.\<close>
definition twr_branch_unused ::
  "JNIEnv \<Rightarrow> UwbEventManager \<Rightarrow> uci_defs \<Rightarrow> tUWA_RANGE_DATA_NTF \<Rightarrow> jobject \<Rightarrow> jobject jni" where
  "twr_branch_unused env mgr defs ranging_ntf_data vendorSpecificData =
     jni_then (JNI_TRACE_I ''ranging_measure_type = MEASUREMENT_TYPE_TWOWAY'')
     (jni_bind (NewObjectArray env (no_of_measurements ranging_ntf_data)
                  (mRangingTwoWayMeasuresClass mgr) Null) (\<lambda>rangeMeasuresArray.
      jni_bind (for_loop (no_of_measurements ranging_ntf_data)
                  (\<lambda>i rangeMeasuresArray.
                     jni_bind (c_index (twr_range_measr ranging_ntf_data) i) (\<lambda>m.
                     jni_bind (twr_measure_unused env mgr defs ranging_ntf_data m) (\<lambda>obj.
                     SetObjectArrayElement env rangeMeasuresArray i obj)))
                  rangeMeasuresArray) (\<lambda>rangeMeasuresArray.
      jni_bind (GetMethodID env (mRangeDataClass mgr) ''<init>''
                  ''(JJIJIII[Lcom/android/server/uwb/data/UwbTwoWayMeasurement;[B)V'')
        (\<lambda>rngDataCtorTwm.
      NewObject env (mRangeDataClass mgr) rngDataCtorTwm
        [to_long (seq_counter ranging_ntf_data),
         to_long (session_id ranging_ntf_data),
         to_int (rcr_indication ranging_ntf_data),
         to_long (curr_range_interval ranging_ntf_data),
         to_int (ranging_measure_type ranging_ntf_data),
         to_int (mac_addr_mode_indicator ranging_ntf_data),
         to_int (int (no_of_measurements ranging_ntf_data)),
         L rangeMeasuresArray,
         L vendorSpecificData]))))"

subsection \<open>The one-way branch with angle of arrival (lines 335 to 383)\<close>

definition owr_aoa_branch ::
  "JNIEnv \<Rightarrow> UwbEventManager \<Rightarrow> uci_defs \<Rightarrow> tUWA_RANGE_DATA_NTF \<Rightarrow> jobject \<Rightarrow> jobject jni" where
  "owr_aoa_branch env mgr defs ranging_ntf_data vendorSpecificData =
     jni_then (JNI_TRACE_I ''ranging_measure_type = MEASUREMENT_TYPE_OWR_WITH_AOA'')
     (jni_bind
        (if mac_addr_mode_indicator ranging_ntf_data = SHORT_MAC_ADDRESS defs then
           jni_bind (NewByteArray env 2) (\<lambda>owrAoaMacAddress.
           SetByteArrayRegion env owrAoaMacAddress 0 2
             (owr_mac_addr (owr_with_aoa_range_measr ranging_ntf_data)))
         else
           jni_bind (NewByteArray env 8) (\<lambda>owrAoaMacAddress.
           SetByteArrayRegion env owrAoaMacAddress 0 8
             (owr_mac_addr (owr_with_aoa_range_measr ranging_ntf_data))))
        (\<lambda>owrAoaMacAddress.
      jni_bind (GetMethodID env (mRangingOwrAoaMeasuresClass mgr) ''<init>'' ''([BIIIIIIII)V'')
        (\<lambda>rngOwrAoaMeasuresCtor.
      jni_bind (NewObject env (mRangingOwrAoaMeasuresClass mgr) rngOwrAoaMeasuresCtor
        [L owrAoaMacAddress,
         to_int (owr_status (owr_with_aoa_range_measr ranging_ntf_data)),
         to_int (owr_nLos (owr_with_aoa_range_measr ranging_ntf_data)),
         to_int (owr_frame_seq_num (owr_with_aoa_range_measr ranging_ntf_data)),
         to_int (owr_block_index (owr_with_aoa_range_measr ranging_ntf_data)),
         to_int (owr_aoa_azimuth (owr_with_aoa_range_measr ranging_ntf_data)),
         to_int (owr_aoa_azimuth_FOM (owr_with_aoa_range_measr ranging_ntf_data)),
         to_int (owr_aoa_elevation (owr_with_aoa_range_measr ranging_ntf_data)),
         to_int (owr_aoa_elevation_FOM (owr_with_aoa_range_measr ranging_ntf_data))])
        (\<lambda>rangeOwrAoaMeasures.
      jni_bind (GetMethodID env (mRangeDataClass mgr) ''<init>''
                  ''(JJIJIIILcom/android/server/uwb/data/UwbOwrAoaMeasurement;[B)V'')
        (\<lambda>rngDataCtorOwrAoa.
      NewObject env (mRangeDataClass mgr) rngDataCtorOwrAoa
        [to_long (seq_counter ranging_ntf_data),
         to_long (session_id ranging_ntf_data),
         to_int (rcr_indication ranging_ntf_data),
         to_long (curr_range_interval ranging_ntf_data),
         to_int (ranging_measure_type ranging_ntf_data),
         to_int (mac_addr_mode_indicator ranging_ntf_data),
         to_int (int (no_of_measurements ranging_ntf_data)),
         L rangeOwrAoaMeasures,
         L vendorSpecificData])))))"

subsection \<open>The handler (lines 68 to 398)\<close>

text \<open>
  The handler dereferences its argument unconditionally; the model takes the struct it
  points to. \<open>rangeDataObject\<close> stays \<^verbatim>\<open>NULL\<close> when no branch matches the type tag.
\<close>
definition onRangeDataNotificationReceived_unused ::
  "uci_defs \<Rightarrow> UwbEventManager \<Rightarrow> tUWA_RANGE_DATA_NTF \<Rightarrow> unit jni" where
  "onRangeDataNotificationReceived_unused defs mgr ranging_ntf_data =
     jni_bind ScopedJniEnv (\<lambda>env.
     if env = NULL_ENV then JNI_TRACE_E ''jni env is null''
     else
       jni_bind
         (if 0 < vs_len (vendor_specific_ntf ranging_ntf_data) then
            jni_bind (NewByteArray env (vs_len (vendor_specific_ntf ranging_ntf_data)))
              (\<lambda>vendorSpecificData.
            SetByteArrayRegion env vendorSpecificData 0
              (vs_len (vendor_specific_ntf ranging_ntf_data))
              (vs_data (vendor_specific_ntf ranging_ntf_data)))
          else
            jni_then (JNI_TRACE_I ''No Vendor specific ntf data!'') (jni_return Null))
         (\<lambda>vendorSpecificData.
       jni_bind
         (if ranging_measure_type ranging_ntf_data = MEASUREMENT_TYPE_TWOWAY defs then
            twr_branch_unused env mgr defs ranging_ntf_data vendorSpecificData
          else if ranging_measure_type ranging_ntf_data = MEASUREMENT_TYPE_DLTDOA defs then
            dltdoa_branch env mgr defs ranging_ntf_data vendorSpecificData
          else if ranging_measure_type ranging_ntf_data = MEASUREMENT_TYPE_OWR_WITH_AOA defs then
            owr_aoa_branch env mgr defs ranging_ntf_data vendorSpecificData
          else jni_return Null)
         (\<lambda>rangeDataObject.
       jni_then
         (case mOnRangeDataNotificationReceived mgr of
            Some mid \<Rightarrow>
              if rangeDataObject \<noteq> Null then
                jni_then (CallVoidMethod env (mObject mgr) mid [L rangeDataObject])
                (jni_bind (ExceptionCheck env) (\<lambda>exc.
                   if exc then
                     jni_then (ExceptionDescribe env)
                     (jni_then (ExceptionClear env)
                     (JNI_TRACE_E ''fail to send range data''))
                   else jni_return ()))
              else JNI_TRACE_E ''rangeDataNtf MID is NULL''
          | None \<Rightarrow> JNI_TRACE_E ''rangeDataNtf MID is NULL'')
         (JNI_TRACE_I ''exit''))))"

section \<open>Handlers that are the same in both copies\<close>

text \<open>
  \<^verbatim>\<open>onRawUciNotificationReceived\<close>, \<^verbatim>\<open>onSessionStatusNotificationReceived\<close>,
  \<^verbatim>\<open>onDeviceStateNotificationReceived\<close>, \<^verbatim>\<open>onCoreGenericErrorNotificationReceived\<close> and
  \<^verbatim>\<open>onBlinkDataTxNotificationReceived\<close> differ between \<^verbatim>\<open>jni/\<close> and \<^verbatim>\<open>jni_unused/\<close> in layout
  only. A pointer argument is \<open>None\<close> when null; behind a null pointer nothing is readable.
\<close>

definition buffer_of :: "jbyte list option \<Rightarrow> jbyte list" where
  "buffer_of data = (case data of None \<Rightarrow> [] | Some bytes \<Rightarrow> bytes)"

definition onRawUciNotificationReceived ::
  "UwbEventManager \<Rightarrow> jbyte list option \<Rightarrow> uint16_t \<Rightarrow> unit jni" where
  "onRawUciNotificationReceived mgr data len =
     jni_then (JNI_TRACE_I ''Enter'')
     (jni_bind ScopedJniEnv (\<lambda>env.
      if env = NULL_ENV then JNI_TRACE_E ''jni env is null''
      else if len = 0 \<or> data = None then
        JNI_TRACE_E ''length is zero or data is NULL, skip sending notifications''
      else
        jni_bind (NewByteArray env (unat len)) (\<lambda>dataArray.
        jni_bind (SetByteArrayRegion env dataArray 0 (unat len) (buffer_of data)) (\<lambda>dataArray.
        jni_then
          (case mOnRawUciNotificationReceived mgr of
             Some mid \<Rightarrow>
               jni_then (CallVoidMethod env (mObject mgr) mid [L dataArray])
               (jni_bind (ExceptionCheck env) (\<lambda>exc.
                  if exc then
                    jni_then (ExceptionClear env) (JNI_TRACE_E ''fail to send notification'')
                  else jni_return ()))
           | None \<Rightarrow> JNI_TRACE_E ''onRawUciNotificationReceived MID is NULL'')
          (JNI_TRACE_I ''exit'')))))"

definition onSessionStatusNotificationReceived ::
  "UwbEventManager \<Rightarrow> 32 word \<Rightarrow> 8 word \<Rightarrow> 8 word \<Rightarrow> unit jni" where
  "onSessionStatusNotificationReceived mgr sessionId state reasonCode =
     jni_then (JNI_TRACE_I ''enter; session ID=%x, State = %x reasonCode = %x'')
     (jni_bind ScopedJniEnv (\<lambda>env.
      if env = NULL_ENV then JNI_TRACE_E ''jni env is null''
      else
        jni_then
          (case mOnSessionStatusNotificationReceived mgr of
             Some mid \<Rightarrow>
               jni_then (CallVoidMethod env (mObject mgr) mid
                           [J (ucast sessionId), I (ucast state), I (ucast reasonCode)])
               (jni_bind (ExceptionCheck env) (\<lambda>exc.
                  if exc then jni_then (ExceptionClear env) (JNI_TRACE_E ''fail to notify'')
                  else jni_return ()))
           | None \<Rightarrow> JNI_TRACE_E ''sessionStatusNtf MID is null '')
          (JNI_TRACE_I ''exit'')))"

definition onDeviceStateNotificationReceived :: "UwbEventManager \<Rightarrow> 8 word \<Rightarrow> unit jni" where
  "onDeviceStateNotificationReceived mgr state =
     jni_then (JNI_TRACE_I ''enter:  State = %x'')
     (jni_bind ScopedJniEnv (\<lambda>env.
      if env = NULL_ENV then JNI_TRACE_E ''jni env is null''
      else
        jni_then
          (case mOnDeviceStateNotificationReceived mgr of
             Some mid \<Rightarrow>
               jni_then (CallVoidMethod env (mObject mgr) mid [I (ucast state)])
               (jni_bind (ExceptionCheck env) (\<lambda>exc.
                  if exc then jni_then (ExceptionClear env) (JNI_TRACE_E ''fail to notify'')
                  else jni_return ()))
           | None \<Rightarrow> JNI_TRACE_E ''deviceStatusNtf MID is null '')
          (JNI_TRACE_I ''exit'')))"

definition onCoreGenericErrorNotificationReceived :: "UwbEventManager \<Rightarrow> 8 word \<Rightarrow> unit jni" where
  "onCoreGenericErrorNotificationReceived mgr state =
     jni_then (JNI_TRACE_I ''enter:  State = %x'')
     (jni_bind ScopedJniEnv (\<lambda>env.
      if env = NULL_ENV then JNI_TRACE_E ''jni env is null''
      else
        jni_then
          (case mOnCoreGenericErrorNotificationReceived mgr of
             Some mid \<Rightarrow>
               jni_then (CallVoidMethod env (mObject mgr) mid [I (ucast state)])
               (jni_bind (ExceptionCheck env) (\<lambda>exc.
                  if exc then jni_then (ExceptionClear env) (JNI_TRACE_E ''fail to notify'')
                  else jni_return ()))
           | None \<Rightarrow> JNI_TRACE_E ''genericErrorStatusNtf MID is null '')
          (JNI_TRACE_I ''exit'')))"

definition onBlinkDataTxNotificationReceived :: "UwbEventManager \<Rightarrow> 8 word \<Rightarrow> unit jni" where
  "onBlinkDataTxNotificationReceived mgr status =
     jni_then (JNI_TRACE_I ''enter:  State = %x'')
     (jni_bind ScopedJniEnv (\<lambda>env.
      if env = NULL_ENV then JNI_TRACE_E ''jni env is null''
      else
        jni_then
          (case mOnBlinkDataTxNotificationReceived mgr of
             Some mid \<Rightarrow>
               jni_then (CallVoidMethod env (mObject mgr) mid [I (ucast status)])
               (jni_bind (ExceptionCheck env) (\<lambda>exc.
                  if exc then jni_then (ExceptionClear env) (JNI_TRACE_E ''fail to notify'')
                  else jni_return ()))
           | None \<Rightarrow> JNI_TRACE_E ''BlikDataTxNtf MID is null '')
          (JNI_TRACE_I ''exit'')))"

section \<open>The superseded copy: the other handlers\<close>

text \<open>
  \<^verbatim>\<open>onMulticastListUpdateNotificationReceived\<close>, lines 508 to 579. The three local
  variable-length arrays are filled by the two loops before they are read; they start out
  zero-filled in the model.
\<close>
definition onMulticastListUpdateNotificationReceived_unused ::
  "uci_defs \<Rightarrow> UwbEventManager \<Rightarrow> tUWA_SESSION_UPDATE_MULTICAST_LIST_NTF option \<Rightarrow> unit jni" where
  "onMulticastListUpdateNotificationReceived_unused defs mgr multicast_list_ntf =
     jni_then (JNI_TRACE_I ''enter;'')
     (jni_bind ScopedJniEnv (\<lambda>env.
      if env = NULL_ENV then JNI_TRACE_E ''jni env is null''
      else case multicast_list_ntf of
        None \<Rightarrow> JNI_TRACE_E ''multicast_list_ntf is null''
      | Some ntf \<Rightarrow>
        if no_of_controlees ntf > MAX_NUM_CONTROLLEES defs then
          JNI_TRACE_E ''no Of Controlees %d exceeded max allowed: %d ''
        else
          jni_bind (NewIntArray env (no_of_controlees ntf)) (\<lambda>controleeMacAddressArray.
          jni_bind (NewLongArray env (no_of_controlees ntf)) (\<lambda>subSessionIdArray.
          jni_bind (NewIntArray env (no_of_controlees ntf)) (\<lambda>statusArray.
          jni_bind
            (if no_of_controlees ntf > 0 then
               jni_bind
                 (for_loop (no_of_controlees ntf)
                    (\<lambda>i (controleeMacAddressList, statusList).
                       jni_bind (c_index (controlee_mac_address_list ntf) i) (\<lambda>a.
                       jni_bind (c_index (status_list ntf) i) (\<lambda>st.
                       jni_return (controleeMacAddressList[i := word_of_int a],
                                   statusList[i := word_of_int st]))))
                    (replicate (no_of_controlees ntf) 0, replicate (no_of_controlees ntf) 0))
                 (\<lambda>(controleeMacAddressList, statusList).
               jni_bind
                 (for_loop (no_of_controlees ntf)
                    (\<lambda>i subSessionIdList.
                       jni_bind (c_index (subsession_id_list ntf) i) (\<lambda>x.
                       jni_return (subSessionIdList[i := word_of_int x])))
                    (replicate (no_of_controlees ntf) 0))
                 (\<lambda>subSessionIdList.
               jni_bind (SetIntArrayRegion env controleeMacAddressArray 0 (no_of_controlees ntf)
                           controleeMacAddressList) (\<lambda>controleeMacAddressArray.
               jni_bind (SetLongArrayRegion env subSessionIdArray 0 (no_of_controlees ntf)
                           subSessionIdList) (\<lambda>subSessionIdArray.
               jni_bind (SetIntArrayRegion env statusArray 0 (no_of_controlees ntf)
                           statusList) (\<lambda>statusArray.
               jni_return (controleeMacAddressArray, subSessionIdArray, statusArray))))))
             else jni_return (controleeMacAddressArray, subSessionIdArray, statusArray))
            (\<lambda>(controleeMacAddressArray, subSessionIdArray, statusArray).
          jni_bind (GetMethodID env (mMulticastUpdateListDataClass mgr) ''<init>'' ''(JII[I[J[I)V'')
            (\<lambda>multicastUpdateListDataCtor.
          jni_bind (NewObject env (mMulticastUpdateListDataClass mgr) multicastUpdateListDataCtor
                      [to_long (mc_session_id ntf),
                       to_int (remaining_list ntf),
                       to_int (int (no_of_controlees ntf)),
                       L controleeMacAddressArray,
                       L subSessionIdArray,
                       L statusArray]) (\<lambda>multicastUpdateListDataObject.
          jni_then
            (case mOnMulticastListUpdateNotificationReceived mgr of
               Some mid \<Rightarrow>
                 jni_then (CallVoidMethod env (mObject mgr) mid [L multicastUpdateListDataObject])
                 (jni_bind (ExceptionCheck env) (\<lambda>exc.
                    if exc then
                      jni_then (ExceptionClear env)
                        (JNI_TRACE_E ''fail to send Multicast update list ntf'')
                    else jni_return ()))
             | None \<Rightarrow> JNI_TRACE_E ''MulticastUpdateListNtf MID is null '')
            (JNI_TRACE_I ''exit'')))))))))"

text \<open>\<^verbatim>\<open>onVendorUciNotificationReceived\<close>, lines 605 to 628.\<close>
definition onVendorUciNotificationReceived ::
  "UwbEventManager \<Rightarrow> 8 word \<Rightarrow> 8 word \<Rightarrow> jbyte list option \<Rightarrow> uint16_t \<Rightarrow> unit jni" where
  "onVendorUciNotificationReceived mgr gid oid data len =
     jni_bind ScopedJniEnv (\<lambda>env.
     if env = NULL_ENV then JNI_TRACE_E ''jni env is null''
     else
       jni_bind (NewByteArray env (unat len)) (\<lambda>dataArray.
       jni_bind (SetByteArrayRegion env dataArray 0 (unat len) (buffer_of data)) (\<lambda>dataArray.
       jni_then
         (case mOnVendorUciNotificationReceived mgr of
            Some mid \<Rightarrow>
              jni_then (CallVoidMethod env (mObject mgr) mid
                          [I (ucast gid), I (ucast oid), L dataArray])
              (jni_bind (ExceptionCheck env) (\<lambda>exc.
                 if exc then
                   jni_then (ExceptionClear env) (JNI_TRACE_E ''fail to send notification'')
                 else jni_return ()))
          | None \<Rightarrow> JNI_TRACE_E ''onVendorUciNotificationReceived MID is NULL'')
         (JNI_TRACE_I ''exit''))))"

text \<open>
  \<^verbatim>\<open>onVendorDeviceInfo\<close>, lines 630 to 652: the environment is obtained and used without
  being compared to \<^verbatim>\<open>NULL\<close>.
\<close>
definition onVendorDeviceInfo :: "UwbEventManager \<Rightarrow> jbyte list option \<Rightarrow> 8 word \<Rightarrow> unit jni" where
  "onVendorDeviceInfo mgr data len =
     (if uint len \<le> 0 \<or> data = None then
        JNI_TRACE_E ''data len is Zero or vendorDevice info  is NULL''
      else
        jni_bind ScopedJniEnv (\<lambda>env.
        jni_bind (NewByteArray env (unat len)) (\<lambda>dataArray.
        jni_bind (SetByteArrayRegion env dataArray 0 (unat len) (buffer_of data)) (\<lambda>dataArray.
        jni_then
          (case mOnVendorDeviceInfo mgr of
             Some mid \<Rightarrow>
               jni_then (CallVoidMethod env (mObject mgr) mid [L dataArray])
               (jni_bind (ExceptionCheck env) (\<lambda>exc.
                  if exc then jni_then (ExceptionClear env) (JNI_TRACE_E ''fail to vendor info'')
                  else jni_return ()))
           | None \<Rightarrow> JNI_TRACE_E ''onVendorDeviceInfo MID is NULL'')
          (JNI_TRACE_I ''exit'')))))"

section \<open>The active copy\<close>

subsection \<open>Ranging data (\<^verbatim>\<open>jni/UwbEventManager.cpp\<close>, lines 60 to 212)\<close>

text \<open>Lines 82 to 115: one two-way measurement.\<close>
definition twr_measure_active ::
  "JNIEnv \<Rightarrow> UwbEventManager \<Rightarrow> uci_defs \<Rightarrow> tUWA_RANGE_DATA_NTF \<Rightarrow> tUWA_TWR_RANGING_MEASR
     \<Rightarrow> jobject jni" where
  "twr_measure_active env mgr defs ranging_ntf_data m =
     jni_bind
       (if mac_addr_mode_indicator ranging_ntf_data = SHORT_MAC_ADDRESS defs then
          jni_bind (NewByteArray env 2) (\<lambda>macAddress.
          jni_bind (SetByteArrayRegion env macAddress 0 2 (twr_mac_addr m)) (\<lambda>macAddress.
          jni_bind (NewByteArray env 12) (\<lambda>rfu.
          jni_bind (SetByteArrayRegion env rfu 0 12 (twr_rfu m)) (\<lambda>rfu.
          jni_return (macAddress, rfu)))))
        else
          jni_bind (NewByteArray env 8) (\<lambda>macAddress.
          jni_bind (SetByteArrayRegion env macAddress 0 8 (twr_mac_addr m)) (\<lambda>macAddress.
          jni_bind (NewByteArray env 6) (\<lambda>rfu.
          jni_bind (SetByteArrayRegion env rfu 0 6 (twr_rfu m)) (\<lambda>rfu.
          jni_return (macAddress, rfu))))))
       (\<lambda>(macAddress, rfu).
     jni_bind (GetMethodID env (mRangingTwoWayMeasuresClass mgr) ''<init>'' ''([BIIIIIIIIIIII)V'')
       (\<lambda>rngMeasuresCtor.
     NewObject env (mRangingTwoWayMeasuresClass mgr) rngMeasuresCtor
       [L macAddress,
        to_int (twr_status m),
        to_int (twr_nLos m),
        to_int (twr_distance m),
        to_int (twr_aoa_azimuth m),
        to_int (twr_aoa_azimuth_FOM m),
        to_int (twr_aoa_elevation m),
        to_int (twr_aoa_elevation_FOM m),
        to_int (twr_aoa_dest_azimuth m),
        to_int (twr_aoa_dest_azimuth_FOM m),
        to_int (twr_aoa_dest_elevation m),
        to_int (twr_aoa_dest_elevation_FOM m),
        to_int (twr_slot_index m),
        L rfu]))"

text \<open>Lines 72 to 128: the two-way branch.\<close>
definition twr_branch_active ::
  "JNIEnv \<Rightarrow> UwbEventManager \<Rightarrow> uci_defs \<Rightarrow> tUWA_RANGE_DATA_NTF \<Rightarrow> jobject jni" where
  "twr_branch_active env mgr defs ranging_ntf_data =
     jni_then (JNI_TRACE_I ''ranging_measure_type = MEASUREMENT_TYPE_TWOWAY'')
     (jni_bind (NewObjectArray env (no_of_measurements ranging_ntf_data)
                  (mRangingTwoWayMeasuresClass mgr) Null) (\<lambda>rangeMeasuresArray.
      jni_bind (for_loop (no_of_measurements ranging_ntf_data)
                  (\<lambda>i rangeMeasuresArray.
                     jni_bind (c_index (twr_range_measr ranging_ntf_data) i) (\<lambda>m.
                     jni_bind (twr_measure_active env mgr defs ranging_ntf_data m) (\<lambda>obj.
                     SetObjectArrayElement env rangeMeasuresArray i obj)))
                  rangeMeasuresArray) (\<lambda>rangeMeasuresArray.
      jni_bind (GetMethodID env (mRangeDataClass mgr) ''<init>''
                  ''(JJIJIII[Lcom/android/uwb/data/UwbTwoWayMeasurement;)V'')
        (\<lambda>rngDataCtorTwm.
      NewObject env (mRangeDataClass mgr) rngDataCtorTwm
        [to_long (seq_counter ranging_ntf_data),
         to_long (session_id ranging_ntf_data),
         to_int (rcr_indication ranging_ntf_data),
         to_long (curr_range_interval ranging_ntf_data),
         to_int (ranging_measure_type ranging_ntf_data),
         to_int (mac_addr_mode_indicator ranging_ntf_data),
         to_int (int (no_of_measurements ranging_ntf_data)),
         L rangeMeasuresArray]))))"

text \<open>Lines 139 to 183: one TDoA measurement.\<close>
definition tdoa_measure ::
  "JNIEnv \<Rightarrow> UwbEventManager \<Rightarrow> uci_defs \<Rightarrow> tUWA_RANGE_DATA_NTF \<Rightarrow> tUWA_TDoA_RANGING_MEASR
     \<Rightarrow> jobject jni" where
  "tdoa_measure env mgr defs ranging_ntf_data m =
     jni_bind
       (if mac_addr_mode_indicator ranging_ntf_data = SHORT_MAC_ADDRESS defs then
          jni_bind (NewByteArray env 2) (\<lambda>tdoaMacAddress.
          jni_bind (SetByteArrayRegion env tdoaMacAddress 0 2 (tdoa_mac_addr m)) (\<lambda>tdoaMacAddress.
          jni_bind (NewByteArray env 12) (\<lambda>rfu.
          jni_bind (SetByteArrayRegion env rfu 0 12 (tdoa_rfu m)) (\<lambda>rfu.
          jni_return (tdoaMacAddress, rfu)))))
        else
          jni_bind (NewByteArray env 8) (\<lambda>tdoaMacAddress.
          jni_bind (SetByteArrayRegion env tdoaMacAddress 0 8 (tdoa_mac_addr m)) (\<lambda>tdoaMacAddress.
          jni_bind (NewByteArray env 6) (\<lambda>rfu.
          jni_bind (SetByteArrayRegion env rfu 0 6 (tdoa_rfu m)) (\<lambda>rfu.
          jni_return (tdoaMacAddress, rfu))))))
       (\<lambda>(tdoaMacAddress, rfu).
     jni_bind
       (if tdoa_device_info_size m > 0 then
          jni_bind (NewByteArray env (tdoa_device_info_size m)) (\<lambda>deviceInfoArray.
          if deviceInfoArray \<noteq> Null then
            SetByteArrayRegion env deviceInfoArray 0 (tdoa_device_info_size m) (tdoa_device_info m)
          else jni_return deviceInfoArray)
        else jni_return Null)
       (\<lambda>deviceInfoArray.
     jni_bind
       (if tdoa_blink_payload_size m > 0 then
          jni_bind (NewByteArray env (tdoa_blink_payload_size m)) (\<lambda>blinkPayloadData.
          if blinkPayloadData \<noteq> Null then
            SetByteArrayRegion env blinkPayloadData 0 (tdoa_blink_payload_size m)
              (tdoa_blink_payload_data m)
          else jni_return blinkPayloadData)
        else jni_return Null)
       (\<lambda>blinkPayloadData.
     jni_bind (GetMethodID env (mRangeTdoaMeasuresClass mgr) ''<init>'' ''([BIIIIIIJJ[B[B[B)V'')
       (\<lambda>rngTdoaMeasuresCtor.
     NewObject env (mRangeTdoaMeasuresClass mgr) rngTdoaMeasuresCtor
       [L tdoaMacAddress,
        to_int (tdoa_frame_type m),
        to_int (tdoa_nLos m),
        to_int (tdoa_aoa_azimuth m),
        to_int (tdoa_aoa_azimuth_FOM m),
        to_int (tdoa_aoa_elevation m),
        to_int (tdoa_aoa_elevation_FOM m),
        to_long (tdoa_timeStamp m),
        to_long (tdoa_blink_frame_number m),
        L rfu,
        L deviceInfoArray,
        L blinkPayloadData]))))"

text \<open>Lines 130 to 199: the branch taken for every type tag other than two-way.\<close>
definition tdoa_branch ::
  "JNIEnv \<Rightarrow> UwbEventManager \<Rightarrow> uci_defs \<Rightarrow> tUWA_RANGE_DATA_NTF \<Rightarrow> jobject jni" where
  "tdoa_branch env mgr defs ranging_ntf_data =
     jni_then (JNI_TRACE_I ''ranging_measure_type = MEASUREMENT_TYPE_ONEWAY'')
     (jni_bind (NewObjectArray env (no_of_measurements ranging_ntf_data)
                  (mRangeTdoaMeasuresClass mgr) Null) (\<lambda>rangeTdoaMeasuresArray.
      jni_bind (for_loop (no_of_measurements ranging_ntf_data)
                  (\<lambda>i rangeTdoaMeasuresArray.
                     jni_bind (c_index (tdoa_range_measr ranging_ntf_data) i) (\<lambda>m.
                     jni_bind (tdoa_measure env mgr defs ranging_ntf_data m) (\<lambda>obj.
                     SetObjectArrayElement env rangeTdoaMeasuresArray i obj)))
                  rangeTdoaMeasuresArray) (\<lambda>rangeTdoaMeasuresArray.
      jni_bind (GetMethodID env (mRangeDataClass mgr) ''<init>''
                  ''(JJIJIII[Lcom/android/uwb/data/UwbTDoAMeasurement;)V'')
        (\<lambda>rngDataCtorTdoa.
      NewObject env (mRangeDataClass mgr) rngDataCtorTdoa
        [to_long (seq_counter ranging_ntf_data),
         to_long (session_id ranging_ntf_data),
         to_int (rcr_indication ranging_ntf_data),
         to_long (curr_range_interval ranging_ntf_data),
         to_int (ranging_measure_type ranging_ntf_data),
         to_int (mac_addr_mode_indicator ranging_ntf_data),
         to_int (int (no_of_measurements ranging_ntf_data)),
         L rangeTdoaMeasuresArray]))))"

text \<open>The handler: one test of the type tag, and a delivery guarded on the method id only.\<close>
definition onRangeDataNotificationReceived_active ::
  "uci_defs \<Rightarrow> UwbEventManager \<Rightarrow> tUWA_RANGE_DATA_NTF \<Rightarrow> unit jni" where
  "onRangeDataNotificationReceived_active defs mgr ranging_ntf_data =
     jni_bind ScopedJniEnv (\<lambda>env.
     if env = NULL_ENV then JNI_TRACE_E ''jni env is null''
     else
       jni_bind
         (if ranging_measure_type ranging_ntf_data = MEASUREMENT_TYPE_TWOWAY defs then
            twr_branch_active env mgr defs ranging_ntf_data
          else
            tdoa_branch env mgr defs ranging_ntf_data)
         (\<lambda>rangeDataObject.
       jni_then
         (case mOnRangeDataNotificationReceived mgr of
            Some mid \<Rightarrow>
              jni_then (CallVoidMethod env (mObject mgr) mid [L rangeDataObject])
              (jni_bind (ExceptionCheck env) (\<lambda>exc.
                 if exc then
                   jni_then (ExceptionDescribe env)
                   (jni_then (ExceptionClear env)
                   (JNI_TRACE_E ''fail to send range data''))
                 else jni_return ()))
          | None \<Rightarrow> JNI_TRACE_E ''rangeDataNtf MID is NULL'')
         (JNI_TRACE_I ''exit'')))"

subsection \<open>Multicast list update (lines 316 to 369)\<close>

definition onMulticastListUpdateNotificationReceived_active ::
  "UwbEventManager \<Rightarrow> tUWA_SESSION_UPDATE_MULTICAST_LIST_NTF option \<Rightarrow> unit jni" where
  "onMulticastListUpdateNotificationReceived_active mgr multicast_list_ntf =
     jni_then (JNI_TRACE_I ''enter;'')
     (jni_bind ScopedJniEnv (\<lambda>env.
      if env = NULL_ENV then JNI_TRACE_E ''jni env is null''
      else case multicast_list_ntf of
        None \<Rightarrow> JNI_TRACE_E ''multicast_list_ntf is null''
      | Some ntf \<Rightarrow>
          jni_bind (NewLongArray env (no_of_controlees ntf)) (\<lambda>subSessionIdArray.
          jni_bind (NewIntArray env (no_of_controlees ntf)) (\<lambda>statusArray.
          jni_bind
            (if no_of_controlees ntf > 0 then
               jni_bind
                 (for_loop (no_of_controlees ntf)
                    (\<lambda>i statusList.
                       jni_bind (c_index (status_list ntf) i) (\<lambda>st.
                       jni_return (statusList[i := word_of_int st])))
                    (replicate (no_of_controlees ntf) 0))
                 (\<lambda>statusList.
               jni_bind
                 (for_loop (no_of_controlees ntf)
                    (\<lambda>i subSessionIdList.
                       jni_bind (c_index (subsession_id_list ntf) i) (\<lambda>x.
                       jni_return (subSessionIdList[i := word_of_int x])))
                    (replicate (no_of_controlees ntf) 0))
                 (\<lambda>subSessionIdList.
               jni_bind (SetLongArrayRegion env subSessionIdArray 0 (no_of_controlees ntf)
                           subSessionIdList) (\<lambda>subSessionIdArray.
               jni_bind (SetIntArrayRegion env statusArray 0 (no_of_controlees ntf)
                           statusList) (\<lambda>statusArray.
               jni_return (subSessionIdArray, statusArray)))))
             else jni_return (subSessionIdArray, statusArray))
            (\<lambda>(subSessionIdArray, statusArray).
          jni_bind (GetMethodID env (mMulticastUpdateListDataClass mgr) ''<init>'' ''(JII[J[I)V'')
            (\<lambda>multicastUpdateListDataCtor.
          jni_bind (NewObject env (mMulticastUpdateListDataClass mgr) multicastUpdateListDataCtor
                      [to_long (mc_session_id ntf),
                       to_int (remaining_list ntf),
                       to_int (int (no_of_controlees ntf)),
                       L subSessionIdArray,
                       L statusArray]) (\<lambda>multicastUpdateListDataObject.
          jni_then
            (case mOnMulticastListUpdateNotificationReceived mgr of
               Some mid \<Rightarrow>
                 jni_then (CallVoidMethod env (mObject mgr) mid [L multicastUpdateListDataObject])
                 (jni_bind (ExceptionCheck env) (\<lambda>exc.
                    if exc then
                      jni_then (ExceptionClear env)
                        (JNI_TRACE_E ''fail to send Multicast update list ntf'')
                    else jni_return ()))
             | None \<Rightarrow> JNI_TRACE_E ''MulticastUpdateListNtf MID is null '')
            (JNI_TRACE_I ''exit''))))))))"

section \<open>The entry points\<close>

text \<open>One constructor per notification entry point of a copy, with the handler's arguments.\<close>

datatype active_notification =
    A_RangeData tUWA_RANGE_DATA_NTF
  | A_RawUci "jbyte list option" uint16_t
  | A_SessionStatus "32 word" "8 word" "8 word"
  | A_DeviceState "8 word"
  | A_CoreGenericError "8 word"
  | A_MulticastListUpdate "tUWA_SESSION_UPDATE_MULTICAST_LIST_NTF option"
  | A_BlinkDataTx "8 word"

datatype unused_notification =
    U_RangeData tUWA_RANGE_DATA_NTF
  | U_RawUci "jbyte list option" uint16_t
  | U_SessionStatus "32 word" "8 word" "8 word"
  | U_DeviceState "8 word"
  | U_CoreGenericError "8 word"
  | U_MulticastListUpdate "tUWA_SESSION_UPDATE_MULTICAST_LIST_NTF option"
  | U_BlinkDataTx "8 word"
  | U_VendorUci "8 word" "8 word" "jbyte list option" uint16_t
  | U_VendorDeviceInfo "jbyte list option" "8 word"

fun handle_active :: "uci_defs \<Rightarrow> UwbEventManager \<Rightarrow> active_notification \<Rightarrow> unit jni" where
  "handle_active defs mgr (A_RangeData ntf) = onRangeDataNotificationReceived_active defs mgr ntf"
| "handle_active defs mgr (A_RawUci data len) = onRawUciNotificationReceived mgr data len"
| "handle_active defs mgr (A_SessionStatus sessionId state reasonCode) =
     onSessionStatusNotificationReceived mgr sessionId state reasonCode"
| "handle_active defs mgr (A_DeviceState state) = onDeviceStateNotificationReceived mgr state"
| "handle_active defs mgr (A_CoreGenericError state) =
     onCoreGenericErrorNotificationReceived mgr state"
| "handle_active defs mgr (A_MulticastListUpdate ntf) =
     onMulticastListUpdateNotificationReceived_active mgr ntf"
| "handle_active defs mgr (A_BlinkDataTx status) = onBlinkDataTxNotificationReceived mgr status"

fun handle_unused :: "uci_defs \<Rightarrow> UwbEventManager \<Rightarrow> unused_notification \<Rightarrow> unit jni" where
  "handle_unused defs mgr (U_RangeData ntf) = onRangeDataNotificationReceived_unused defs mgr ntf"
| "handle_unused defs mgr (U_RawUci data len) = onRawUciNotificationReceived mgr data len"
| "handle_unused defs mgr (U_SessionStatus sessionId state reasonCode) =
     onSessionStatusNotificationReceived mgr sessionId state reasonCode"
| "handle_unused defs mgr (U_DeviceState state) = onDeviceStateNotificationReceived mgr state"
| "handle_unused defs mgr (U_CoreGenericError state) =
     onCoreGenericErrorNotificationReceived mgr state"
| "handle_unused defs mgr (U_MulticastListUpdate ntf) =
     onMulticastListUpdateNotificationReceived_unused defs mgr ntf"
| "handle_unused defs mgr (U_BlinkDataTx status) = onBlinkDataTxNotificationReceived mgr status"
| "handle_unused defs mgr (U_VendorUci gid oid data len) =
     onVendorUciNotificationReceived mgr gid oid data len"
| "handle_unused defs mgr (U_VendorDeviceInfo data len) = onVendorDeviceInfo mgr data len"

section \<open>Notions used in the properties\<close>

text \<open>The arguments a managed object was constructed with.\<close>
definition ctor_args :: "jobject \<Rightarrow> jvalue list" where
  "ctor_args obj = (case obj of Object cls ctor args \<Rightarrow> args | _ \<Rightarrow> [])"

text \<open>The object-valued constructor argument at a position; the null reference when there is none.\<close>
definition arg_object :: "jobject \<Rightarrow> nat \<Rightarrow> jobject" where
  "arg_object obj i =
     (if i < length (ctor_args obj) then (case ctor_args obj ! i of L x \<Rightarrow> x | _ \<Rightarrow> Null) else Null)"

text \<open>The length of a managed byte array; \<open>None\<close> for anything else, the null reference included.\<close>
definition byte_array_length :: "jobject \<Rightarrow> nat option" where
  "byte_array_length v = (case v of ByteArray xs \<Rightarrow> Some (length xs) | _ \<Rightarrow> None)"

text \<open>Kinds of trace entries: a log line, a managed allocation, a call into the listener.\<close>
definition is_log :: "event \<Rightarrow> bool" where
  "is_log e = (case e of TraceE msg \<Rightarrow> True | TraceI msg \<Rightarrow> True | _ \<Rightarrow> False)"

definition is_new_object :: "event \<Rightarrow> bool" where
  "is_new_object e = (case e of EvNewObject obj \<Rightarrow> True | _ \<Rightarrow> False)"

definition is_callback :: "event \<Rightarrow> bool" where
  "is_callback e = (case e of EvCallVoidMethod obj mid args \<Rightarrow> True | _ \<Rightarrow> False)"

definition is_error_line :: "event \<Rightarrow> bool" where
  "is_error_line e = (case e of TraceE msg \<Rightarrow> True | _ \<Rightarrow> False)"

text \<open>The declared capacities a two-way record is read within.\<close>
definition twr_capacity :: "tUWA_TWR_RANGING_MEASR \<Rightarrow> bool" where
  "twr_capacity m \<longleftrightarrow> 8 \<le> length (twr_mac_addr m) \<and> 12 \<le> length (twr_rfu m)"

text \<open>
  The MAC address (first constructor argument) and the reserved bytes (last constructor
  argument) of a two-way measurement object have complementary lengths.
\<close>
definition twr_lengths_complementary :: "uci_defs \<Rightarrow> tUWA_RANGE_DATA_NTF \<Rightarrow> jobject \<Rightarrow> bool" where
  "twr_lengths_complementary defs ntf obj \<longleftrightarrow>
     (byte_array_length (arg_object obj 0),
      byte_array_length (arg_object obj (length (ctor_args obj) - 1)))
       = (if mac_addr_mode_indicator ntf = SHORT_MAC_ADDRESS defs then (Some 2, Some 12)
          else (Some 8, Some 6))"

text \<open>The declared capacities a downlink-TDoA record is read within.\<close>
definition dltdoa_capacity :: "tUWA_DLTDOA_RANGING_MEASR \<Rightarrow> bool" where
  "dltdoa_capacity m \<longleftrightarrow>
     8 \<le> length (dl_mac_addr m) \<and> 8 \<le> length (dl_txTimeStamp m)
     \<and> 8 \<le> length (dl_rxTimeStamp m) \<and> 12 \<le> length (dl_anchor_location m)
     \<and> unat (activeRangingRoundValue (dl_message_control m)) \<le> length (dl_active_ranging_round m)"

text \<open>
  The variable-length fields of a downlink-TDoA record as the data model's table gives
  them, found at their positions among the constructor arguments.
\<close>
definition dltdoa_fields_decoded :: "tUWA_DLTDOA_RANGING_MEASR \<Rightarrow> jobject \<Rightarrow> bool" where
  "dltdoa_fields_decoded m obj \<longleftrightarrow>
     length (ctor_args obj) = 20
     \<and> arg_object obj 11 =
         (if dl_message_control m AND 0x06 = 0 then ByteArray (take 5 (dl_txTimeStamp m))
          else if dl_message_control m AND 0x06 = 2 then ByteArray (take 8 (dl_txTimeStamp m))
          else Null)
     \<and> arg_object obj 12 =
         (if dl_message_control m AND 0x18 = 0 then ByteArray (take 5 (dl_rxTimeStamp m))
          else if dl_message_control m AND 0x18 = 8 then ByteArray (take 8 (dl_rxTimeStamp m))
          else Null)
     \<and> arg_object obj 18 =
         (if dl_message_control m AND 0x60 = 0 then Null
          else if dl_message_control m AND 0x60 = 0x40
            then ByteArray (take 10 (dl_anchor_location m))
          else if dl_message_control m AND 0x60 = 0x20
            then ByteArray (take 12 (dl_anchor_location m))
          else Null)
     \<and> arg_object obj 19 =
         (if drop_bit 7 (dl_message_control m AND 0x0780) = 0 then Null
          else ByteArray (take (unat (drop_bit 7 (dl_message_control m AND 0x0780)))
                            (dl_active_ranging_round m)))"

text \<open>The declared capacities a TDoA record of the active copy is read within.\<close>
definition tdoa_capacity :: "tUWA_TDoA_RANGING_MEASR \<Rightarrow> bool" where
  "tdoa_capacity m \<longleftrightarrow>
     8 \<le> length (tdoa_mac_addr m) \<and> 12 \<le> length (tdoa_rfu m)
     \<and> tdoa_device_info_size m \<le> length (tdoa_device_info m)
     \<and> tdoa_blink_payload_size m \<le> length (tdoa_blink_payload_data m)"

text \<open>
  The managed object that stands for one TDoA record of the active copy: the TDoA
  measurement class and its constructor, the address and the reserved bytes cut to the
  lengths of the address mode, the record's scalar fields in the constructor's order, and
  each of the two optional buffers cut to its announced size, or the null reference when that
  size is zero.
\<close>
definition tdoa_measurement_object ::
  "uci_defs \<Rightarrow> UwbEventManager \<Rightarrow> tUWA_RANGE_DATA_NTF \<Rightarrow> tUWA_TDoA_RANGING_MEASR \<Rightarrow> jobject" where
  "tdoa_measurement_object defs mgr ntf m =
     Object (mRangeTdoaMeasuresClass mgr) (MethodID ''<init>'' ''([BIIIIIIJJ[B[B[B)V'')
       [L (ByteArray (take (if mac_addr_mode_indicator ntf = SHORT_MAC_ADDRESS defs then 2 else 8)
                        (tdoa_mac_addr m))),
        I (word_of_int (tdoa_frame_type m)),
        I (word_of_int (tdoa_nLos m)),
        I (word_of_int (tdoa_aoa_azimuth m)),
        I (word_of_int (tdoa_aoa_azimuth_FOM m)),
        I (word_of_int (tdoa_aoa_elevation m)),
        I (word_of_int (tdoa_aoa_elevation_FOM m)),
        J (word_of_int (tdoa_timeStamp m)),
        J (word_of_int (tdoa_blink_frame_number m)),
        L (ByteArray (take (if mac_addr_mode_indicator ntf = SHORT_MAC_ADDRESS defs then 12 else 6)
                        (tdoa_rfu m))),
        L (if 0 < tdoa_device_info_size m
           then ByteArray (take (tdoa_device_info_size m) (tdoa_device_info m)) else Null),
        L (if 0 < tdoa_blink_payload_size m
           then ByteArray (take (tdoa_blink_payload_size m) (tdoa_blink_payload_data m)) else Null)]"

text \<open>
  A specification of a computation that makes no call into the listener: from every world it
  either returns a value satisfying \<open>Q\<close> or, when \<open>F\<close> allows it, ends in a fault; either way
  the world changes by appended trace entries only, none of them a call into the listener.
\<close>
definition spec :: "'a jni \<Rightarrow> bool \<Rightarrow> ('a \<Rightarrow> bool) \<Rightarrow> bool" where
  "spec m F Q \<longleftrightarrow>
     (\<forall>w. \<exists>evs. \<not> list_ex is_callback evs \<and>
        ((\<exists>x. m w = Inr (x, w\<lparr>trace := trace w @ evs\<rparr>) \<and> Q x)
         \<or> (F \<and> (\<exists>f. m w = Inl (f, w\<lparr>trace := trace w @ evs\<rparr>)))))"

text \<open>
  What follows a call into the listener that threw: the exception check, optionally the
  description, the clearing, and an error line.
\<close>
fun handled_after :: "event list \<Rightarrow> bool" where
  "handled_after (a # b # c # es) =
     (a = EvExceptionCheck \<and>
      ((b = EvExceptionClear \<and> is_error_line c)
       \<or> (b = EvExceptionDescribe \<and> c = EvExceptionClear
           \<and> (case es of d # ds \<Rightarrow> is_error_line d | [] \<Rightarrow> False))))"
| "handled_after es = False"

text \<open>Every call into the listener that threw is followed by its handling.\<close>
primrec faults_contained :: "(jmethodID \<Rightarrow> jvalue list \<Rightarrow> bool) \<Rightarrow> event list \<Rightarrow> bool" where
  "faults_contained thr [] = True"
| "faults_contained thr (e # es) =
     ((case e of EvCallVoidMethod obj mid args \<Rightarrow> \<not> thr mid args \<or> handled_after es | _ \<Rightarrow> True)
      \<and> faults_contained thr es)"

text \<open>
  A handler contains the listener's faults from a world when it either returns normally,
  having added a trace in which every call into the listener that threw is followed by its
  handling, and with no exception left pending; or ends in a native fault before any call
  into the listener was made. Apart from its trace the world is unchanged.
\<close>
definition fault_contained :: "unit jni \<Rightarrow> jni_world \<Rightarrow> bool" where
  "fault_contained h w \<longleftrightarrow>
     (case h w of
        Inl (f, w') \<Rightarrow> \<exists>evs. w' = w\<lparr>trace := trace w @ evs\<rparr> \<and> \<not> list_ex is_callback evs
      | Inr (u, w') \<Rightarrow> \<exists>evs. w' = w\<lparr>trace := trace w @ evs\<rparr> \<and> \<not> pending w'
                             \<and> faults_contained (listener_throws w) evs)"

definition fault_containing :: "unit jni \<Rightarrow> bool" where
  "fault_containing h \<longleftrightarrow> (\<forall>w. \<not> pending w \<longrightarrow> fault_contained h w)"

section \<open>Sample inputs\<close>

text \<open>Values for the constants of the missing headers, as the UCI specification numbers them.\<close>
definition sample_defs :: uci_defs where
  "sample_defs =
     \<lparr>MEASUREMENT_TYPE_TWOWAY = 1, MEASUREMENT_TYPE_DLTDOA = 2, MEASUREMENT_TYPE_OWR_WITH_AOA = 3,
      SHORT_MAC_ADDRESS = 0, MAX_NUM_CONTROLLEES = 8\<rparr>"

text \<open>
  A manager holding every reference that \<^verbatim>\<open>doLoadSymbols\<close> of one copy or the other caches,
  under short names for the class paths and signatures. The TDoA measurement class is cached
  by the active copy only; the downlink-TDoA and one-way classes, the vendor methods and
  \<^verbatim>\<open>mOnRawUciNotificationReceived\<close> by the superseded copy only (the active copy's lookup of
  the latter is commented out). \<^verbatim>\<open>mOnBlinkDataTxNotificationReceived\<close> is assigned by neither
  copy and keeps the constructor's \<^verbatim>\<open>NULL\<close>.
\<close>
definition sample_manager :: UwbEventManager where
  "sample_manager =
     \<lparr>mObject = Object (Some ''NativeUwbManager'') (MethodID ''<init>'' ''()V'') [],
      mRangeDataClass = Some ''UwbRangingData'',
      mRangingTwoWayMeasuresClass = Some ''UwbTwoWayMeasurement'',
      mRangingOwrAoaMeasuresClass = Some ''UwbOwrAoaMeasurement'',
      mRangeTdoaMeasuresClass = Some ''UwbTDoAMeasurement'',
      mRangeDlTdoaMeasuresClass = Some ''UwbDownLinkTDoAMeasurement'',
      mMulticastUpdateListDataClass = Some ''UwbMulticastListUpdateStatus'',
      mOnDeviceStateNotificationReceived =
        Some (MethodID ''onDeviceStatusNotificationReceived'' ''(I)V''),
      mOnRangeDataNotificationReceived =
        Some (MethodID ''onRangeDataNotificationReceived'' ''(LUwbRangingData;)V''),
      mOnSessionStatusNotificationReceived =
        Some (MethodID ''onSessionStatusNotificationReceived'' ''(JII)V''),
      mOnCoreGenericErrorNotificationReceived =
        Some (MethodID ''onCoreGenericErrorNotificationReceived'' ''(I)V''),
      mOnMulticastListUpdateNotificationReceived =
        Some (MethodID ''onMulticastListUpdateNotificationReceived''
                ''(LUwbMulticastListUpdateStatus;)V''),
      mOnBlinkDataTxNotificationReceived = None,
      mOnRawUciNotificationReceived = Some (MethodID ''onRawUciNotificationReceived'' ''([B)V''),
      mOnVendorUciNotificationReceived =
        Some (MethodID ''onVendorUciNotificationReceived'' ''(II[B)V''),
      mOnVendorDeviceInfo = Some (MethodID ''onVendorDeviceInfo'' ''([B)V'')\<rparr>"

text \<open>A world in which the environment is available and the listener never throws.\<close>
definition calm_world :: jni_world where
  "calm_world = \<lparr>thread_env = Env, listener_throws = (\<lambda>mid args. False), pending = False, trace = []\<rparr>"

text \<open>A world in which no environment can be obtained for the calling thread.\<close>
definition detached_world :: jni_world where
  "detached_world =
     \<lparr>thread_env = NULL_ENV, listener_throws = (\<lambda>mid args. False), pending = False, trace = []\<rparr>"

text \<open>A world in which every call into the listener throws.\<close>
definition throwing_world :: jni_world where
  "throwing_world =
     \<lparr>thread_env = Env, listener_throws = (\<lambda>mid args. True), pending = False, trace = []\<rparr>"

definition sample_twr :: tUWA_TWR_RANGING_MEASR where
  "sample_twr =
     \<lparr>twr_mac_addr = [0xB1, 0xB2, 0xB3, 0xB4, 0xB5, 0xB6, 0xB7, 0xB8],
      twr_status = 0, twr_nLos = 0, twr_distance = 150, twr_aoa_azimuth = 10,
      twr_aoa_azimuth_FOM = 90, twr_aoa_elevation = 20, twr_aoa_elevation_FOM = 80,
      twr_aoa_dest_azimuth = 30, twr_aoa_dest_azimuth_FOM = 70, twr_aoa_dest_elevation = 40,
      twr_aoa_dest_elevation_FOM = 60, twr_slot_index = 1, twr_rssi = 77,
      twr_rfu = [61, 62, 63, 64, 65, 66, 67, 68, 69, 70, 71, 72]\<rparr>"

text \<open>A downlink-TDoA record with the given control word and recognisable buffer contents.\<close>
definition sample_dltdoa :: "uint16_t \<Rightarrow> tUWA_DLTDOA_RANGING_MEASR" where
  "sample_dltdoa mc =
     \<lparr>dl_mac_addr = [0xA1, 0xA2, 0xA3, 0xA4, 0xA5, 0xA6, 0xA7, 0xA8],
      dl_status = 0, dl_message_type = 1, dl_message_control = mc, dl_block_index = 7,
      dl_round_index = 2, dl_nLos = 0, dl_aoa_azimuth = 10, dl_aoa_azimuth_FOM = 90,
      dl_aoa_elevation = 20, dl_aoa_elevation_FOM = 80,
      dl_txTimeStamp = [1, 2, 3, 4, 5, 6, 7, 8],
      dl_rxTimeStamp = [11, 12, 13, 14, 15, 16, 17, 18],
      dl_cfo_anchor = 3, dl_cfo = 4, dl_initiator_reply_time = 1000,
      dl_responder_reply_time = 2000, dl_initiator_responder_TOF = 30,
      dl_anchor_location = [21, 22, 23, 24, 25, 26, 27, 28, 29, 30, 31, 32],
      dl_active_ranging_round = [41, 42, 43, 44, 45, 46, 47, 48, 49, 50, 51, 52, 53, 54, 55]\<rparr>"

definition sample_owr :: tUWA_OWR_WITH_AOA_RANGING_MEASR where
  "sample_owr =
     \<lparr>owr_mac_addr = [0xC1, 0xC2, 0xC3, 0xC4, 0xC5, 0xC6, 0xC7, 0xC8],
      owr_status = 0, owr_nLos = 0, owr_frame_seq_num = 9, owr_block_index = 5,
      owr_aoa_azimuth = 10, owr_aoa_azimuth_FOM = 90, owr_aoa_elevation = 20,
      owr_aoa_elevation_FOM = 80\<rparr>"

definition sample_tdoa :: tUWA_TDoA_RANGING_MEASR where
  "sample_tdoa =
     \<lparr>tdoa_mac_addr = [0xD1, 0xD2, 0xD3, 0xD4, 0xD5, 0xD6, 0xD7, 0xD8],
      tdoa_frame_type = 1, tdoa_nLos = 0, tdoa_aoa_azimuth = 10, tdoa_aoa_azimuth_FOM = 90,
      tdoa_aoa_elevation = 20, tdoa_aoa_elevation_FOM = 80, tdoa_timeStamp = 123456,
      tdoa_blink_frame_number = 42,
      tdoa_rfu = [81, 82, 83, 84, 85, 86, 87, 88, 89, 90, 91, 92],
      tdoa_device_info_size = 2, tdoa_device_info = [0xE1, 0xE2, 0xE3, 0xE4],
      tdoa_blink_payload_size = 0, tdoa_blink_payload_data = [0xF1, 0xF2, 0xF3, 0xF4]\<rparr>"

text \<open>A second TDoA record, with a blink payload and without device information.\<close>
definition sample_tdoa_blink :: tUWA_TDoA_RANGING_MEASR where
  "sample_tdoa_blink =
     \<lparr>tdoa_mac_addr = [0x91, 0x92, 0x93, 0x94, 0x95, 0x96, 0x97, 0x98],
      tdoa_frame_type = 0, tdoa_nLos = 1, tdoa_aoa_azimuth = 11, tdoa_aoa_azimuth_FOM = 91,
      tdoa_aoa_elevation = 21, tdoa_aoa_elevation_FOM = 81, tdoa_timeStamp = 654321,
      tdoa_blink_frame_number = 43,
      tdoa_rfu = [101, 102, 103, 104, 105, 106, 107, 108, 109, 110, 111, 112],
      tdoa_device_info_size = 0, tdoa_device_info = [0x71, 0x72, 0x73, 0x74],
      tdoa_blink_payload_size = 3, tdoa_blink_payload_data = [0x51, 0x52, 0x53, 0x54]\<rparr>"

text \<open>
  A ranging notification with the given type tag, address mode and measurement count; each
  measurement array has a capacity of two, and no vendor data is attached.
\<close>
definition sample_range_ntf :: "int \<Rightarrow> int \<Rightarrow> nat \<Rightarrow> tUWA_RANGE_DATA_NTF" where
  "sample_range_ntf tag mode n =
     \<lparr>seq_counter = 5, session_id = 99, rcr_indication = 0, curr_range_interval = 200,
      ranging_measure_type = tag, mac_addr_mode_indicator = mode, no_of_measurements = n,
      twr_range_measr = [sample_twr, sample_twr],
      dltdoa_range_measr = [sample_dltdoa 0x01C2, sample_dltdoa 0x0004],
      owr_with_aoa_range_measr = sample_owr,
      tdoa_range_measr = [sample_tdoa, sample_tdoa_blink],
      vendor_specific_ntf = \<lparr>vs_len = 0, vs_data = [0, 0, 0, 0]\<rparr>\<rparr>"

text \<open>A multicast update without controlees.\<close>
definition empty_multicast :: tUWA_SESSION_UPDATE_MULTICAST_LIST_NTF where
  "empty_multicast =
     \<lparr>mc_session_id = 99, remaining_list = 0, no_of_controlees = 0,
      controlee_mac_address_list = [0, 0, 0, 0, 0, 0, 0, 0],
      subsession_id_list = [0, 0, 0, 0, 0, 0, 0, 0],
      status_list = [0, 0, 0, 0, 0, 0, 0, 0]\<rparr>"

text \<open>A multicast update that announces nine controlees in arrays declared for eight.\<close>
definition oversized_multicast :: tUWA_SESSION_UPDATE_MULTICAST_LIST_NTF where
  "oversized_multicast =
     \<lparr>mc_session_id = 99, remaining_list = 0, no_of_controlees = 9,
      controlee_mac_address_list = [1, 2, 3, 4, 5, 6, 7, 8],
      subsession_id_list = [11, 12, 13, 14, 15, 16, 17, 18],
      status_list = [0, 0, 0, 0, 0, 0, 0, 0]\<rparr>"

section \<open>Bit fields of the message control word\<close>

lemma ucast_16_32_16: "(ucast (ucast (x::uint16_t) :: c_int) :: uint16_t) = x"
  by (rule ucast_up_ucast_id) (simp add: is_up)

lemma ucast_16_32_inj: "(ucast (x::uint16_t) :: c_int) = ucast y \<longleftrightarrow> x = y"
  by (metis ucast_16_32_16)

lemma drop_bit_ucast_16_32: "drop_bit n (ucast (x::uint16_t) :: c_int) = ucast (drop_bit n x)"
  by (rule bit_word_eqI) (auto simp add: bit_simps dest: bit_imp_le_length)

text \<open>Masking twice is masking once when the first mask covers the second.\<close>
lemma double_mask:
  assumes "(off :: c_int) AND ucast (msk :: uint16_t) = ucast msk"
  shows "((ucast (mc :: uint16_t) :: c_int) AND off) AND ucast msk = ucast (mc AND msk)"
proof -
  have "((ucast mc :: c_int) AND off) AND ucast msk = ucast mc AND (off AND ucast msk)"
    by (simp only: and.assoc)
  also have "\<dots> = ucast mc AND ucast msk"
    by (simp only: assms)
  also have "\<dots> = ucast (mc AND msk)"
    by (simp only: unsigned_and_eq)
  finally show ?thesis .
qed

lemma txTimeStampValue_eq: "txTimeStampValue mc = mc AND 0x06"
  using double_mask [of "0xFF" "0x06" mc]
  unfolding txTimeStampValue_def TDOA_TX_TIMESTAMP_OFFSET_def TDOA_TX_TIMESTAMP_OFFSET_MASK_def
  by (simp add: ucast_16_32_16)

lemma rxTimeStampValue_eq: "rxTimeStampValue mc = mc AND 0x18"
  using double_mask [of "0xFF" "0x18" mc]
  unfolding rxTimeStampValue_def TDOA_RX_TIMESTAMP_OFFSET_def TDOA_RX_TIMESTAMP_OFFSET_MASK_def
  by (simp add: ucast_16_32_16)

lemma anchorLocationValue_eq: "anchorLocationValue mc = mc AND 0x60"
  using double_mask [of "0xFF" "0x60" mc]
  unfolding anchorLocationValue_def TDOA_ANCHOR_LOC_OFFSET_def TDOA_ANCHOR_LOC_OFFSET_MASK_def
  by (simp add: ucast_16_32_16)

lemma activeRangingRoundValue_eq: "activeRangingRoundValue mc = drop_bit 7 (mc AND 0x0780)"
proof -
  have "((ucast mc :: c_int) AND 0x0FF0) AND 0x0780 = ucast (mc AND 0x0780)"
    using double_mask [of "0x0FF0" "0x0780" mc] by simp
  then have "drop_bit 7 (((ucast mc :: c_int) AND 0x0FF0) AND 0x0780)
               = ucast (drop_bit 7 (mc AND 0x0780))"
    by (simp only: drop_bit_ucast_16_32)
  then show ?thesis
    unfolding activeRangingRoundValue_def TDOA_ACTIVE_RR_OFFSET_def TDOA_ACTIVE_RR_OFFSET_MASK_def
      TDOA_ACTIVE_RR_INDEX_POSITION_def
    by (simp only: ucast_16_32_16)
qed

lemma activeRangingRoundValue_le: "unat (activeRangingRoundValue mc) \<le> 15"
proof -
  have "drop_bit 7 (mc AND 0x0780) = drop_bit 7 mc AND 15" by simp
  moreover have "unat (drop_bit 7 mc AND 15) \<le> unat (15 :: uint16_t)"
    by (rule word_and_le1 [THEN word_le_nat_alt [THEN iffD1]])
  ultimately show ?thesis by (simp add: activeRangingRoundValue_eq)
qed

lemma promoted_eq_0: "(ucast (x::uint16_t) :: c_int) = 0 \<longleftrightarrow> x = 0"
  using ucast_16_32_inj [of x 0] by simp

lemma promoted_eq_2: "(ucast (x::uint16_t) :: c_int) = 2 \<longleftrightarrow> x = 2"
  using ucast_16_32_inj [of x 2] by simp

lemma promoted_eq_8: "(ucast (x::uint16_t) :: c_int) = 8 \<longleftrightarrow> x = 8"
  using ucast_16_32_inj [of x 8] by simp

lemma promoted_eq_0x20: "(ucast (x::uint16_t) :: c_int) = 0x20 \<longleftrightarrow> x = 0x20"
  using ucast_16_32_inj [of x "0x20"] by simp

lemma promoted_eq_0x40: "(ucast (x::uint16_t) :: c_int) = 0x40 \<longleftrightarrow> x = 0x40"
  using ucast_16_32_inj [of x "0x40"] by simp

section \<open>Facts about the sample inputs\<close>

lemma sample_defs_fields:
  "MEASUREMENT_TYPE_TWOWAY sample_defs = 1" "MEASUREMENT_TYPE_DLTDOA sample_defs = 2"
  "MEASUREMENT_TYPE_OWR_WITH_AOA sample_defs = 3" "SHORT_MAC_ADDRESS sample_defs = 0"
  "MAX_NUM_CONTROLLEES sample_defs = 8"
  by (simp_all add: sample_defs_def)

lemma sample_dltdoa_fields:
  "dl_message_control (sample_dltdoa mc) = mc"
  "dl_mac_addr (sample_dltdoa mc) = [0xA1, 0xA2, 0xA3, 0xA4, 0xA5, 0xA6, 0xA7, 0xA8]"
  "dl_txTimeStamp (sample_dltdoa mc) = [1, 2, 3, 4, 5, 6, 7, 8]"
  "dl_rxTimeStamp (sample_dltdoa mc) = [11, 12, 13, 14, 15, 16, 17, 18]"
  "dl_anchor_location (sample_dltdoa mc) = [21, 22, 23, 24, 25, 26, 27, 28, 29, 30, 31, 32]"
  "dl_active_ranging_round (sample_dltdoa mc)
     = [41, 42, 43, 44, 45, 46, 47, 48, 49, 50, 51, 52, 53, 54, 55]"
  by (simp_all add: sample_dltdoa_def)

lemma sample_twr_fields:
  "twr_mac_addr sample_twr = [0xB1, 0xB2, 0xB3, 0xB4, 0xB5, 0xB6, 0xB7, 0xB8]"
  "twr_rfu sample_twr = [61, 62, 63, 64, 65, 66, 67, 68, 69, 70, 71, 72]"
  by (simp_all add: sample_twr_def)

lemma sample_tdoa_capacity: "tdoa_capacity sample_tdoa" "tdoa_capacity sample_tdoa_blink"
  by (simp_all add: tdoa_capacity_def sample_tdoa_def sample_tdoa_blink_def)

lemma sample_tdoa_objects:
  "tdoa_measurement_object sample_defs sample_manager (sample_range_ntf tag 0 n) sample_tdoa
     = Object (Some ''UwbTDoAMeasurement'') (MethodID ''<init>'' ''([BIIIIIIJJ[B[B[B)V'')
         [L (ByteArray [0xD1, 0xD2]), I 1, I 0, I 10, I 90, I 20, I 80, J 123456, J 42,
          L (ByteArray [81, 82, 83, 84, 85, 86, 87, 88, 89, 90, 91, 92]),
          L (ByteArray [0xE1, 0xE2]), L Null]"
  "tdoa_measurement_object sample_defs sample_manager (sample_range_ntf tag 0 n) sample_tdoa_blink
     = Object (Some ''UwbTDoAMeasurement'') (MethodID ''<init>'' ''([BIIIIIIJJ[B[B[B)V'')
         [L (ByteArray [0x91, 0x92]), I 0, I 1, I 11, I 91, I 21, I 81, J 654321, J 43,
          L (ByteArray [101, 102, 103, 104, 105, 106, 107, 108, 109, 110, 111, 112]),
          L Null, L (ByteArray [0x51, 0x52, 0x53])]"
  by (simp_all add: tdoa_measurement_object_def sample_tdoa_def sample_tdoa_blink_def
      sample_manager_def sample_defs_def sample_range_ntf_def)

lemma sample_range_ntf_fields:
  "ranging_measure_type (sample_range_ntf tag mode n) = tag"
  "mac_addr_mode_indicator (sample_range_ntf tag mode n) = mode"
  "no_of_measurements (sample_range_ntf tag mode n) = n"
  "twr_range_measr (sample_range_ntf tag mode n) = [sample_twr, sample_twr]"
  "dltdoa_range_measr (sample_range_ntf tag mode n) = [sample_dltdoa 0x01C2, sample_dltdoa 0x0004]"
  "tdoa_range_measr (sample_range_ntf tag mode n) = [sample_tdoa, sample_tdoa_blink]"
  "owr_with_aoa_range_measr (sample_range_ntf tag mode n) = sample_owr"
  "vendor_specific_ntf (sample_range_ntf tag mode n) = \<lparr>vs_len = 0, vs_data = [0, 0, 0, 0]\<rparr>"
  by (simp_all add: sample_range_ntf_def)

lemma empty_multicast_fields:
  "no_of_controlees empty_multicast = 0" "mc_session_id empty_multicast = 99"
  "remaining_list empty_multicast = 0"
  by (simp_all add: empty_multicast_def)

section \<open>Unfolding the JNI operations\<close>

lemmas jni_defs = NewByteArray_def SetByteArrayRegion_def env_call_def jni_bind_def jni_then_def
  jni_return_def log_event_def JNI_TRACE_E_def JNI_TRACE_I_def c_read_def set_region_def
  GetMethodID_def NewObject_def jni_fault_def

lemmas tdoa_consts = TDOA_TX_TIMESTAMP_40BITS_def TDOA_TX_TIMESTAMP_64BITS_def
  TDOA_RX_TIMESTAMP_40BITS_def TDOA_RX_TIMESTAMP_64BITS_def
  TDOA_ANCHOR_LOC_NOT_INCLUDED_def TDOA_ANCHOR_LOC_IN_RELATIVE_SYSTEM_def
  TDOA_ANCHOR_LOC_IN_WGS84_SYSTEM_def TDOA_TIMESTAMP_LEN_40BITS_def TDOA_TIMESTAMP_LEN_64BITS_def
  TDOA_ANCHOR_LOC_LEN_10BYTES_def TDOA_ANCHOR_LOC_LEN_12BYTES_def MAC_SHORT_ADD_LEN_def
  MAC_EXT_ADD_LEN_def

lemmas handler_tail_defs = ScopedJniEnv_def CallVoidMethod_def ExceptionCheck_def
  ExceptionDescribe_def ExceptionClear_def NewIntArray_def NewLongArray_def NewObjectArray_def
  SetIntArrayRegion_def SetLongArrayRegion_def SetObjectArrayElement_def raise_pending_def
  c_index_def for_loop_def

lemma event_kind_simps [simp]:
  "is_log (TraceE s)" "is_log (TraceI s)"
  "\<not> is_new_object (TraceE s)" "\<not> is_new_object (TraceI s)"
  "\<not> is_new_object (EvNewByteArray n)" "\<not> is_new_object (EvSetByteArrayRegion a b)"
  "\<not> is_callback (TraceE s)" "\<not> is_callback (TraceI s)" "\<not> is_callback (EvNewByteArray n)"
  "\<not> is_callback (EvNewIntArray n)" "\<not> is_callback (EvNewLongArray n)"
  "\<not> is_callback (EvNewObjectArray n cls)" "\<not> is_callback (EvSetByteArrayRegion a b)"
  "\<not> is_callback (EvSetIntArrayRegion a b)" "\<not> is_callback (EvSetLongArrayRegion a b)"
  "\<not> is_callback (EvSetObjectArrayElement i)" "\<not> is_callback (EvGetMethodID cls nm sg)"
  "\<not> is_callback (EvNewObject obj)" "\<not> is_callback EvExceptionCheck"
  "\<not> is_callback EvExceptionDescribe" "\<not> is_callback EvExceptionClear"
  "is_callback (EvCallVoidMethod obj mid args)"
  by (simp_all add: is_log_def is_new_object_def is_callback_def)

section \<open>Reasoning about computations that do not call the listener\<close>

lemma spec_return: "Q x \<Longrightarrow> spec (jni_return x) F Q"
  unfolding spec_def jni_return_def
  by (intro allI exI [of _ "[]"]) simp

lemma spec_bind_post:
  assumes m: "spec m F Q" and f: "\<And>x. Q x \<Longrightarrow> spec (f x) F R"
  shows "spec (jni_bind m f) F R"
  unfolding spec_def
proof
  fix w
  from m obtain e1 where e1: "\<not> list_ex is_callback e1"
    and c1: "(\<exists>x. m w = Inr (x, w\<lparr>trace := trace w @ e1\<rparr>) \<and> Q x)
             \<or> (F \<and> (\<exists>f. m w = Inl (f, w\<lparr>trace := trace w @ e1\<rparr>)))"
    unfolding spec_def by blast
  from c1 show "\<exists>evs. \<not> list_ex is_callback evs \<and>
        ((\<exists>x. jni_bind m f w = Inr (x, w\<lparr>trace := trace w @ evs\<rparr>) \<and> R x)
         \<or> (F \<and> (\<exists>fa. jni_bind m f w = Inl (fa, w\<lparr>trace := trace w @ evs\<rparr>))))"
  proof
    assume "\<exists>x. m w = Inr (x, w\<lparr>trace := trace w @ e1\<rparr>) \<and> Q x"
    then obtain x where mx: "m w = Inr (x, w\<lparr>trace := trace w @ e1\<rparr>)" and qx: "Q x" by blast
    define w1 where "w1 = w\<lparr>trace := trace w @ e1\<rparr>"
    from f [OF qx] obtain e2 where e2: "\<not> list_ex is_callback e2"
      and c2: "(\<exists>y. f x w1 = Inr (y, w1\<lparr>trace := trace w1 @ e2\<rparr>) \<and> R y)
               \<or> (F \<and> (\<exists>fa. f x w1 = Inl (fa, w1\<lparr>trace := trace w1 @ e2\<rparr>)))"
      unfolding spec_def by blast
    have w12: "w1\<lparr>trace := trace w1 @ e2\<rparr> = w\<lparr>trace := trace w @ (e1 @ e2)\<rparr>"
      by (simp add: w1_def)
    have b: "jni_bind m f w = f x w1"
      by (simp add: jni_bind_def mx w1_def)
    have "\<not> list_ex is_callback (e1 @ e2)" using e1 e2 by simp
    with c2 show ?thesis unfolding b w12 by blast
  next
    assume "F \<and> (\<exists>f. m w = Inl (f, w\<lparr>trace := trace w @ e1\<rparr>))"
    then obtain fa where "F" and mf: "m w = Inl (fa, w\<lparr>trace := trace w @ e1\<rparr>)" by blast
    have "jni_bind m f w = Inl (fa, w\<lparr>trace := trace w @ e1\<rparr>)"
      by (simp add: jni_bind_def mf)
    with e1 \<open>F\<close> show ?thesis by blast
  qed
qed

text \<open>The same rule read backwards: the postcondition of the first part is what the rest needs.\<close>
lemma spec_bind: "spec m F (\<lambda>x. spec (f x) F R) \<Longrightarrow> spec (jni_bind m f) F R"
  by (rule spec_bind_post [where Q = "\<lambda>x. spec (f x) F R"])

lemma spec_then: "spec m F (\<lambda>_. spec k F R) \<Longrightarrow> spec (jni_then m k) F R"
  unfolding jni_then_def by (rule spec_bind)

lemma spec_weaken: "spec m F Q \<Longrightarrow> (\<And>x. Q x \<Longrightarrow> Q' x) \<Longrightarrow> spec m F Q'"
  unfolding spec_def by blast

lemma spec_if: "(c \<Longrightarrow> spec a F Q) \<Longrightarrow> (\<not> c \<Longrightarrow> spec b F Q) \<Longrightarrow> spec (if c then a else b) F Q"
  by simp

lemma spec_log: "\<not> is_callback ev \<Longrightarrow> Q () \<Longrightarrow> spec (log_event ev) F Q"
  unfolding spec_def log_event_def
  by (intro allI exI [of _ "[ev]"]) simp

lemma spec_fault: "F \<Longrightarrow> spec (jni_fault e) F Q"
  unfolding spec_def jni_fault_def
  by (intro allI exI [of _ "[]"]) simp

lemma spec_TRACE_E: "Q () \<Longrightarrow> spec (JNI_TRACE_E msg) F Q"
  unfolding JNI_TRACE_E_def by (simp add: spec_log)

lemma spec_TRACE_I: "Q () \<Longrightarrow> spec (JNI_TRACE_I msg) F Q"
  unfolding JNI_TRACE_I_def by (simp add: spec_log)

lemma spec_env_call: "\<not> is_callback ev \<Longrightarrow> Q () \<Longrightarrow> spec (env_call Env ev) F Q"
  unfolding env_call_def by (simp add: spec_log)

lemma spec_env_call_null: "F \<Longrightarrow> spec (env_call NULL_ENV ev) F Q"
  unfolding env_call_def by (simp add: spec_fault)

lemma spec_c_read:
  "n \<le> length buf \<or> F \<Longrightarrow> (n \<le> length buf \<Longrightarrow> Q (take n buf)) \<Longrightarrow> spec (c_read buf n) F Q"
  unfolding c_read_def by (auto intro: spec_return spec_fault)

lemma spec_c_index:
  "i < length a \<or> F \<Longrightarrow> (i < length a \<Longrightarrow> Q (a ! i)) \<Longrightarrow> spec (c_index a i) F Q"
  unfolding c_index_def by (auto intro: spec_return spec_fault)

lemma spec_NewByteArray: "Q (ByteArray (replicate n 0)) \<Longrightarrow> spec (NewByteArray Env n) F Q"
  unfolding NewByteArray_def
  by (intro spec_then spec_env_call spec_return) simp_all

lemma spec_NewByteArray_null: "F \<Longrightarrow> spec (NewByteArray NULL_ENV n) F Q"
  unfolding NewByteArray_def by (intro spec_then spec_env_call_null)

lemma spec_NewIntArray: "Q (IntArray (replicate n 0)) \<Longrightarrow> spec (NewIntArray Env n) F Q"
  unfolding NewIntArray_def
  by (intro spec_then spec_env_call spec_return) simp_all

lemma spec_NewLongArray: "Q (LongArray (replicate n 0)) \<Longrightarrow> spec (NewLongArray Env n) F Q"
  unfolding NewLongArray_def
  by (intro spec_then spec_env_call spec_return) simp_all

lemma spec_NewObjectArray:
  "Q (ObjectArray cls (replicate n init)) \<Longrightarrow> spec (NewObjectArray Env n cls init) F Q"
  unfolding NewObjectArray_def
  by (intro spec_then spec_env_call spec_return) simp_all

lemma spec_GetMethodID: "Q (MethodID name sig) \<Longrightarrow> spec (GetMethodID Env cls name sig) F Q"
  unfolding GetMethodID_def
  by (intro spec_then spec_env_call spec_return) simp_all

lemma spec_NewObject: "Q (Object cls ctor args) \<Longrightarrow> spec (NewObject Env cls ctor args) F Q"
  unfolding NewObject_def
  by (intro spec_then spec_env_call spec_return) simp_all

lemma spec_SetByteArrayRegion:
  assumes "len \<le> length buf \<or> F" and "start + len \<le> length xs"
    and "len \<le> length buf \<Longrightarrow> Q (ByteArray (set_region xs start (take len buf)))"
  shows "spec (SetByteArrayRegion Env (ByteArray xs) start len buf) F Q"
proof -
  have "spec (jni_bind (c_read buf len) (\<lambda>src. jni_return (ByteArray (set_region xs start src)))) F Q"
    using assms(1,3) by (intro spec_bind spec_c_read) (simp_all add: spec_return)
  then show ?thesis
    unfolding SetByteArrayRegion_def using assms(2)
    by (intro spec_then spec_env_call) simp_all
qed

lemma spec_SetIntArrayRegion:
  assumes "len \<le> length buf \<or> F" and "start + len \<le> length xs"
    and "len \<le> length buf \<Longrightarrow> Q (IntArray (set_region xs start (take len buf)))"
  shows "spec (SetIntArrayRegion Env (IntArray xs) start len buf) F Q"
proof -
  have "spec (jni_bind (c_read buf len) (\<lambda>src. jni_return (IntArray (set_region xs start src)))) F Q"
    using assms(1,3) by (intro spec_bind spec_c_read) (simp_all add: spec_return)
  then show ?thesis
    unfolding SetIntArrayRegion_def using assms(2)
    by (intro spec_then spec_env_call) simp_all
qed

lemma spec_SetLongArrayRegion:
  assumes "len \<le> length buf \<or> F" and "start + len \<le> length xs"
    and "len \<le> length buf \<Longrightarrow> Q (LongArray (set_region xs start (take len buf)))"
  shows "spec (SetLongArrayRegion Env (LongArray xs) start len buf) F Q"
proof -
  have "spec (jni_bind (c_read buf len) (\<lambda>src. jni_return (LongArray (set_region xs start src)))) F Q"
    using assms(1,3) by (intro spec_bind spec_c_read) (simp_all add: spec_return)
  then show ?thesis
    unfolding SetLongArrayRegion_def using assms(2)
    by (intro spec_then spec_env_call) simp_all
qed

lemma spec_SetObjectArrayElement:
  assumes "i < length xs" and "Q (ObjectArray cls (xs[i := v]))"
  shows "spec (SetObjectArrayElement Env (ObjectArray cls xs) i v) F Q"
  unfolding SetObjectArrayElement_def using assms
  by (intro spec_then spec_env_call) (simp_all add: spec_return)

text \<open>A fresh byte array filled from a native buffer.\<close>
lemma spec_fill_bytes:
  assumes "n \<le> length buf \<or> F" and "n \<le> length buf \<Longrightarrow> Q (ByteArray (take n buf))"
  shows "spec (jni_bind (NewByteArray Env n) (\<lambda>arr. SetByteArrayRegion Env arr 0 n buf)) F Q"
  using assms
  by (intro spec_bind spec_NewByteArray spec_SetByteArrayRegion) (simp_all add: set_region_def)

text \<open>A line logged ahead of such a computation is in the trace of every run that returns.\<close>
lemma spec_logged_first:
  assumes "spec body F Q"
    and "jni_then (JNI_TRACE_I s) body w = Inr (x, w\<lparr>trace := trace w @ evs\<rparr>)"
  shows "TraceI s \<in> set evs"
proof -
  let ?w = "w\<lparr>trace := trace w @ [TraceI s]\<rparr>"
  have start: "jni_then (JNI_TRACE_I s) body w = body ?w"
    by (simp add: jni_then_def jni_bind_def JNI_TRACE_I_def log_event_def)
  from assms(1) obtain es where
    "(\<exists>y. body ?w = Inr (y, ?w\<lparr>trace := trace ?w @ es\<rparr>))
     \<or> (\<exists>f. body ?w = Inl (f, ?w\<lparr>trace := trace ?w @ es\<rparr>))"
    unfolding spec_def by blast
  with assms(2) start have "w\<lparr>trace := trace w @ evs\<rparr> = ?w\<lparr>trace := trace ?w @ es\<rparr>"
    by auto
  then have "trace (w\<lparr>trace := trace w @ evs\<rparr>) = trace (?w\<lparr>trace := trace ?w @ es\<rparr>)"
    by (rule arg_cong)
  then have "evs = TraceI s # es" by simp
  then show ?thesis by simp
qed

lemma jni_bind_assoc: "jni_bind (jni_bind m f) g = jni_bind m (\<lambda>x. jni_bind (f x) g)"
  by (rule ext) (simp add: jni_bind_def split: sum.splits)

lemma jni_bind_return: "jni_bind m jni_return = m"
  by (rule ext) (simp add: jni_bind_def jni_return_def split: sum.splits)

lemma jni_return_bind: "jni_bind (jni_return x) f = f x"
  by (rule ext) (simp add: jni_bind_def jni_return_def)

lemma for_each_Nil: "for_each [] body = jni_return"
  by (rule ext) simp

lemma for_each_append:
  "for_each (xs @ ys) body acc = jni_bind (for_each xs body acc) (for_each ys body)"
proof (induction xs arbitrary: acc)
  case Nil
  show ?case by (simp add: jni_return_bind)
next
  case (Cons x xs)
  have "for_each (xs @ ys) body = (\<lambda>a. jni_bind (for_each xs body a) (for_each ys body))"
    by (rule ext) (rule Cons.IH)
  then show ?case by (simp add: jni_bind_assoc)
qed

text \<open>The counted loop, with an invariant indexed by the number of iterations done.\<close>
lemma spec_for_loop:
  assumes init: "Inv 0 acc"
    and step: "\<And>i acc. i < n \<Longrightarrow> Inv i acc \<Longrightarrow> spec (body i acc) F (Inv (Suc i))"
  shows "spec (for_loop n body acc) F (Inv n)"
proof -
  have "k \<le> n \<Longrightarrow> spec (for_each [0..<k] body acc) F (Inv k)" for k
  proof (induction k)
    case 0
    show ?case using init by (simp add: spec_return)
  next
    case (Suc k)
    then have prev: "spec (for_each [0..<k] body acc) F (Inv k)" and k: "k < n" by simp_all
    have "spec (jni_bind (for_each [0..<k] body acc) (for_each [k] body)) F (Inv (Suc k))"
    proof (rule spec_bind_post [OF prev])
      fix a assume "Inv k a"
      from step [OF k this] show "spec (for_each [k] body a) F (Inv (Suc k))"
        by (simp add: for_each_Nil jni_bind_return)
    qed
    then show ?case by (simp add: for_each_append)
  qed
  then show ?thesis by (simp add: for_loop_def)
qed

lemma spec_for_loop_quiet:
  assumes "\<And>i acc. spec (body i acc) F (\<lambda>_. True)"
  shows "spec (for_loop n body acc) F (\<lambda>_. True)"
  by (rule spec_for_loop [where Inv = "\<lambda>_ _. True"]) (simp_all add: assms)

lemma spec_for_loop_any:
  assumes "\<And>i acc. spec (body i acc) F (\<lambda>_. True)" and "\<And>x. Q x"
  shows "spec (for_loop n body acc) F Q"
  by (rule spec_weaken [OF spec_for_loop_quiet]) (simp_all add: assms)

lemmas spec_rules = spec_bind spec_then spec_return spec_if spec_TRACE_E spec_TRACE_I
  spec_NewByteArray spec_NewIntArray spec_NewLongArray spec_NewObjectArray spec_GetMethodID
  spec_NewObject spec_SetByteArrayRegion spec_SetIntArrayRegion spec_SetLongArrayRegion
  spec_SetObjectArrayElement spec_c_index

section \<open>The marshalling code makes no call into the listener\<close>

lemma twr_measure_active_spec:
  assumes "twr_capacity m \<or> F"
  shows "spec (twr_measure_active Env mgr defs ntf m) F (twr_lengths_complementary defs ntf)"
  unfolding twr_measure_active_def using assms
  by (auto intro!: spec_rules simp add: set_region_def twr_capacity_def
      twr_lengths_complementary_def arg_object_def ctor_args_def byte_array_length_def)

lemma twr_measure_unused_spec:
  assumes "twr_capacity m \<or> F"
  shows "spec (twr_measure_unused Env mgr defs ntf m) F (twr_lengths_complementary defs ntf)"
  unfolding twr_measure_unused_def using assms
  by (auto intro!: spec_rules simp add: set_region_def twr_capacity_def
      twr_lengths_complementary_def arg_object_def ctor_args_def byte_array_length_def)

lemma tdoa_measure_spec:
  assumes "tdoa_capacity m \<or> F"
  shows "spec (tdoa_measure Env mgr defs ntf m) F
           (\<lambda>obj. obj = tdoa_measurement_object defs mgr ntf m)"
  unfolding tdoa_measure_def using assms
  by (auto intro!: spec_rules
      simp add: set_region_def tdoa_capacity_def tdoa_measurement_object_def to_int_def to_long_def)

text \<open>
  The loop shared by the four array-building branches: read record \<open>i\<close>, marshal it, store
  the object in slot \<open>i\<close>. Afterwards every slot holds the object of its record.
\<close>
lemma marshal_loop_spec:
  assumes marshal: "\<And>m. P m \<or> F \<Longrightarrow> spec (marshal m) F (Q m)"
    and caps: "(n \<le> length records \<and> (\<forall>i < n. P (records ! i))) \<or> F"
  shows "spec (for_loop n
                 (\<lambda>i arr. jni_bind (c_index records i) (\<lambda>m.
                            jni_bind (marshal m) (\<lambda>obj.
                            SetObjectArrayElement Env arr i obj)))
                 (ObjectArray cls (replicate n Null)))
              F (\<lambda>arr. \<exists>xs. arr = ObjectArray cls xs \<and> length xs = n
                             \<and> (\<forall>j < n. Q (records ! j) (xs ! j)))"
proof -
  define Inv where "Inv i arr \<longleftrightarrow>
    (\<exists>xs. arr = ObjectArray cls xs \<and> length xs = n \<and> (\<forall>j < i. Q (records ! j) (xs ! j)))"
    for i arr
  have "spec (for_loop n
                 (\<lambda>i arr. jni_bind (c_index records i) (\<lambda>m.
                            jni_bind (marshal m) (\<lambda>obj.
                            SetObjectArrayElement Env arr i obj)))
                 (ObjectArray cls (replicate n Null))) F (Inv n)"
  proof (rule spec_for_loop)
    show "Inv 0 (ObjectArray cls (replicate n Null))"
      by (simp add: Inv_def)
  next
    fix i acc
    assume i: "i < n" and "Inv i acc"
    then obtain xs where acc: "acc = ObjectArray cls xs" and len: "length xs = n"
      and filled: "\<forall>j < i. Q (records ! j) (xs ! j)"
      unfolding Inv_def by blast
    have idx: "i < length records \<or> F" using caps i by auto
    have cap: "P (records ! i) \<or> F" using caps i by auto
    show "spec (jni_bind (c_index records i) (\<lambda>m.
                jni_bind (marshal m) (\<lambda>obj.
                SetObjectArrayElement Env acc i obj))) F (Inv (Suc i))"
    proof (rule spec_bind, rule spec_c_index [OF idx], rule spec_bind_post)
      show "spec (marshal (records ! i)) F (Q (records ! i))"
        using cap by (rule marshal)
    next
      fix obj assume obj: "Q (records ! i) obj"
      show "spec (SetObjectArrayElement Env acc i obj) F (Inv (Suc i))"
        unfolding acc using i len filled obj
        by (intro spec_SetObjectArrayElement)
           (auto simp add: Inv_def nth_list_update less_Suc_eq)
    qed
  qed
  then show ?thesis by (rule spec_weaken) (simp add: Inv_def)
qed

text \<open>The TDoA branch logs its line first; what follows builds the object of the notification.\<close>
lemma tdoa_branch_split:
  assumes "(no_of_measurements ntf \<le> length (tdoa_range_measr ntf)
            \<and> (\<forall>i < no_of_measurements ntf. tdoa_capacity (tdoa_range_measr ntf ! i))) \<or> F"
  shows "\<exists>body. tdoa_branch Env mgr defs ntf
                  = jni_then (JNI_TRACE_I ''ranging_measure_type = MEASUREMENT_TYPE_ONEWAY'') body
          \<and> spec body F
           (\<lambda>obj. \<exists>xs. obj = Object (mRangeDataClass mgr)
                           (MethodID ''<init>'' ''(JJIJIII[Lcom/android/uwb/data/UwbTDoAMeasurement;)V'')
                           [to_long (seq_counter ntf), to_long (session_id ntf),
                            to_int (rcr_indication ntf), to_long (curr_range_interval ntf),
                            to_int (ranging_measure_type ntf), to_int (mac_addr_mode_indicator ntf),
                            to_int (int (no_of_measurements ntf)),
                            L (ObjectArray (mRangeTdoaMeasuresClass mgr) xs)]
                  \<and> length xs = no_of_measurements ntf
                  \<and> (\<forall>j < no_of_measurements ntf.
                        xs ! j = tdoa_measurement_object defs mgr ntf (tdoa_range_measr ntf ! j)))"
  unfolding tdoa_branch_def
  apply (rule exI, rule conjI, rule refl)
  by (intro spec_bind spec_NewObjectArray
        spec_bind_post [OF marshal_loop_spec [where P = tdoa_capacity
            and Q = "\<lambda>m obj. obj = tdoa_measurement_object defs mgr ntf m",
            OF tdoa_measure_spec assms]])
     (auto intro!: spec_rules)

lemma tdoa_branch_spec:
  assumes "(no_of_measurements ntf \<le> length (tdoa_range_measr ntf)
            \<and> (\<forall>i < no_of_measurements ntf. tdoa_capacity (tdoa_range_measr ntf ! i))) \<or> F"
  shows "spec (tdoa_branch Env mgr defs ntf) F
           (\<lambda>obj. \<exists>xs. obj = Object (mRangeDataClass mgr)
                           (MethodID ''<init>'' ''(JJIJIII[Lcom/android/uwb/data/UwbTDoAMeasurement;)V'')
                           [to_long (seq_counter ntf), to_long (session_id ntf),
                            to_int (rcr_indication ntf), to_long (curr_range_interval ntf),
                            to_int (ranging_measure_type ntf), to_int (mac_addr_mode_indicator ntf),
                            to_int (int (no_of_measurements ntf)),
                            L (ObjectArray (mRangeTdoaMeasuresClass mgr) xs)]
                  \<and> length xs = no_of_measurements ntf
                  \<and> (\<forall>j < no_of_measurements ntf.
                        xs ! j = tdoa_measurement_object defs mgr ntf (tdoa_range_measr ntf ! j)))"
proof -
  from tdoa_branch_split [OF assms, of mgr defs] obtain body where
    "tdoa_branch Env mgr defs ntf
       = jni_then (JNI_TRACE_I ''ranging_measure_type = MEASUREMENT_TYPE_ONEWAY'') body"
    and "spec body F
           (\<lambda>obj. \<exists>xs. obj = Object (mRangeDataClass mgr)
                           (MethodID ''<init>'' ''(JJIJIII[Lcom/android/uwb/data/UwbTDoAMeasurement;)V'')
                           [to_long (seq_counter ntf), to_long (session_id ntf),
                            to_int (rcr_indication ntf), to_long (curr_range_interval ntf),
                            to_int (ranging_measure_type ntf), to_int (mac_addr_mode_indicator ntf),
                            to_int (int (no_of_measurements ntf)),
                            L (ObjectArray (mRangeTdoaMeasuresClass mgr) xs)]
                  \<and> length xs = no_of_measurements ntf
                  \<and> (\<forall>j < no_of_measurements ntf.
                        xs ! j = tdoa_measurement_object defs mgr ntf (tdoa_range_measr ntf ! j)))"
    by blast
  then show ?thesis
    by (simp only:) (intro spec_then spec_TRACE_I)
qed

lemma twr_branch_active_spec:
  assumes "(no_of_measurements ntf \<le> length (twr_range_measr ntf)
            \<and> (\<forall>i < no_of_measurements ntf. twr_capacity (twr_range_measr ntf ! i))) \<or> F"
  shows "spec (twr_branch_active Env mgr defs ntf) F
           (\<lambda>obj. \<exists>xs. obj = Object (mRangeDataClass mgr)
                           (MethodID ''<init>'' ''(JJIJIII[Lcom/android/uwb/data/UwbTwoWayMeasurement;)V'')
                           [to_long (seq_counter ntf), to_long (session_id ntf),
                            to_int (rcr_indication ntf), to_long (curr_range_interval ntf),
                            to_int (ranging_measure_type ntf), to_int (mac_addr_mode_indicator ntf),
                            to_int (int (no_of_measurements ntf)),
                            L (ObjectArray (mRangingTwoWayMeasuresClass mgr) xs)]
                  \<and> length xs = no_of_measurements ntf
                  \<and> list_all (twr_lengths_complementary defs ntf) xs)"
  unfolding twr_branch_active_def
  by (intro spec_then spec_TRACE_I spec_bind spec_NewObjectArray
        spec_bind_post [OF marshal_loop_spec [where P = twr_capacity
            and Q = "\<lambda>m. twr_lengths_complementary defs ntf", OF twr_measure_active_spec assms]])
     (auto intro!: spec_rules simp add: list_all_length)

lemma twr_branch_unused_spec:
  assumes "(no_of_measurements ntf \<le> length (twr_range_measr ntf)
            \<and> (\<forall>i < no_of_measurements ntf. twr_capacity (twr_range_measr ntf ! i))) \<or> F"
  shows "spec (twr_branch_unused Env mgr defs ntf vendor) F
           (\<lambda>obj. \<exists>xs. obj = Object (mRangeDataClass mgr)
                           (MethodID ''<init>''
                              ''(JJIJIII[Lcom/android/server/uwb/data/UwbTwoWayMeasurement;[B)V'')
                           [to_long (seq_counter ntf), to_long (session_id ntf),
                            to_int (rcr_indication ntf), to_long (curr_range_interval ntf),
                            to_int (ranging_measure_type ntf), to_int (mac_addr_mode_indicator ntf),
                            to_int (int (no_of_measurements ntf)),
                            L (ObjectArray (mRangingTwoWayMeasuresClass mgr) xs), L vendor]
                  \<and> length xs = no_of_measurements ntf
                  \<and> list_all (twr_lengths_complementary defs ntf) xs)"
  unfolding twr_branch_unused_def
  by (intro spec_then spec_TRACE_I spec_bind spec_NewObjectArray
        spec_bind_post [OF marshal_loop_spec [where P = twr_capacity
            and Q = "\<lambda>m. twr_lengths_complementary defs ntf", OF twr_measure_unused_spec assms]])
     (auto intro!: spec_rules simp add: list_all_length)

lemma dltdoa_mac_address_spec:
  assumes "8 \<le> length (dl_mac_addr m) \<or> F"
  shows "spec (dltdoa_mac_address Env defs ntf m) F
           (\<lambda>v. v = ByteArray (take (if mac_addr_mode_indicator ntf = SHORT_MAC_ADDRESS defs
                                      then 2 else 8) (dl_mac_addr m)))"
  unfolding dltdoa_mac_address_def using assms
  by (auto intro!: spec_rules simp add: set_region_def tdoa_consts)

lemma dltdoa_tx_timestamp_spec:
  assumes "8 \<le> length (dl_txTimeStamp m) \<or> F"
  shows "spec (dltdoa_tx_timestamp Env m) F
           (\<lambda>v. v = (if dl_message_control m AND 0x06 = 0 then ByteArray (take 5 (dl_txTimeStamp m))
                      else if dl_message_control m AND 0x06 = 2
                        then ByteArray (take 8 (dl_txTimeStamp m))
                      else Null))"
  unfolding dltdoa_tx_timestamp_def using assms
  by (auto intro!: spec_rules
      simp add: set_region_def tdoa_consts txTimeStampValue_eq promoted_eq_0 promoted_eq_2)

lemma dltdoa_rx_timestamp_spec:
  assumes "8 \<le> length (dl_rxTimeStamp m) \<or> F"
  shows "spec (dltdoa_rx_timestamp Env m) F
           (\<lambda>v. v = (if dl_message_control m AND 0x18 = 0 then ByteArray (take 5 (dl_rxTimeStamp m))
                      else if dl_message_control m AND 0x18 = 8
                        then ByteArray (take 8 (dl_rxTimeStamp m))
                      else Null))"
  unfolding dltdoa_rx_timestamp_def using assms
  by (auto intro!: spec_rules
      simp add: set_region_def tdoa_consts rxTimeStampValue_eq promoted_eq_0 promoted_eq_8)

lemma dltdoa_anchor_location_spec:
  assumes "12 \<le> length (dl_anchor_location m) \<or> F"
  shows "spec (dltdoa_anchor_location Env m) F
           (\<lambda>v. v = (if dl_message_control m AND 0x60 = 0 then Null
                      else if dl_message_control m AND 0x60 = 0x40
                        then ByteArray (take 10 (dl_anchor_location m))
                      else if dl_message_control m AND 0x60 = 0x20
                        then ByteArray (take 12 (dl_anchor_location m))
                      else Null))"
  unfolding dltdoa_anchor_location_def using assms
  by (auto intro!: spec_rules
      simp add: set_region_def tdoa_consts anchorLocationValue_eq promoted_eq_0
        promoted_eq_0x20 promoted_eq_0x40)

lemma dltdoa_active_ranging_round_spec:
  assumes "unat (activeRangingRoundValue (dl_message_control m))
             \<le> length (dl_active_ranging_round m) \<or> F"
  shows "spec (dltdoa_active_ranging_round Env m) F
           (\<lambda>v. v = (if activeRangingRoundValue (dl_message_control m) = 0 then Null
                      else ByteArray (take (unat (activeRangingRoundValue (dl_message_control m)))
                                        (dl_active_ranging_round m))))"
  unfolding dltdoa_active_ranging_round_def using assms
  by (auto intro!: spec_rules simp add: set_region_def)

lemma dltdoa_measure_spec:
  assumes "dltdoa_capacity m \<or> F"
  shows "spec (dltdoa_measure Env mgr defs ntf m) F (dltdoa_fields_decoded m)"
  unfolding dltdoa_measure_def
  apply (rule spec_bind_post [OF dltdoa_mac_address_spec])
  subgoal using assms by (auto simp add: dltdoa_capacity_def)
  apply (rule spec_bind_post [OF dltdoa_tx_timestamp_spec])
  subgoal using assms by (auto simp add: dltdoa_capacity_def)
  apply (rule spec_bind_post [OF dltdoa_rx_timestamp_spec])
  subgoal using assms by (auto simp add: dltdoa_capacity_def)
  apply (rule spec_bind_post [OF dltdoa_anchor_location_spec])
  subgoal using assms by (auto simp add: dltdoa_capacity_def)
  apply (rule spec_bind_post [OF dltdoa_active_ranging_round_spec])
  subgoal using assms by (auto simp add: dltdoa_capacity_def)
  apply (intro spec_bind spec_GetMethodID spec_NewObject)
  apply (simp only: dltdoa_fields_decoded_def arg_object_def ctor_args_def)
  apply (simp add: activeRangingRoundValue_eq)
  done

lemma dltdoa_branch_spec:
  assumes "(no_of_measurements ntf \<le> length (dltdoa_range_measr ntf)
            \<and> (\<forall>i < no_of_measurements ntf. dltdoa_capacity (dltdoa_range_measr ntf ! i))) \<or> F"
  shows "spec (dltdoa_branch Env mgr defs ntf vendor) F
           (\<lambda>obj. \<exists>xs. obj = Object (mRangeDataClass mgr)
                           (MethodID ''<init>''
                              ''(JJIJBBI[Lcom/android/server/uwb/data/UwbDownLinkTDoAMeasurement;[B)V'')
                           [to_long (seq_counter ntf), to_long (session_id ntf),
                            to_int (rcr_indication ntf), to_long (curr_range_interval ntf),
                            to_int (ranging_measure_type ntf), to_int (mac_addr_mode_indicator ntf),
                            to_int (int (no_of_measurements ntf)),
                            L (ObjectArray (mRangeDlTdoaMeasuresClass mgr) xs), L vendor]
                  \<and> length xs = no_of_measurements ntf
                  \<and> (\<forall>j < no_of_measurements ntf.
                        dltdoa_fields_decoded (dltdoa_range_measr ntf ! j) (xs ! j)))"
  unfolding dltdoa_branch_def
  by (intro spec_then spec_TRACE_I spec_bind spec_NewObjectArray
        spec_bind_post [OF marshal_loop_spec [where P = dltdoa_capacity
            and Q = dltdoa_fields_decoded, OF dltdoa_measure_spec assms]])
     (auto intro!: spec_rules)

lemma owr_aoa_branch_spec:
  assumes "8 \<le> length (owr_mac_addr (owr_with_aoa_range_measr ntf)) \<or> F"
  shows "spec (owr_aoa_branch Env mgr defs ntf vendor) F (\<lambda>obj. obj \<noteq> Null)"
  unfolding owr_aoa_branch_def using assms
  by (auto intro!: spec_rules simp add: set_region_def)

lemma vendor_data_spec:
  assumes "vs_len (vendor_specific_ntf ntf) \<le> length (vs_data (vendor_specific_ntf ntf)) \<or> F"
  shows "spec (if 0 < vs_len (vendor_specific_ntf ntf) then
                 jni_bind (NewByteArray Env (vs_len (vendor_specific_ntf ntf)))
                   (\<lambda>vendorSpecificData.
                 SetByteArrayRegion Env vendorSpecificData 0
                   (vs_len (vendor_specific_ntf ntf)) (vs_data (vendor_specific_ntf ntf)))
               else
                 jni_then (JNI_TRACE_I ''No Vendor specific ntf data!'') (jni_return Null))
           F (\<lambda>v. v = (if 0 < vs_len (vendor_specific_ntf ntf)
                        then ByteArray (take (vs_len (vendor_specific_ntf ntf))
                                          (vs_data (vendor_specific_ntf ntf)))
                        else Null))"
  using assms by (auto intro!: spec_rules simp add: set_region_def)

section \<open>Decoding downlink-TDoA records\<close>

text \<open>
  C1. For a downlink-TDoA record whose transmit-timestamp array has its declared eight
  bytes, the transmit-timestamp block returns without a fault. When the control word masked
  with 0x06 is 0 the decoded field is a byte array of exactly 5 bytes (the first five of the
  record's); when it is 2, of exactly 8 bytes; for every other value the field is the null
  reference, and the error line \<^verbatim>\<open>Invalid dlTdoaTxTimeStamp\<close> is traced exactly then.
\<close>
theorem tx_timestamp_decoding:
  assumes "TDOA_TIMESTAMP_LEN_64BITS \<le> length (dl_txTimeStamp m)"
  shows "\<exists>v evs. dltdoa_tx_timestamp Env m w = Inr (v, w\<lparr>trace := trace w @ evs\<rparr>)
     \<and> v = (if dl_message_control m AND 0x06 = 0 then ByteArray (take 5 (dl_txTimeStamp m))
            else if dl_message_control m AND 0x06 = 2 then ByteArray (take 8 (dl_txTimeStamp m))
            else Null)
     \<and> byte_array_length v =
           (if dl_message_control m AND 0x06 = 0 then Some 5
            else if dl_message_control m AND 0x06 = 2 then Some 8 else None)
     \<and> (TraceE ''Invalid dlTdoaTxTimeStamp'' \<in> set evs) =
           (dl_message_control m AND 0x06 \<noteq> 0 \<and> dl_message_control m AND 0x06 \<noteq> 2)"
  using assms unfolding dltdoa_tx_timestamp_def
  by (auto simp add: txTimeStampValue_eq promoted_eq_0 promoted_eq_2 jni_defs tdoa_consts
      byte_array_length_def)

theorem tx_timestamp_decoding_witness:
  "TDOA_TIMESTAMP_LEN_64BITS \<le> length (dl_txTimeStamp (sample_dltdoa 0x01C0))
   \<and> (\<exists>evs. dltdoa_tx_timestamp Env (sample_dltdoa 0x01C0) calm_world
               = Inr (ByteArray [1, 2, 3, 4, 5], calm_world\<lparr>trace := evs\<rparr>)
             \<and> TraceE ''Invalid dlTdoaTxTimeStamp'' \<notin> set evs)
   \<and> (\<exists>evs. dltdoa_tx_timestamp Env (sample_dltdoa 0x01C2) calm_world
               = Inr (ByteArray [1, 2, 3, 4, 5, 6, 7, 8], calm_world\<lparr>trace := evs\<rparr>)
             \<and> TraceE ''Invalid dlTdoaTxTimeStamp'' \<notin> set evs)
   \<and> (\<exists>evs. dltdoa_tx_timestamp Env (sample_dltdoa 0x01C4) calm_world
               = Inr (Null, calm_world\<lparr>trace := evs\<rparr>)
             \<and> TraceE ''Invalid dlTdoaTxTimeStamp'' \<in> set evs)"
  using tx_timestamp_decoding [of "sample_dltdoa 0x01C0" calm_world]
        tx_timestamp_decoding [of "sample_dltdoa 0x01C2" calm_world]
        tx_timestamp_decoding [of "sample_dltdoa 0x01C4" calm_world]
  by (auto simp add: sample_dltdoa_fields calm_world_def TDOA_TIMESTAMP_LEN_64BITS_def)

text \<open>
  C2. For a downlink-TDoA record whose anchor-location array has its declared twelve bytes,
  the anchor-location block returns without a fault. When the control word masked with 0x60
  is 0 the field is the null reference; when it is 0x40 the field is a byte array of exactly
  10 bytes; when it is 0x20, of exactly 12 bytes; for every other value the field is the
  null reference. The error line \<^verbatim>\<open>Invalid dlTdoaAnchorLocation\<close> is traced exactly for the
  values other than 0, 0x40 and 0x20.
\<close>
theorem anchor_location_decoding:
  assumes "TDOA_ANCHOR_LOC_LEN_12BYTES \<le> length (dl_anchor_location m)"
  shows "\<exists>v evs. dltdoa_anchor_location Env m w = Inr (v, w\<lparr>trace := trace w @ evs\<rparr>)
     \<and> v = (if dl_message_control m AND 0x60 = 0 then Null
            else if dl_message_control m AND 0x60 = 0x40
              then ByteArray (take 10 (dl_anchor_location m))
            else if dl_message_control m AND 0x60 = 0x20
              then ByteArray (take 12 (dl_anchor_location m))
            else Null)
     \<and> byte_array_length v =
           (if dl_message_control m AND 0x60 = 0 then None
            else if dl_message_control m AND 0x60 = 0x40 then Some 10
            else if dl_message_control m AND 0x60 = 0x20 then Some 12 else None)
     \<and> (TraceE ''Invalid dlTdoaAnchorLocation'' \<in> set evs) =
           (dl_message_control m AND 0x60 \<noteq> 0 \<and> dl_message_control m AND 0x60 \<noteq> 0x40
            \<and> dl_message_control m AND 0x60 \<noteq> 0x20)"
  using assms unfolding dltdoa_anchor_location_def
  by (auto simp add: anchorLocationValue_eq promoted_eq_0 promoted_eq_0x20 promoted_eq_0x40
      jni_defs tdoa_consts byte_array_length_def)

theorem anchor_location_decoding_witness:
  "TDOA_ANCHOR_LOC_LEN_12BYTES \<le> length (dl_anchor_location (sample_dltdoa 0x01C2))
   \<and> (\<exists>evs. dltdoa_anchor_location Env (sample_dltdoa 0x0182) calm_world
               = Inr (Null, calm_world\<lparr>trace := evs\<rparr>)
             \<and> TraceE ''Invalid dlTdoaAnchorLocation'' \<notin> set evs)
   \<and> (\<exists>evs. dltdoa_anchor_location Env (sample_dltdoa 0x01C2) calm_world
               = Inr (ByteArray [21, 22, 23, 24, 25, 26, 27, 28, 29, 30],
                      calm_world\<lparr>trace := evs\<rparr>)
             \<and> TraceE ''Invalid dlTdoaAnchorLocation'' \<notin> set evs)
   \<and> (\<exists>evs. dltdoa_anchor_location Env (sample_dltdoa 0x01A2) calm_world
               = Inr (ByteArray [21, 22, 23, 24, 25, 26, 27, 28, 29, 30, 31, 32],
                      calm_world\<lparr>trace := evs\<rparr>)
             \<and> TraceE ''Invalid dlTdoaAnchorLocation'' \<notin> set evs)
   \<and> (\<exists>evs. dltdoa_anchor_location Env (sample_dltdoa 0x01E2) calm_world
               = Inr (Null, calm_world\<lparr>trace := evs\<rparr>)
             \<and> TraceE ''Invalid dlTdoaAnchorLocation'' \<in> set evs)"
  using anchor_location_decoding [of "sample_dltdoa 0x0182" calm_world]
        anchor_location_decoding [of "sample_dltdoa 0x01C2" calm_world]
        anchor_location_decoding [of "sample_dltdoa 0x01A2" calm_world]
        anchor_location_decoding [of "sample_dltdoa 0x01E2" calm_world]
  by (auto simp add: sample_dltdoa_fields calm_world_def TDOA_ANCHOR_LOC_LEN_12BYTES_def)

text \<open>
  C3. The value the code computes by masking the control word with 0x0FF0, then with
  0x0780, and shifting right by 7 is \<open>(message_control AND 0x0780) >> 7\<close> for every 16-bit
  control word. For a record whose active-ranging-round array holds at least that many
  bytes the block returns without a fault; the decoded field is the null reference when the
  value is 0, and otherwise a byte array whose length is that value.
\<close>
theorem active_ranging_round_decoding:
  assumes "unat (drop_bit 7 (dl_message_control m AND 0x0780)) \<le> length (dl_active_ranging_round m)"
  shows "activeRangingRoundValue (dl_message_control m) = drop_bit 7 (dl_message_control m AND 0x0780)
     \<and> (\<exists>v evs. dltdoa_active_ranging_round Env m w = Inr (v, w\<lparr>trace := trace w @ evs\<rparr>)
          \<and> v = (if drop_bit 7 (dl_message_control m AND 0x0780) = 0 then Null
                 else ByteArray (take (unat (drop_bit 7 (dl_message_control m AND 0x0780)))
                                   (dl_active_ranging_round m)))
          \<and> byte_array_length v =
                (if drop_bit 7 (dl_message_control m AND 0x0780) = 0 then None
                 else Some (unat (drop_bit 7 (dl_message_control m AND 0x0780)))))"
proof -
  define n where "n = activeRangingRoundValue (dl_message_control m)"
  have n: "drop_bit 7 (dl_message_control m AND 0x0780) = n"
    by (simp only: n_def activeRangingRoundValue_eq)
  have len: "unat n \<le> length (dl_active_ranging_round m)"
    using assms by (simp only: n)
  have "\<exists>v evs. dltdoa_active_ranging_round Env m w = Inr (v, w\<lparr>trace := trace w @ evs\<rparr>)
          \<and> v = (if n = 0 then Null else ByteArray (take (unat n) (dl_active_ranging_round m)))
          \<and> byte_array_length v = (if n = 0 then None else Some (unat n))"
    using len unfolding dltdoa_active_ranging_round_def n_def [symmetric]
    by (auto simp add: jni_defs byte_array_length_def)
  then show ?thesis
    by (simp only: n) (simp only: n_def simp_thms)
qed

theorem active_ranging_round_decoding_witness:
  "unat (drop_bit 7 (dl_message_control (sample_dltdoa 0x01C2) AND 0x0780))
      \<le> length (dl_active_ranging_round (sample_dltdoa 0x01C2))
   \<and> activeRangingRoundValue 0x01C2 = 3
   \<and> (\<exists>evs. dltdoa_active_ranging_round Env (sample_dltdoa 0x01C2) calm_world
               = Inr (ByteArray [41, 42, 43], calm_world\<lparr>trace := evs\<rparr>))
   \<and> (\<exists>evs. dltdoa_active_ranging_round Env (sample_dltdoa 0x0042) calm_world
               = Inr (Null, calm_world\<lparr>trace := evs\<rparr>))
   \<and> (\<exists>evs. dltdoa_active_ranging_round Env (sample_dltdoa 0xFFFF) calm_world
               = Inr (ByteArray [41, 42, 43, 44, 45, 46, 47, 48, 49, 50, 51, 52, 53, 54, 55],
                      calm_world\<lparr>trace := evs\<rparr>))"
  using active_ranging_round_decoding [of "sample_dltdoa 0x01C2" calm_world]
        active_ranging_round_decoding [of "sample_dltdoa 0x0042" calm_world]
        active_ranging_round_decoding [of "sample_dltdoa 0xFFFF" calm_world]
  by (auto simp add: sample_dltdoa_fields calm_world_def)

text \<open>
  The record of the data model's worked example: a control word with 64-bit transmit
  timestamp, 40-bit receive timestamp, anchor location in the relative system and three
  active ranging rounds.
\<close>
lemma sample_dltdoa_record_decoded:
  "\<exists>obj evs. dltdoa_measure Env sample_manager sample_defs (sample_range_ntf 2 0 1)
               (sample_dltdoa 0x01C2) calm_world
             = Inr (obj, calm_world\<lparr>trace := trace calm_world @ evs\<rparr>)
     \<and> arg_object obj 11 = ByteArray [1, 2, 3, 4, 5, 6, 7, 8]
     \<and> arg_object obj 12 = ByteArray [11, 12, 13, 14, 15]
     \<and> arg_object obj 18 = ByteArray [21, 22, 23, 24, 25, 26, 27, 28, 29, 30]
     \<and> arg_object obj 19 = ByteArray [41, 42, 43]"
proof -
  have "dltdoa_capacity (sample_dltdoa 0x01C2) \<or> False"
    by (simp add: dltdoa_capacity_def sample_dltdoa_fields activeRangingRoundValue_eq)
  from dltdoa_measure_spec [OF this, of sample_manager sample_defs "sample_range_ntf 2 0 1"]
  obtain obj evs where
    r: "dltdoa_measure Env sample_manager sample_defs (sample_range_ntf 2 0 1)
       (sample_dltdoa 0x01C2) calm_world = Inr (obj, calm_world\<lparr>trace := trace calm_world @ evs\<rparr>)"
    and d: "dltdoa_fields_decoded (sample_dltdoa 0x01C2) obj"
    unfolding spec_def by blast
  have f: "arg_object obj 11 = ByteArray [1, 2, 3, 4, 5, 6, 7, 8]"
    "arg_object obj 12 = ByteArray [11, 12, 13, 14, 15]"
    "arg_object obj 18 = ByteArray [21, 22, 23, 24, 25, 26, 27, 28, 29, 30]"
    "arg_object obj 19 = ByteArray [41, 42, 43]"
    using d by (simp_all add: dltdoa_fields_decoded_def sample_dltdoa_fields)
  show ?thesis
    by (intro exI conjI, rule r, rule f(1), rule f(2), rule f(3), rule f(4))
qed

text \<open>
  The record-level properties carry over to what the listener receives. In the superseded
  copy a downlink-TDoA notification within its declared capacities reaches the listener as
  a ranging-data object around one measurement object per record, each with its
  variable-length fields decoded as the table of the data model gives them.
\<close>
lemma dltdoa_notification_delivered:
  assumes "thread_env w = Env"
    and "ranging_measure_type ntf \<noteq> MEASUREMENT_TYPE_TWOWAY defs"
    and "ranging_measure_type ntf = MEASUREMENT_TYPE_DLTDOA defs"
    and "mOnRangeDataNotificationReceived mgr = Some mid"
    and "vs_len (vendor_specific_ntf ntf) \<le> length (vs_data (vendor_specific_ntf ntf))"
    and "no_of_measurements ntf \<le> length (dltdoa_range_measr ntf)"
    and "list_all dltdoa_capacity (take (no_of_measurements ntf) (dltdoa_range_measr ntf))"
  shows "\<exists>xs vendor evs.
           onRangeDataNotificationReceived_unused defs mgr ntf w
             = Inr ((), w\<lparr>pending := False, trace := trace w @ evs\<rparr>)
         \<and> length xs = no_of_measurements ntf
         \<and> (\<forall>j < no_of_measurements ntf.
               dltdoa_fields_decoded (dltdoa_range_measr ntf ! j) (xs ! j))
         \<and> EvCallVoidMethod (mObject mgr) mid
              [L (Object (mRangeDataClass mgr)
                    (MethodID ''<init>''
                       ''(JJIJBBI[Lcom/android/server/uwb/data/UwbDownLinkTDoAMeasurement;[B)V'')
                    [to_long (seq_counter ntf), to_long (session_id ntf),
                     to_int (rcr_indication ntf), to_long (curr_range_interval ntf),
                     to_int (ranging_measure_type ntf), to_int (mac_addr_mode_indicator ntf),
                     to_int (int (no_of_measurements ntf)),
                     L (ObjectArray (mRangeDlTdoaMeasuresClass mgr) xs), L vendor])]
             \<in> set evs"
proof -
  define vendor where "vendor = (if 0 < vs_len (vendor_specific_ntf ntf)
                        then ByteArray (take (vs_len (vendor_specific_ntf ntf))
                                          (vs_data (vendor_specific_ntf ntf)))
                        else Null)"
  have "vs_len (vendor_specific_ntf ntf) \<le> length (vs_data (vendor_specific_ntf ntf)) \<or> False"
    using assms(5) by simp
  from vendor_data_spec [OF this]
  obtain e0 where
    v: "(if 0 < vs_len (vendor_specific_ntf ntf) then
           jni_bind (NewByteArray Env (vs_len (vendor_specific_ntf ntf)))
             (\<lambda>vendorSpecificData.
           SetByteArrayRegion Env vendorSpecificData 0
             (vs_len (vendor_specific_ntf ntf)) (vs_data (vendor_specific_ntf ntf)))
         else
           jni_then (JNI_TRACE_I ''No Vendor specific ntf data!'') (jni_return Null)) w
        = Inr (vendor, w\<lparr>trace := trace w @ e0\<rparr>)"
    unfolding spec_def vendor_def by blast
  have caps: "(no_of_measurements ntf \<le> length (dltdoa_range_measr ntf)
            \<and> (\<forall>i < no_of_measurements ntf. dltdoa_capacity (dltdoa_range_measr ntf ! i))) \<or> False"
    using assms(6,7) by (simp add: list_all_length)
  from dltdoa_branch_spec [OF caps, of mgr defs vendor]
  obtain e1 xs where
    run: "dltdoa_branch Env mgr defs ntf vendor (w\<lparr>trace := trace w @ e0\<rparr>) =
            Inr (Object (mRangeDataClass mgr)
                   (MethodID ''<init>''
                      ''(JJIJBBI[Lcom/android/server/uwb/data/UwbDownLinkTDoAMeasurement;[B)V'')
                   [to_long (seq_counter ntf), to_long (session_id ntf),
                    to_int (rcr_indication ntf), to_long (curr_range_interval ntf),
                    to_int (ranging_measure_type ntf), to_int (mac_addr_mode_indicator ntf),
                    to_int (int (no_of_measurements ntf)),
                    L (ObjectArray (mRangeDlTdoaMeasuresClass mgr) xs), L vendor],
                 w\<lparr>trace := trace w @ e0, trace := trace (w\<lparr>trace := trace w @ e0\<rparr>) @ e1\<rparr>)"
    and xs: "length xs = no_of_measurements ntf"
      "\<forall>j < no_of_measurements ntf. dltdoa_fields_decoded (dltdoa_range_measr ntf ! j) (xs ! j)"
    unfolding spec_def by blast
  have res: "onRangeDataNotificationReceived_unused defs mgr ntf w
      = Inr ((), w\<lparr>pending := False, trace := trace w @
          (e0 @ e1 @ [EvCallVoidMethod (mObject mgr) mid
                  [L (Object (mRangeDataClass mgr)
                    (MethodID ''<init>''
                       ''(JJIJBBI[Lcom/android/server/uwb/data/UwbDownLinkTDoAMeasurement;[B)V'')
                    [to_long (seq_counter ntf), to_long (session_id ntf),
                     to_int (rcr_indication ntf), to_long (curr_range_interval ntf),
                     to_int (ranging_measure_type ntf), to_int (mac_addr_mode_indicator ntf),
                     to_int (int (no_of_measurements ntf)),
                     L (ObjectArray (mRangeDlTdoaMeasuresClass mgr) xs), L vendor])],
                 EvExceptionCheck]
            @ (if pending w \<or> listener_throws w mid
                  [L (Object (mRangeDataClass mgr)
                    (MethodID ''<init>''
                       ''(JJIJBBI[Lcom/android/server/uwb/data/UwbDownLinkTDoAMeasurement;[B)V'')
                    [to_long (seq_counter ntf), to_long (session_id ntf),
                     to_int (rcr_indication ntf), to_long (curr_range_interval ntf),
                     to_int (ranging_measure_type ntf), to_int (mac_addr_mode_indicator ntf),
                     to_int (int (no_of_measurements ntf)),
                     L (ObjectArray (mRangeDlTdoaMeasuresClass mgr) xs), L vendor])]
               then [EvExceptionDescribe, EvExceptionClear, TraceE ''fail to send range data'']
               else [])
            @ [TraceI ''exit''])\<rparr>)"
    unfolding onRangeDataNotificationReceived_unused_def
    using assms(1,2,3,4) v run
    by (simp add: jni_bind_def jni_then_def ScopedJniEnv_def CallVoidMethod_def ExceptionCheck_def
        ExceptionDescribe_def ExceptionClear_def env_call_def log_event_def JNI_TRACE_E_def
        JNI_TRACE_I_def jni_return_def)
  show ?thesis
    by (rule exI [of _ xs], rule exI [of _ vendor], intro exI conjI,
        rule res, rule xs(1), rule xs(2), simp)
qed

section \<open>Two-way measurements\<close>

text \<open>
  C4. For a two-way measurement record with its declared capacities (an 8-byte address and
  a 12-byte reserved array), both copies build the constructor call without a fault. Its
  first argument, the MAC address, and its last argument, the reserved bytes, are byte
  arrays of lengths 2 and 12 in short-address mode and of lengths 8 and 6 in every other
  mode; no other pair of lengths arises.
\<close>
theorem two_way_address_and_padding:
  assumes "8 \<le> length (twr_mac_addr m)" and "12 \<le> length (twr_rfu m)"
  shows "(\<exists>obj evs. twr_measure_active Env mgr defs ntf m w = Inr (obj, w\<lparr>trace := trace w @ evs\<rparr>)
           \<and> length (ctor_args obj) = 14
           \<and> (byte_array_length (arg_object obj 0), byte_array_length (arg_object obj 13)) =
               (if mac_addr_mode_indicator ntf = SHORT_MAC_ADDRESS defs then (Some 2, Some 12)
                else (Some 8, Some 6)))
       \<and> (\<exists>obj evs. twr_measure_unused Env mgr defs ntf m w = Inr (obj, w\<lparr>trace := trace w @ evs\<rparr>)
           \<and> length (ctor_args obj) = 15
           \<and> (byte_array_length (arg_object obj 0), byte_array_length (arg_object obj 14)) =
               (if mac_addr_mode_indicator ntf = SHORT_MAC_ADDRESS defs then (Some 2, Some 12)
                else (Some 8, Some 6)))"
proof
  show "\<exists>obj evs. twr_measure_active Env mgr defs ntf m w = Inr (obj, w\<lparr>trace := trace w @ evs\<rparr>)
           \<and> length (ctor_args obj) = 14
           \<and> (byte_array_length (arg_object obj 0), byte_array_length (arg_object obj 13)) =
               (if mac_addr_mode_indicator ntf = SHORT_MAC_ADDRESS defs then (Some 2, Some 12)
                else (Some 8, Some 6))"
    using assms unfolding twr_measure_active_def
    by (auto simp add: jni_defs byte_array_length_def arg_object_def ctor_args_def)
next
  show "\<exists>obj evs. twr_measure_unused Env mgr defs ntf m w = Inr (obj, w\<lparr>trace := trace w @ evs\<rparr>)
           \<and> length (ctor_args obj) = 15
           \<and> (byte_array_length (arg_object obj 0), byte_array_length (arg_object obj 14)) =
               (if mac_addr_mode_indicator ntf = SHORT_MAC_ADDRESS defs then (Some 2, Some 12)
                else (Some 8, Some 6))"
    using assms unfolding twr_measure_unused_def
    by (auto simp add: jni_defs byte_array_length_def arg_object_def ctor_args_def)
qed

theorem two_way_address_and_padding_witness:
  "8 \<le> length (twr_mac_addr sample_twr) \<and> 12 \<le> length (twr_rfu sample_twr)
   \<and> (\<exists>obj w'. twr_measure_active Env sample_manager sample_defs (sample_range_ntf 1 0 1)
                  sample_twr calm_world = Inr (obj, w')
        \<and> arg_object obj 0 = ByteArray [0xB1, 0xB2]
        \<and> arg_object obj 13 = ByteArray [61, 62, 63, 64, 65, 66, 67, 68, 69, 70, 71, 72])
   \<and> (\<exists>obj w'. twr_measure_unused Env sample_manager sample_defs (sample_range_ntf 1 1 1)
                  sample_twr calm_world = Inr (obj, w')
        \<and> arg_object obj 0 = ByteArray [0xB1, 0xB2, 0xB3, 0xB4, 0xB5, 0xB6, 0xB7, 0xB8]
        \<and> arg_object obj 14 = ByteArray [61, 62, 63, 64, 65, 66])"
  using two_way_address_and_padding
          [of sample_twr sample_manager sample_defs "sample_range_ntf 1 0 1" calm_world]
        two_way_address_and_padding
          [of sample_twr sample_manager sample_defs "sample_range_ntf 1 1 1" calm_world]
  by (auto simp add: sample_twr_fields sample_range_ntf_fields sample_defs_fields
      twr_measure_active_def twr_measure_unused_def jni_defs arg_object_def ctor_args_def)

text \<open>
  A two-way notification within its declared capacities reaches the listener of the active
  copy as a ranging-data object around one measurement object per record, each with an
  address and reserved bytes of complementary lengths.
\<close>
lemma two_way_notification_delivered:
  assumes "thread_env w = Env"
    and "ranging_measure_type ntf = MEASUREMENT_TYPE_TWOWAY defs"
    and "mOnRangeDataNotificationReceived mgr = Some mid"
    and "no_of_measurements ntf \<le> length (twr_range_measr ntf)"
    and "list_all twr_capacity (take (no_of_measurements ntf) (twr_range_measr ntf))"
  shows "\<exists>xs evs.
           onRangeDataNotificationReceived_active defs mgr ntf w
             = Inr ((), w\<lparr>pending := False, trace := trace w @ evs\<rparr>)
         \<and> length xs = no_of_measurements ntf
         \<and> list_all (twr_lengths_complementary defs ntf) xs
         \<and> EvCallVoidMethod (mObject mgr) mid
              [L (Object (mRangeDataClass mgr)
                    (MethodID ''<init>'' ''(JJIJIII[Lcom/android/uwb/data/UwbTwoWayMeasurement;)V'')
                    [to_long (seq_counter ntf), to_long (session_id ntf),
                     to_int (rcr_indication ntf), to_long (curr_range_interval ntf),
                     to_int (ranging_measure_type ntf), to_int (mac_addr_mode_indicator ntf),
                     to_int (int (no_of_measurements ntf)),
                     L (ObjectArray (mRangingTwoWayMeasuresClass mgr) xs)])]
             \<in> set evs"
proof -
  have caps: "(no_of_measurements ntf \<le> length (twr_range_measr ntf)
            \<and> (\<forall>i < no_of_measurements ntf. twr_capacity (twr_range_measr ntf ! i))) \<or> False"
    using assms(4,5) by (simp add: list_all_length)
  from twr_branch_active_spec [OF caps, of mgr defs]
  obtain e1 xs where
    run: "twr_branch_active Env mgr defs ntf w =
            Inr (Object (mRangeDataClass mgr)
                   (MethodID ''<init>'' ''(JJIJIII[Lcom/android/uwb/data/UwbTwoWayMeasurement;)V'')
                   [to_long (seq_counter ntf), to_long (session_id ntf),
                    to_int (rcr_indication ntf), to_long (curr_range_interval ntf),
                    to_int (ranging_measure_type ntf), to_int (mac_addr_mode_indicator ntf),
                    to_int (int (no_of_measurements ntf)),
                    L (ObjectArray (mRangingTwoWayMeasuresClass mgr) xs)],
                 w\<lparr>trace := trace w @ e1\<rparr>)"
    and xs: "length xs = no_of_measurements ntf" "list_all (twr_lengths_complementary defs ntf) xs"
    unfolding spec_def by blast
  have res: "onRangeDataNotificationReceived_active defs mgr ntf w
      = Inr ((), w\<lparr>pending := False, trace := trace w @
          (e1 @ [EvCallVoidMethod (mObject mgr) mid
                  [L (Object (mRangeDataClass mgr)
                    (MethodID ''<init>'' ''(JJIJIII[Lcom/android/uwb/data/UwbTwoWayMeasurement;)V'')
                    [to_long (seq_counter ntf), to_long (session_id ntf),
                     to_int (rcr_indication ntf), to_long (curr_range_interval ntf),
                     to_int (ranging_measure_type ntf), to_int (mac_addr_mode_indicator ntf),
                     to_int (int (no_of_measurements ntf)),
                     L (ObjectArray (mRangingTwoWayMeasuresClass mgr) xs)])],
                 EvExceptionCheck]
            @ (if pending w \<or> listener_throws w mid
                  [L (Object (mRangeDataClass mgr)
                    (MethodID ''<init>'' ''(JJIJIII[Lcom/android/uwb/data/UwbTwoWayMeasurement;)V'')
                    [to_long (seq_counter ntf), to_long (session_id ntf),
                     to_int (rcr_indication ntf), to_long (curr_range_interval ntf),
                     to_int (ranging_measure_type ntf), to_int (mac_addr_mode_indicator ntf),
                     to_int (int (no_of_measurements ntf)),
                     L (ObjectArray (mRangingTwoWayMeasuresClass mgr) xs)])]
               then [EvExceptionDescribe, EvExceptionClear, TraceE ''fail to send range data'']
               else [])
            @ [TraceI ''exit''])\<rparr>)"
    unfolding onRangeDataNotificationReceived_active_def
    using assms(1,2,3) run
    by (simp add: jni_defs handler_tail_defs)
  show ?thesis
    by (intro exI conjI, rule res, rule xs(1), rule xs(2), simp)
qed

text \<open>The same for the superseded copy, whose ranging-data object also carries the vendor data.\<close>
lemma two_way_notification_delivered_unused:
  assumes "thread_env w = Env"
    and "ranging_measure_type ntf = MEASUREMENT_TYPE_TWOWAY defs"
    and "mOnRangeDataNotificationReceived mgr = Some mid"
    and "vs_len (vendor_specific_ntf ntf) \<le> length (vs_data (vendor_specific_ntf ntf))"
    and "no_of_measurements ntf \<le> length (twr_range_measr ntf)"
    and "list_all twr_capacity (take (no_of_measurements ntf) (twr_range_measr ntf))"
  shows "\<exists>xs vendor evs.
           onRangeDataNotificationReceived_unused defs mgr ntf w
             = Inr ((), w\<lparr>pending := False, trace := trace w @ evs\<rparr>)
         \<and> length xs = no_of_measurements ntf
         \<and> list_all (twr_lengths_complementary defs ntf) xs
         \<and> EvCallVoidMethod (mObject mgr) mid
              [L (Object (mRangeDataClass mgr)
                    (MethodID ''<init>''
                       ''(JJIJIII[Lcom/android/server/uwb/data/UwbTwoWayMeasurement;[B)V'')
                    [to_long (seq_counter ntf), to_long (session_id ntf),
                     to_int (rcr_indication ntf), to_long (curr_range_interval ntf),
                     to_int (ranging_measure_type ntf), to_int (mac_addr_mode_indicator ntf),
                     to_int (int (no_of_measurements ntf)),
                     L (ObjectArray (mRangingTwoWayMeasuresClass mgr) xs), L vendor])]
             \<in> set evs"
proof -
  define vendor where "vendor = (if 0 < vs_len (vendor_specific_ntf ntf)
                        then ByteArray (take (vs_len (vendor_specific_ntf ntf))
                                          (vs_data (vendor_specific_ntf ntf)))
                        else Null)"
  have "vs_len (vendor_specific_ntf ntf) \<le> length (vs_data (vendor_specific_ntf ntf)) \<or> False"
    using assms(4) by simp
  from vendor_data_spec [OF this]
  obtain e0 where
    v: "(if 0 < vs_len (vendor_specific_ntf ntf) then
           jni_bind (NewByteArray Env (vs_len (vendor_specific_ntf ntf)))
             (\<lambda>vendorSpecificData.
           SetByteArrayRegion Env vendorSpecificData 0
             (vs_len (vendor_specific_ntf ntf)) (vs_data (vendor_specific_ntf ntf)))
         else
           jni_then (JNI_TRACE_I ''No Vendor specific ntf data!'') (jni_return Null)) w
        = Inr (vendor, w\<lparr>trace := trace w @ e0\<rparr>)"
    unfolding spec_def vendor_def by blast
  have caps: "(no_of_measurements ntf \<le> length (twr_range_measr ntf)
            \<and> (\<forall>i < no_of_measurements ntf. twr_capacity (twr_range_measr ntf ! i))) \<or> False"
    using assms(5,6) by (simp add: list_all_length)
  from twr_branch_unused_spec [OF caps, of mgr defs vendor]
  obtain e1 xs where
    run: "twr_branch_unused Env mgr defs ntf vendor (w\<lparr>trace := trace w @ e0\<rparr>) =
            Inr (Object (mRangeDataClass mgr)
                   (MethodID ''<init>''
                      ''(JJIJIII[Lcom/android/server/uwb/data/UwbTwoWayMeasurement;[B)V'')
                   [to_long (seq_counter ntf), to_long (session_id ntf),
                    to_int (rcr_indication ntf), to_long (curr_range_interval ntf),
                    to_int (ranging_measure_type ntf), to_int (mac_addr_mode_indicator ntf),
                    to_int (int (no_of_measurements ntf)),
                    L (ObjectArray (mRangingTwoWayMeasuresClass mgr) xs), L vendor],
                 w\<lparr>trace := trace w @ e0, trace := trace (w\<lparr>trace := trace w @ e0\<rparr>) @ e1\<rparr>)"
    and xs: "length xs = no_of_measurements ntf" "list_all (twr_lengths_complementary defs ntf) xs"
    unfolding spec_def by blast
  have res: "onRangeDataNotificationReceived_unused defs mgr ntf w
      = Inr ((), w\<lparr>pending := False, trace := trace w @
          (e0 @ e1 @ [EvCallVoidMethod (mObject mgr) mid
                  [L (Object (mRangeDataClass mgr)
                    (MethodID ''<init>''
                       ''(JJIJIII[Lcom/android/server/uwb/data/UwbTwoWayMeasurement;[B)V'')
                    [to_long (seq_counter ntf), to_long (session_id ntf),
                     to_int (rcr_indication ntf), to_long (curr_range_interval ntf),
                     to_int (ranging_measure_type ntf), to_int (mac_addr_mode_indicator ntf),
                     to_int (int (no_of_measurements ntf)),
                     L (ObjectArray (mRangingTwoWayMeasuresClass mgr) xs), L vendor])],
                 EvExceptionCheck]
            @ (if pending w \<or> listener_throws w mid
                  [L (Object (mRangeDataClass mgr)
                    (MethodID ''<init>''
                       ''(JJIJIII[Lcom/android/server/uwb/data/UwbTwoWayMeasurement;[B)V'')
                    [to_long (seq_counter ntf), to_long (session_id ntf),
                     to_int (rcr_indication ntf), to_long (curr_range_interval ntf),
                     to_int (ranging_measure_type ntf), to_int (mac_addr_mode_indicator ntf),
                     to_int (int (no_of_measurements ntf)),
                     L (ObjectArray (mRangingTwoWayMeasuresClass mgr) xs), L vendor])]
               then [EvExceptionDescribe, EvExceptionClear, TraceE ''fail to send range data'']
               else [])
            @ [TraceI ''exit''])\<rparr>)"
    unfolding onRangeDataNotificationReceived_unused_def
    using assms(1,2,3) v run
    by (simp add: jni_bind_def jni_then_def ScopedJniEnv_def CallVoidMethod_def ExceptionCheck_def
        ExceptionDescribe_def ExceptionClear_def env_call_def log_event_def JNI_TRACE_E_def
        JNI_TRACE_I_def jni_return_def)
  show ?thesis
    by (rule exI [of _ xs], rule exI [of _ vendor], intro exI conjI,
        rule res, rule xs(1), rule xs(2), simp)
qed

section \<open>The type tag\<close>

text \<open>
  C8. The active copy has no rejection path for the type tag. With an environment, the two
  classes cached, a registered listener method and TDoA records within their declared
  capacities, every notification whose tag is anything but two-way, whatever its value, is
  marshalled by the TDoA branch and handed to the listener: the handler logs the branch,
  returns normally, and calls the listener exactly once, on a ranging-data object built by
  the TDoA constructor around an array that holds, at each position, the TDoA measurement
  object of the record at that position, with that record's fields as constructor arguments.
\<close>
theorem active_non_two_way_is_marshalled_as_tdoa:
  assumes "thread_env w = Env"
    and "ranging_measure_type ntf \<noteq> MEASUREMENT_TYPE_TWOWAY defs"
    and "mRangeDataClass mgr \<noteq> None"
    and "mRangeTdoaMeasuresClass mgr \<noteq> None"
    and "mOnRangeDataNotificationReceived mgr = Some mid"
    and "no_of_measurements ntf \<le> length (tdoa_range_measr ntf)"
    and "list_all tdoa_capacity (take (no_of_measurements ntf) (tdoa_range_measr ntf))"
  shows "\<exists>evs.
           onRangeDataNotificationReceived_active defs mgr ntf w
             = Inr ((), w\<lparr>pending := False, trace := trace w @ evs\<rparr>)
         \<and> TraceI ''ranging_measure_type = MEASUREMENT_TYPE_ONEWAY'' \<in> set evs
         \<and> filter is_callback evs =
             [EvCallVoidMethod (mObject mgr) mid
                [L (Object (mRangeDataClass mgr)
                      (MethodID ''<init>'' ''(JJIJIII[Lcom/android/uwb/data/UwbTDoAMeasurement;)V'')
                      [to_long (seq_counter ntf), to_long (session_id ntf),
                       to_int (rcr_indication ntf), to_long (curr_range_interval ntf),
                       to_int (ranging_measure_type ntf), to_int (mac_addr_mode_indicator ntf),
                       to_int (int (no_of_measurements ntf)),
                       L (ObjectArray (mRangeTdoaMeasuresClass mgr)
                            (map (tdoa_measurement_object defs mgr ntf)
                               (take (no_of_measurements ntf) (tdoa_range_measr ntf))))])]]"
proof -
  let ?records = "take (no_of_measurements ntf) (tdoa_range_measr ntf)"
  let ?obj = "\<lambda>xs. Object (mRangeDataClass mgr)
                   (MethodID ''<init>'' ''(JJIJIII[Lcom/android/uwb/data/UwbTDoAMeasurement;)V'')
                   [to_long (seq_counter ntf), to_long (session_id ntf),
                    to_int (rcr_indication ntf), to_long (curr_range_interval ntf),
                    to_int (ranging_measure_type ntf), to_int (mac_addr_mode_indicator ntf),
                    to_int (int (no_of_measurements ntf)),
                    L (ObjectArray (mRangeTdoaMeasuresClass mgr) xs)]"
  have caps: "(no_of_measurements ntf \<le> length (tdoa_range_measr ntf)
            \<and> (\<forall>i < no_of_measurements ntf. tdoa_capacity (tdoa_range_measr ntf ! i))) \<or> False"
    using assms(6,7) by (simp add: list_all_length)
  from tdoa_branch_spec [OF caps, of mgr defs]
  obtain e1 xs where quiet: "\<not> list_ex is_callback e1"
    and run: "tdoa_branch Env mgr defs ntf w = Inr (?obj xs, w\<lparr>trace := trace w @ e1\<rparr>)"
    and len: "length xs = no_of_measurements ntf"
    and nth: "\<forall>j < no_of_measurements ntf.
                xs ! j = tdoa_measurement_object defs mgr ntf (tdoa_range_measr ntf ! j)"
    unfolding spec_def by blast
  have xs: "xs = map (tdoa_measurement_object defs mgr ntf) ?records"
    using len nth assms(6) by (intro nth_equalityI) simp_all
  from tdoa_branch_split [OF caps, of mgr defs] obtain body where
    body: "tdoa_branch Env mgr defs ntf
             = jni_then (JNI_TRACE_I ''ranging_measure_type = MEASUREMENT_TYPE_ONEWAY'') body"
    and quiet_body: "spec body False (\<lambda>obj. True)"
    by (blast intro: spec_weaken)
  have logged: "TraceI ''ranging_measure_type = MEASUREMENT_TYPE_ONEWAY'' \<in> set e1"
    using spec_logged_first [OF quiet_body] run unfolding body by blast
  have none: "filter is_callback e1 = []"
    using quiet by (simp add: filter_empty_conv list_ex_iff)
  define tail where "tail =
     [EvCallVoidMethod (mObject mgr) mid [L (?obj xs)], EvExceptionCheck]
       @ (if pending w \<or> listener_throws w mid [L (?obj xs)]
          then [EvExceptionDescribe, EvExceptionClear, TraceE ''fail to send range data'']
          else [])
       @ [TraceI ''exit'']"
  have res: "onRangeDataNotificationReceived_active defs mgr ntf w
      = Inr ((), w\<lparr>pending := False, trace := trace w @ (e1 @ tail)\<rparr>)"
    unfolding onRangeDataNotificationReceived_active_def tail_def
    using assms(1,2,5) run
    by (simp add: jni_defs handler_tail_defs)
  have calls: "filter is_callback (e1 @ tail) = [EvCallVoidMethod (mObject mgr) mid [L (?obj xs)]]"
    using none by (simp add: tail_def)
  show ?thesis
    using res logged calls unfolding xs by (intro exI [of _ "e1 @ tail"]) simp
qed

theorem active_non_two_way_is_marshalled_as_tdoa_witness:
  "thread_env calm_world = Env
   \<and> ranging_measure_type (sample_range_ntf 0x7F 0 2) \<noteq> MEASUREMENT_TYPE_TWOWAY sample_defs
   \<and> mRangeDataClass sample_manager \<noteq> None
   \<and> mRangeTdoaMeasuresClass sample_manager \<noteq> None
   \<and> mOnRangeDataNotificationReceived sample_manager
       = Some (MethodID ''onRangeDataNotificationReceived'' ''(LUwbRangingData;)V'')
   \<and> no_of_measurements (sample_range_ntf 0x7F 0 2)
       \<le> length (tdoa_range_measr (sample_range_ntf 0x7F 0 2))
   \<and> list_all tdoa_capacity (take (no_of_measurements (sample_range_ntf 0x7F 0 2))
                                (tdoa_range_measr (sample_range_ntf 0x7F 0 2)))
   \<and> (\<exists>evs. onRangeDataNotificationReceived_active sample_defs sample_manager
               (sample_range_ntf 0x7F 0 2) calm_world
             = Inr ((), calm_world\<lparr>pending := False, trace := trace calm_world @ evs\<rparr>)
        \<and> TraceI ''ranging_measure_type = MEASUREMENT_TYPE_ONEWAY'' \<in> set evs
        \<and> filter is_callback evs =
            [EvCallVoidMethod (mObject sample_manager)
               (MethodID ''onRangeDataNotificationReceived'' ''(LUwbRangingData;)V'')
               [L (Object (Some ''UwbRangingData'')
                     (MethodID ''<init>'' ''(JJIJIII[Lcom/android/uwb/data/UwbTDoAMeasurement;)V'')
                     [J 5, J 99, I 0, J 200, I 0x7F, I 0, I 2,
                      L (ObjectArray (Some ''UwbTDoAMeasurement'')
                           [Object (Some ''UwbTDoAMeasurement'')
                              (MethodID ''<init>'' ''([BIIIIIIJJ[B[B[B)V'')
                              [L (ByteArray [0xD1, 0xD2]), I 1, I 0, I 10, I 90, I 20, I 80,
                               J 123456, J 42,
                               L (ByteArray [81, 82, 83, 84, 85, 86, 87, 88, 89, 90, 91, 92]),
                               L (ByteArray [0xE1, 0xE2]), L Null],
                            Object (Some ''UwbTDoAMeasurement'')
                              (MethodID ''<init>'' ''([BIIIIIIJJ[B[B[B)V'')
                              [L (ByteArray [0x91, 0x92]), I 0, I 1, I 11, I 91, I 21, I 81,
                               J 654321, J 43,
                               L (ByteArray [101, 102, 103, 104, 105, 106, 107, 108, 109, 110,
                                             111, 112]),
                               L Null, L (ByteArray [0x51, 0x52, 0x53])]])])]])"
proof -
  have mgr: "mOnRangeDataNotificationReceived sample_manager
       = Some (MethodID ''onRangeDataNotificationReceived'' ''(LUwbRangingData;)V'')"
    "mRangeDataClass sample_manager = Some ''UwbRangingData''"
    "mRangeTdoaMeasuresClass sample_manager = Some ''UwbTDoAMeasurement''"
    by (simp_all add: sample_manager_def)
  have ntf: "seq_counter (sample_range_ntf 0x7F 0 2) = 5" "session_id (sample_range_ntf 0x7F 0 2) = 99"
    "rcr_indication (sample_range_ntf 0x7F 0 2) = 0"
    "curr_range_interval (sample_range_ntf 0x7F 0 2) = 200"
    by (simp_all add: sample_range_ntf_def)
  have hyps: "thread_env calm_world = Env"
    "ranging_measure_type (sample_range_ntf 0x7F 0 2) \<noteq> MEASUREMENT_TYPE_TWOWAY sample_defs"
    "mRangeDataClass sample_manager \<noteq> None"
    "mRangeTdoaMeasuresClass sample_manager \<noteq> None"
    "no_of_measurements (sample_range_ntf 0x7F 0 2)
       \<le> length (tdoa_range_measr (sample_range_ntf 0x7F 0 2))"
    "list_all tdoa_capacity (take (no_of_measurements (sample_range_ntf 0x7F 0 2))
                                (tdoa_range_measr (sample_range_ntf 0x7F 0 2)))"
    by (simp_all add: calm_world_def sample_range_ntf_fields sample_defs_fields
        sample_tdoa_capacity mgr(2,3))
  from active_non_two_way_is_marshalled_as_tdoa
         [OF hyps(1) hyps(2) hyps(3) hyps(4) mgr(1) hyps(5) hyps(6)]
  show ?thesis
    using hyps mgr(1)
    by (simp add: mgr(2,3) ntf sample_range_ntf_fields sample_tdoa_objects to_int_def to_long_def)
qed

text \<open>
  C9. In the superseded copy, when the type tag is none of two-way, downlink-TDoA and
  one-way-with-AoA (and the vendor data announced fits its array), the handler returns
  normally, and among the events it adds there is no object construction and no call into
  the listener. With an environment available it logs the line of the guarded delivery's
  else branch.
\<close>
theorem unknown_type_builds_nothing:
  assumes "ranging_measure_type ntf \<noteq> MEASUREMENT_TYPE_TWOWAY defs"
    and "ranging_measure_type ntf \<noteq> MEASUREMENT_TYPE_DLTDOA defs"
    and "ranging_measure_type ntf \<noteq> MEASUREMENT_TYPE_OWR_WITH_AOA defs"
    and "vs_len (vendor_specific_ntf ntf) \<le> length (vs_data (vendor_specific_ntf ntf))"
  shows "\<exists>evs. onRangeDataNotificationReceived_unused defs mgr ntf w
                 = Inr ((), w\<lparr>trace := trace w @ evs\<rparr>)
     \<and> \<not> list_ex is_new_object evs \<and> \<not> list_ex is_callback evs
     \<and> (TraceE ''rangeDataNtf MID is NULL'' \<in> set evs) = (thread_env w = Env)"
proof (cases "thread_env w")
  case NULL_ENV
  then show ?thesis
    unfolding onRangeDataNotificationReceived_unused_def
    by (auto simp add: jni_defs handler_tail_defs)
next
  case Env
  then show ?thesis
    using assms unfolding onRangeDataNotificationReceived_unused_def
    by (cases "mOnRangeDataNotificationReceived mgr")
       (auto simp add: jni_defs handler_tail_defs)
qed

theorem unknown_type_builds_nothing_witness:
  "ranging_measure_type (sample_range_ntf 0x7F 0 1) \<noteq> MEASUREMENT_TYPE_TWOWAY sample_defs
   \<and> ranging_measure_type (sample_range_ntf 0x7F 0 1) \<noteq> MEASUREMENT_TYPE_DLTDOA sample_defs
   \<and> ranging_measure_type (sample_range_ntf 0x7F 0 1) \<noteq> MEASUREMENT_TYPE_OWR_WITH_AOA sample_defs
   \<and> vs_len (vendor_specific_ntf (sample_range_ntf 0x7F 0 1))
       \<le> length (vs_data (vendor_specific_ntf (sample_range_ntf 0x7F 0 1)))
   \<and> onRangeDataNotificationReceived_unused sample_defs sample_manager (sample_range_ntf 0x7F 0 1)
        calm_world
      = Inr ((), calm_world\<lparr>trace := [TraceI ''No Vendor specific ntf data!'',
                                       TraceE ''rangeDataNtf MID is NULL'', TraceI ''exit'']\<rparr>)"
  using unknown_type_builds_nothing
          [of "sample_range_ntf 0x7F 0 1" sample_defs sample_manager calm_world]
  by (auto simp add: sample_range_ntf_fields sample_defs_fields calm_world_def sample_manager_def
      onRangeDataNotificationReceived_unused_def jni_defs handler_tail_defs)

section \<open>Multicast list updates\<close>

text \<open>
  The superseded copy turns an update away when it announces more than the maximum: it
  returns having added log lines only.
\<close>
lemma multicast_unused_rejects:
  assumes "no_of_controlees ntf > MAX_NUM_CONTROLLEES defs"
  shows "\<exists>evs. onMulticastListUpdateNotificationReceived_unused defs mgr (Some ntf) w
                 = Inr ((), w\<lparr>trace := trace w @ evs\<rparr>)
           \<and> list_all is_log evs
           \<and> (thread_env w = Env \<longrightarrow>
                evs = [TraceI ''enter;'', TraceE ''no Of Controlees %d exceeded max allowed: %d ''])"
  using assms unfolding onMulticastListUpdateNotificationReceived_unused_def
  by (cases "thread_env w") (auto simp add: jni_defs handler_tail_defs)

text \<open>
  C10. With an environment and a registered listener method, an update whose controlee
  count is 0 is not turned away by either copy. The arrays are created with length 0, no
  region is copied, the update object is constructed from them and handed to the listener;
  the events the handler adds are exactly the ones listed.
\<close>
theorem empty_multicast_update_is_delivered:
  assumes "thread_env w = Env" and "no_of_controlees ntf = 0"
    and "mOnMulticastListUpdateNotificationReceived mgr = Some mid"
  shows "onMulticastListUpdateNotificationReceived_unused defs mgr (Some ntf) w =
           Inr ((), w\<lparr>pending := False, trace := trace w @
             [TraceI ''enter;'', EvNewIntArray 0, EvNewLongArray 0, EvNewIntArray 0,
              EvGetMethodID (mMulticastUpdateListDataClass mgr) ''<init>'' ''(JII[I[J[I)V'',
              EvNewObject (Object (mMulticastUpdateListDataClass mgr)
                (MethodID ''<init>'' ''(JII[I[J[I)V'')
                [to_long (mc_session_id ntf), to_int (remaining_list ntf), to_int 0,
                 L (IntArray []), L (LongArray []), L (IntArray [])]),
              EvCallVoidMethod (mObject mgr) mid
                [L (Object (mMulticastUpdateListDataClass mgr)
                  (MethodID ''<init>'' ''(JII[I[J[I)V'')
                  [to_long (mc_session_id ntf), to_int (remaining_list ntf), to_int 0,
                   L (IntArray []), L (LongArray []), L (IntArray [])])],
              EvExceptionCheck]
             @ (if pending w \<or> listener_throws w mid
                    [L (Object (mMulticastUpdateListDataClass mgr)
                      (MethodID ''<init>'' ''(JII[I[J[I)V'')
                      [to_long (mc_session_id ntf), to_int (remaining_list ntf), to_int 0,
                       L (IntArray []), L (LongArray []), L (IntArray [])])]
                then [EvExceptionClear, TraceE ''fail to send Multicast update list ntf'']
                else [])
             @ [TraceI ''exit'']\<rparr>)
     \<and> onMulticastListUpdateNotificationReceived_active mgr (Some ntf) w =
           Inr ((), w\<lparr>pending := False, trace := trace w @
             [TraceI ''enter;'', EvNewLongArray 0, EvNewIntArray 0,
              EvGetMethodID (mMulticastUpdateListDataClass mgr) ''<init>'' ''(JII[J[I)V'',
              EvNewObject (Object (mMulticastUpdateListDataClass mgr)
                (MethodID ''<init>'' ''(JII[J[I)V'')
                [to_long (mc_session_id ntf), to_int (remaining_list ntf), to_int 0,
                 L (LongArray []), L (IntArray [])]),
              EvCallVoidMethod (mObject mgr) mid
                [L (Object (mMulticastUpdateListDataClass mgr)
                  (MethodID ''<init>'' ''(JII[J[I)V'')
                  [to_long (mc_session_id ntf), to_int (remaining_list ntf), to_int 0,
                   L (LongArray []), L (IntArray [])])],
              EvExceptionCheck]
             @ (if pending w \<or> listener_throws w mid
                    [L (Object (mMulticastUpdateListDataClass mgr)
                      (MethodID ''<init>'' ''(JII[J[I)V'')
                      [to_long (mc_session_id ntf), to_int (remaining_list ntf), to_int 0,
                       L (LongArray []), L (IntArray [])])]
                then [EvExceptionClear, TraceE ''fail to send Multicast update list ntf'']
                else [])
             @ [TraceI ''exit'']\<rparr>)"
proof
  show "onMulticastListUpdateNotificationReceived_unused defs mgr (Some ntf) w =
           Inr ((), w\<lparr>pending := False, trace := trace w @
             [TraceI ''enter;'', EvNewIntArray 0, EvNewLongArray 0, EvNewIntArray 0,
              EvGetMethodID (mMulticastUpdateListDataClass mgr) ''<init>'' ''(JII[I[J[I)V'',
              EvNewObject (Object (mMulticastUpdateListDataClass mgr)
                (MethodID ''<init>'' ''(JII[I[J[I)V'')
                [to_long (mc_session_id ntf), to_int (remaining_list ntf), to_int 0,
                 L (IntArray []), L (LongArray []), L (IntArray [])]),
              EvCallVoidMethod (mObject mgr) mid
                [L (Object (mMulticastUpdateListDataClass mgr)
                  (MethodID ''<init>'' ''(JII[I[J[I)V'')
                  [to_long (mc_session_id ntf), to_int (remaining_list ntf), to_int 0,
                   L (IntArray []), L (LongArray []), L (IntArray [])])],
              EvExceptionCheck]
             @ (if pending w \<or> listener_throws w mid
                    [L (Object (mMulticastUpdateListDataClass mgr)
                      (MethodID ''<init>'' ''(JII[I[J[I)V'')
                      [to_long (mc_session_id ntf), to_int (remaining_list ntf), to_int 0,
                       L (IntArray []), L (LongArray []), L (IntArray [])])]
                then [EvExceptionClear, TraceE ''fail to send Multicast update list ntf'']
                else [])
             @ [TraceI ''exit'']\<rparr>)"
    using assms unfolding onMulticastListUpdateNotificationReceived_unused_def
    by (simp add: jni_defs handler_tail_defs)
next
  show "onMulticastListUpdateNotificationReceived_active mgr (Some ntf) w =
           Inr ((), w\<lparr>pending := False, trace := trace w @
             [TraceI ''enter;'', EvNewLongArray 0, EvNewIntArray 0,
              EvGetMethodID (mMulticastUpdateListDataClass mgr) ''<init>'' ''(JII[J[I)V'',
              EvNewObject (Object (mMulticastUpdateListDataClass mgr)
                (MethodID ''<init>'' ''(JII[J[I)V'')
                [to_long (mc_session_id ntf), to_int (remaining_list ntf), to_int 0,
                 L (LongArray []), L (IntArray [])]),
              EvCallVoidMethod (mObject mgr) mid
                [L (Object (mMulticastUpdateListDataClass mgr)
                  (MethodID ''<init>'' ''(JII[J[I)V'')
                  [to_long (mc_session_id ntf), to_int (remaining_list ntf), to_int 0,
                   L (LongArray []), L (IntArray [])])],
              EvExceptionCheck]
             @ (if pending w \<or> listener_throws w mid
                    [L (Object (mMulticastUpdateListDataClass mgr)
                      (MethodID ''<init>'' ''(JII[J[I)V'')
                      [to_long (mc_session_id ntf), to_int (remaining_list ntf), to_int 0,
                       L (LongArray []), L (IntArray [])])]
                then [EvExceptionClear, TraceE ''fail to send Multicast update list ntf'']
                else [])
             @ [TraceI ''exit'']\<rparr>)"
    using assms unfolding onMulticastListUpdateNotificationReceived_active_def
    by (simp add: jni_defs handler_tail_defs)
qed

theorem empty_multicast_update_is_delivered_witness:
  "thread_env calm_world = Env \<and> no_of_controlees empty_multicast = 0
   \<and> mOnMulticastListUpdateNotificationReceived sample_manager
       = Some (MethodID ''onMulticastListUpdateNotificationReceived''
                 ''(LUwbMulticastListUpdateStatus;)V'')
   \<and> (\<exists>w'. onMulticastListUpdateNotificationReceived_unused sample_defs sample_manager
               (Some empty_multicast) calm_world = Inr ((), w')
          \<and> EvCallVoidMethod (mObject sample_manager)
               (MethodID ''onMulticastListUpdateNotificationReceived''
                  ''(LUwbMulticastListUpdateStatus;)V'')
               [L (Object (Some ''UwbMulticastListUpdateStatus'')
                    (MethodID ''<init>'' ''(JII[I[J[I)V'')
                    [J 99, I 0, I 0, L (IntArray []), L (LongArray []), L (IntArray [])])]
             \<in> set (trace w'))
   \<and> (\<exists>w'. onMulticastListUpdateNotificationReceived_active sample_manager
               (Some empty_multicast) calm_world = Inr ((), w')
          \<and> EvCallVoidMethod (mObject sample_manager)
               (MethodID ''onMulticastListUpdateNotificationReceived''
                  ''(LUwbMulticastListUpdateStatus;)V'')
               [L (Object (Some ''UwbMulticastListUpdateStatus'')
                    (MethodID ''<init>'' ''(JII[J[I)V'')
                    [J 99, I 0, I 0, L (LongArray []), L (IntArray [])])]
             \<in> set (trace w'))"
  using empty_multicast_update_is_delivered
          [of calm_world empty_multicast sample_manager
              "MethodID ''onMulticastListUpdateNotificationReceived''
                 ''(LUwbMulticastListUpdateStatus;)V''" sample_defs]
  by (simp add: calm_world_def empty_multicast_fields sample_manager_def to_int_def to_long_def)

text \<open>
  C5, on the failing input. The active copy has no test against the maximum: for an update
  that announces nine controlees in arrays declared for eight it allocates two managed
  arrays of length nine and then reads the status array past its end.
\<close>
theorem active_multicast_oversized_update:
  "onMulticastListUpdateNotificationReceived_active sample_manager (Some oversized_multicast)
     calm_world
   = Inl (OutOfBoundsRead,
          calm_world\<lparr>trace := [TraceI ''enter;'', EvNewLongArray 9, EvNewIntArray 9]\<rparr>)"
  unfolding onMulticastListUpdateNotificationReceived_active_def
  by (simp add: oversized_multicast_def calm_world_def jni_defs handler_tail_defs upt_rec)

section \<open>The environment guard\<close>

text \<open>Without an environment every handler of the active copy logs and returns.\<close>
lemma environment_unavailable_active:
  assumes "thread_env w = NULL_ENV"
  shows "\<exists>evs. handle_active defs mgr a w = Inr ((), w\<lparr>trace := trace w @ evs\<rparr>)
           \<and> list_all is_log evs \<and> TraceE ''jni env is null'' \<in> set evs"
  using assms
  by (cases a)
     (auto simp add: onRangeDataNotificationReceived_active_def onRawUciNotificationReceived_def
        onSessionStatusNotificationReceived_def onDeviceStateNotificationReceived_def
        onCoreGenericErrorNotificationReceived_def
        onMulticastListUpdateNotificationReceived_active_def
        onBlinkDataTxNotificationReceived_def jni_defs handler_tail_defs)

text \<open>So does every handler of the superseded copy other than \<^verbatim>\<open>onVendorDeviceInfo\<close>.\<close>
lemma environment_unavailable_unused:
  assumes "thread_env w = NULL_ENV" and "\<And>data len. u \<noteq> U_VendorDeviceInfo data len"
  shows "\<exists>evs. handle_unused defs mgr u w = Inr ((), w\<lparr>trace := trace w @ evs\<rparr>)
           \<and> list_all is_log evs \<and> TraceE ''jni env is null'' \<in> set evs"
  using assms
  by (cases u)
     (auto simp add: onRangeDataNotificationReceived_unused_def onRawUciNotificationReceived_def
        onSessionStatusNotificationReceived_def onDeviceStateNotificationReceived_def
        onCoreGenericErrorNotificationReceived_def
        onMulticastListUpdateNotificationReceived_unused_def
        onBlinkDataTxNotificationReceived_def onVendorUciNotificationReceived_def
        jni_defs handler_tail_defs)

text \<open>\<^verbatim>\<open>onVendorDeviceInfo\<close> dereferences the null environment whenever it has a payload.\<close>
lemma vendor_device_info_null_environment:
  assumes "thread_env w = NULL_ENV" and "len \<noteq> 0"
  shows "onVendorDeviceInfo mgr (Some bytes) len w = Inl (NullEnvDereference, w)"
  using assms unfolding onVendorDeviceInfo_def
  by (simp add: jni_defs handler_tail_defs unsigned_eq_0_iff)

text \<open>
  C6, on the failing input. \<^verbatim>\<open>onVendorDeviceInfo\<close> of the superseded copy uses the
  environment without testing it: with no environment for the calling thread and a
  non-empty payload the first JNI call dereferences the null environment.
\<close>
theorem vendor_device_info_without_environment:
  "onVendorDeviceInfo sample_manager (Some [1, 2, 3]) 3 detached_world
   = Inl (NullEnvDereference, detached_world)"
  unfolding onVendorDeviceInfo_def
  by (simp add: detached_world_def jni_defs handler_tail_defs)

section \<open>Exceptions thrown by the listener\<close>

lemma pending_False_update: "\<not> pending w \<Longrightarrow> w\<lparr>pending := False, trace := t\<rparr> = w\<lparr>trace := t\<rparr>"
  by (cases w) simp

lemma faults_contained_after_quiet:
  "\<not> list_ex is_callback e1 \<Longrightarrow> faults_contained thr (e1 @ e2) = faults_contained thr e2"
proof (induction e1)
  case Nil
  show ?case by simp
next
  case (Cons e e1)
  then show ?case by (cases e) (simp_all add: is_callback_def)
qed

text \<open>A listener-free first part may be put in front of a handler's remainder.\<close>
lemma containing_bind:
  assumes m: "spec m True (\<lambda>x. fault_containing (k x))"
  shows "fault_containing (jni_bind m k)"
  unfolding fault_containing_def fault_contained_def
proof (intro allI impI)
  fix w :: jni_world assume w: "\<not> pending w"
  from m obtain e1 where e1: "\<not> list_ex is_callback e1"
    and c1: "(\<exists>x. m w = Inr (x, w\<lparr>trace := trace w @ e1\<rparr>) \<and> fault_containing (k x))
             \<or> (\<exists>f. m w = Inl (f, w\<lparr>trace := trace w @ e1\<rparr>))"
    unfolding spec_def by blast
  from c1 show "case jni_bind m k w of
       Inl (f, w') \<Rightarrow> \<exists>evs. w' = w\<lparr>trace := trace w @ evs\<rparr> \<and> \<not> list_ex is_callback evs
     | Inr (u, w') \<Rightarrow> \<exists>evs. w' = w\<lparr>trace := trace w @ evs\<rparr> \<and> \<not> pending w'
                            \<and> faults_contained (listener_throws w) evs"
  proof
    assume "\<exists>x. m w = Inr (x, w\<lparr>trace := trace w @ e1\<rparr>) \<and> fault_containing (k x)"
    then obtain x where mx: "m w = Inr (x, w\<lparr>trace := trace w @ e1\<rparr>)" and kx: "fault_containing (k x)"
      by blast
    define w1 where "w1 = w\<lparr>trace := trace w @ e1\<rparr>"
    have w1: "\<not> pending w1" "listener_throws w1 = listener_throws w" "trace w1 = trace w @ e1"
      using w by (simp_all add: w1_def)
    have b: "jni_bind m k w = k x w1"
      by (simp add: jni_bind_def mx w1_def)
    from kx w1(1) have "fault_contained (k x) w1" unfolding fault_containing_def by blast
    then show ?thesis
      unfolding b fault_contained_def
    proof (cases "k x w1")
      case (Inl a)
      assume "case k x w1 of
          Inl (f, w') \<Rightarrow> \<exists>evs. w' = w1\<lparr>trace := trace w1 @ evs\<rparr> \<and> \<not> list_ex is_callback evs
        | Inr (u, w') \<Rightarrow> \<exists>evs. w' = w1\<lparr>trace := trace w1 @ evs\<rparr> \<and> \<not> pending w'
                            \<and> faults_contained (listener_throws w1) evs"
      with Inl obtain f e2 where a: "a = (f, w1\<lparr>trace := trace w1 @ e2\<rparr>)"
        and e2: "\<not> list_ex is_callback e2"
        by (cases a) auto
      have "w1\<lparr>trace := trace w1 @ e2\<rparr> = w\<lparr>trace := trace w @ (e1 @ e2)\<rparr>"
        by (simp add: w1_def)
      moreover have "\<not> list_ex is_callback (e1 @ e2)" using e1 e2 by simp
      ultimately show "case k x w1 of
          Inl (f, w') \<Rightarrow> \<exists>evs. w' = w\<lparr>trace := trace w @ evs\<rparr> \<and> \<not> list_ex is_callback evs
        | Inr (u, w') \<Rightarrow> \<exists>evs. w' = w\<lparr>trace := trace w @ evs\<rparr> \<and> \<not> pending w'
                            \<and> faults_contained (listener_throws w) evs"
        unfolding Inl a by auto
    next
      case (Inr a)
      assume "case k x w1 of
          Inl (f, w') \<Rightarrow> \<exists>evs. w' = w1\<lparr>trace := trace w1 @ evs\<rparr> \<and> \<not> list_ex is_callback evs
        | Inr (u, w') \<Rightarrow> \<exists>evs. w' = w1\<lparr>trace := trace w1 @ evs\<rparr> \<and> \<not> pending w'
                            \<and> faults_contained (listener_throws w1) evs"
      with Inr obtain u e2 where a: "a = (u, w1\<lparr>trace := trace w1 @ e2\<rparr>)"
        and p: "\<not> pending (w1\<lparr>trace := trace w1 @ e2\<rparr>)"
        and e2: "faults_contained (listener_throws w1) e2"
        by (cases a) auto
      have eq: "w1\<lparr>trace := trace w1 @ e2\<rparr> = w\<lparr>trace := trace w @ (e1 @ e2)\<rparr>"
        by (simp add: w1_def)
      have "faults_contained (listener_throws w) (e1 @ e2)"
        using e1 e2 w1(2) by (simp add: faults_contained_after_quiet)
      with p eq show "case k x w1 of
          Inl (f, w') \<Rightarrow> \<exists>evs. w' = w\<lparr>trace := trace w @ evs\<rparr> \<and> \<not> list_ex is_callback evs
        | Inr (u, w') \<Rightarrow> \<exists>evs. w' = w\<lparr>trace := trace w @ evs\<rparr> \<and> \<not> pending w'
                            \<and> faults_contained (listener_throws w) evs"
        unfolding Inr a by auto
    qed
  next
    assume "\<exists>f. m w = Inl (f, w\<lparr>trace := trace w @ e1\<rparr>)"
    then obtain f where mf: "m w = Inl (f, w\<lparr>trace := trace w @ e1\<rparr>)" by blast
    show ?thesis
      using e1 by (auto simp add: jni_bind_def mf)
  qed
qed

lemma containing_then: "spec m True (\<lambda>_. fault_containing k) \<Longrightarrow> fault_containing (jni_then m k)"
  unfolding jni_then_def by (rule containing_bind)

lemma containing_ScopedJniEnv: "(\<And>env. fault_containing (f env)) \<Longrightarrow> fault_containing (jni_bind ScopedJniEnv f)"
  unfolding fault_containing_def fault_contained_def
  by (simp add: jni_bind_def ScopedJniEnv_def)

lemma containing_if: "(c \<Longrightarrow> fault_containing a) \<Longrightarrow> (\<not> c \<Longrightarrow> fault_containing b) \<Longrightarrow> fault_containing (if c then a else b)"
  by simp

lemma containing_quiet: "spec m True (\<lambda>_. True) \<Longrightarrow> fault_containing m"
proof -
  assume "spec m True (\<lambda>_. True)"
  then have "spec m True (\<lambda>x. fault_containing (jni_return x))"
    by (rule spec_weaken)
       (simp add: fault_containing_def fault_contained_def jni_return_def exI [of _ "[]"])
  then have "fault_containing (jni_bind m jni_return)" by (rule containing_bind)
  then show ?thesis by (simp add: jni_bind_return)
qed

lemma containing_fault: "fault_containing (jni_fault e)"
  by (rule containing_quiet) (simp add: spec_fault)

lemma containing_TRACE_E: "fault_containing (JNI_TRACE_E msg)"
  by (rule containing_quiet) (simp add: spec_TRACE_E)

lemma containing_TRACE_I: "fault_containing (JNI_TRACE_I msg)"
  by (rule containing_quiet) (simp add: spec_TRACE_I)

text \<open>The delivery at the end of a handler: call, check, clear and log, then the exit line.\<close>
lemma containing_delivery:
  "fault_containing (jni_then
     (jni_then (CallVoidMethod Env obj mid args)
        (jni_bind (ExceptionCheck Env) (\<lambda>exc.
           if exc then jni_then (ExceptionClear Env) (JNI_TRACE_E msg) else jni_return ())))
     (JNI_TRACE_I msg'))"
  unfolding fault_containing_def fault_contained_def
  by (auto simp add: jni_defs handler_tail_defs is_error_line_def pending_False_update)

lemma containing_described_delivery:
  "fault_containing (jni_then
     (jni_then (CallVoidMethod Env obj mid args)
        (jni_bind (ExceptionCheck Env) (\<lambda>exc.
           if exc then
             jni_then (ExceptionDescribe Env) (jni_then (ExceptionClear Env) (JNI_TRACE_E msg))
           else jni_return ())))
     (JNI_TRACE_I msg'))"
  unfolding fault_containing_def fault_contained_def
  by (auto simp add: jni_defs handler_tail_defs is_error_line_def pending_False_update)

lemma containing_log_then_exit: "fault_containing (jni_then (JNI_TRACE_E msg) (JNI_TRACE_I msg'))"
  by (intro containing_then spec_TRACE_E containing_TRACE_I)

lemmas containing_rules = containing_bind containing_then containing_if containing_TRACE_E containing_TRACE_I
  containing_delivery containing_described_delivery containing_log_then_exit containing_fault

lemma onDeviceState_contains: "fault_containing (onDeviceStateNotificationReceived mgr state)"
  unfolding onDeviceStateNotificationReceived_def
  apply (intro containing_then spec_TRACE_I containing_ScopedJniEnv)
  subgoal for env
    by (cases env; cases "mOnDeviceStateNotificationReceived mgr")
       (simp_all add: containing_rules cong: if_cong)
  done

lemma onSessionStatus_contains:
  "fault_containing (onSessionStatusNotificationReceived mgr sessionId state reasonCode)"
  unfolding onSessionStatusNotificationReceived_def
  apply (intro containing_then spec_TRACE_I containing_ScopedJniEnv)
  subgoal for env
    by (cases env; cases "mOnSessionStatusNotificationReceived mgr")
       (simp_all add: containing_rules cong: if_cong)
  done

lemma onCoreGenericError_contains: "fault_containing (onCoreGenericErrorNotificationReceived mgr state)"
  unfolding onCoreGenericErrorNotificationReceived_def
  apply (intro containing_then spec_TRACE_I containing_ScopedJniEnv)
  subgoal for env
    by (cases env; cases "mOnCoreGenericErrorNotificationReceived mgr")
       (simp_all add: containing_rules cong: if_cong)
  done

lemma onBlinkDataTx_contains: "fault_containing (onBlinkDataTxNotificationReceived mgr status)"
  unfolding onBlinkDataTxNotificationReceived_def
  apply (intro containing_then spec_TRACE_I containing_ScopedJniEnv)
  subgoal for env
    by (cases env; cases "mOnBlinkDataTxNotificationReceived mgr")
       (simp_all add: containing_rules cong: if_cong)
  done

lemma onRawUci_contains: "fault_containing (onRawUciNotificationReceived mgr data len)"
  unfolding onRawUciNotificationReceived_def
  apply (intro containing_then spec_TRACE_I containing_ScopedJniEnv)
  subgoal for env
    by (cases env; cases "mOnRawUciNotificationReceived mgr")
       (auto intro!: containing_rules spec_rules simp add: set_region_def cong: if_cong)
  done

lemma onVendorUci_contains: "fault_containing (onVendorUciNotificationReceived mgr gid oid data len)"
  unfolding onVendorUciNotificationReceived_def
  apply (intro containing_ScopedJniEnv)
  subgoal for env
    by (cases env; cases "mOnVendorUciNotificationReceived mgr")
       (auto intro!: containing_rules spec_rules simp add: set_region_def cong: if_cong)
  done

lemma onVendorDeviceInfo_contains: "fault_containing (onVendorDeviceInfo mgr data len)"
  unfolding onVendorDeviceInfo_def
  apply (intro containing_if containing_TRACE_E containing_ScopedJniEnv)
  subgoal for env
    by (cases env; cases "mOnVendorDeviceInfo mgr")
       (auto intro!: containing_rules spec_rules spec_NewByteArray_null
          simp add: set_region_def cong: if_cong)
  done

lemma onMulticastListUpdate_active_contains:
  "fault_containing (onMulticastListUpdateNotificationReceived_active mgr ntf)"
  unfolding onMulticastListUpdateNotificationReceived_active_def
  apply (intro containing_then spec_TRACE_I containing_ScopedJniEnv)
  subgoal for env
    by (cases env; cases ntf; cases "mOnMulticastListUpdateNotificationReceived mgr")
       (auto intro!: containing_rules spec_rules spec_for_loop_any
          simp add: set_region_def cong: if_cong)
  done

lemma onMulticastListUpdate_unused_contains:
  "fault_containing (onMulticastListUpdateNotificationReceived_unused defs mgr ntf)"
  unfolding onMulticastListUpdateNotificationReceived_unused_def
  apply (intro containing_then spec_TRACE_I containing_ScopedJniEnv)
  subgoal for env
    by (cases env; cases ntf; cases "mOnMulticastListUpdateNotificationReceived mgr")
       (auto intro!: containing_rules spec_rules spec_for_loop_any
          simp add: set_region_def cong: if_cong)
  done

lemma onRangeData_active_contains: "fault_containing (onRangeDataNotificationReceived_active defs mgr ntf)"
  unfolding onRangeDataNotificationReceived_active_def
proof (rule containing_ScopedJniEnv)
  fix env
  have branch: "spec (if ranging_measure_type ntf = MEASUREMENT_TYPE_TWOWAY defs
                      then twr_branch_active Env mgr defs ntf else tdoa_branch Env mgr defs ntf)
                  True (\<lambda>obj. True)"
    by (auto intro: spec_weaken [OF twr_branch_active_spec] spec_weaken [OF tdoa_branch_spec])
  show "fault_containing
          (if env = NULL_ENV then JNI_TRACE_E ''jni env is null''
           else jni_bind
                  (if ranging_measure_type ntf = MEASUREMENT_TYPE_TWOWAY defs
                   then twr_branch_active env mgr defs ntf else tdoa_branch env mgr defs ntf)
                  (\<lambda>rangeDataObject.
                     jni_then
                       (case mOnRangeDataNotificationReceived mgr of
                          Some mid \<Rightarrow>
                            jni_then (CallVoidMethod env (mObject mgr) mid [L rangeDataObject])
                            (jni_bind (ExceptionCheck env) (\<lambda>exc.
                               if exc then
                                 jni_then (ExceptionDescribe env)
                                 (jni_then (ExceptionClear env)
                                 (JNI_TRACE_E ''fail to send range data''))
                               else jni_return ()))
                        | None \<Rightarrow> JNI_TRACE_E ''rangeDataNtf MID is NULL'')
                       (JNI_TRACE_I ''exit'')))"
  proof (cases env)
    case NULL_ENV
    then show ?thesis by (simp add: containing_rules)
  next
    case Env
    show ?thesis
      unfolding Env
      apply (simp only: JNIEnv.distinct if_False)
      apply (rule containing_bind, rule spec_weaken [OF branch])
      apply (cases "mOnRangeDataNotificationReceived mgr")
       apply (simp_all add: containing_rules)
      done
  qed
qed

lemma onRangeData_unused_contains: "fault_containing (onRangeDataNotificationReceived_unused defs mgr ntf)"
  unfolding onRangeDataNotificationReceived_unused_def
proof (rule containing_ScopedJniEnv)
  fix env
  have vendor: "spec (if 0 < vs_len (vendor_specific_ntf ntf) then
                 jni_bind (NewByteArray Env (vs_len (vendor_specific_ntf ntf)))
                   (\<lambda>vendorSpecificData.
                 SetByteArrayRegion Env vendorSpecificData 0
                   (vs_len (vendor_specific_ntf ntf)) (vs_data (vendor_specific_ntf ntf)))
               else
                 jni_then (JNI_TRACE_I ''No Vendor specific ntf data!'') (jni_return Null))
           True (\<lambda>v. True)"
    by (rule spec_weaken [OF vendor_data_spec]) simp_all
  have branch: "spec (if ranging_measure_type ntf = MEASUREMENT_TYPE_TWOWAY defs then
                        twr_branch_unused Env mgr defs ntf v
                      else if ranging_measure_type ntf = MEASUREMENT_TYPE_DLTDOA defs then
                        dltdoa_branch Env mgr defs ntf v
                      else if ranging_measure_type ntf = MEASUREMENT_TYPE_OWR_WITH_AOA defs then
                        owr_aoa_branch Env mgr defs ntf v
                      else jni_return Null)
                  True (\<lambda>obj. True)" for v
    by (auto intro: spec_weaken [OF twr_branch_unused_spec] spec_weaken [OF dltdoa_branch_spec]
          spec_weaken [OF owr_aoa_branch_spec] spec_return)
  show "fault_containing
          (if env = NULL_ENV then JNI_TRACE_E ''jni env is null''
           else jni_bind
                  (if 0 < vs_len (vendor_specific_ntf ntf) then
                     jni_bind (NewByteArray env (vs_len (vendor_specific_ntf ntf)))
                       (\<lambda>vendorSpecificData.
                     SetByteArrayRegion env vendorSpecificData 0
                       (vs_len (vendor_specific_ntf ntf)) (vs_data (vendor_specific_ntf ntf)))
                   else
                     jni_then (JNI_TRACE_I ''No Vendor specific ntf data!'') (jni_return Null))
                  (\<lambda>vendorSpecificData.
                jni_bind
                  (if ranging_measure_type ntf = MEASUREMENT_TYPE_TWOWAY defs then
                     twr_branch_unused env mgr defs ntf vendorSpecificData
                   else if ranging_measure_type ntf = MEASUREMENT_TYPE_DLTDOA defs then
                     dltdoa_branch env mgr defs ntf vendorSpecificData
                   else if ranging_measure_type ntf = MEASUREMENT_TYPE_OWR_WITH_AOA defs then
                     owr_aoa_branch env mgr defs ntf vendorSpecificData
                   else jni_return Null)
                  (\<lambda>rangeDataObject.
                jni_then
                  (case mOnRangeDataNotificationReceived mgr of
                     Some mid \<Rightarrow>
                       if rangeDataObject \<noteq> Null then
                         jni_then (CallVoidMethod env (mObject mgr) mid [L rangeDataObject])
                         (jni_bind (ExceptionCheck env) (\<lambda>exc.
                            if exc then
                              jni_then (ExceptionDescribe env)
                              (jni_then (ExceptionClear env)
                              (JNI_TRACE_E ''fail to send range data''))
                            else jni_return ()))
                       else JNI_TRACE_E ''rangeDataNtf MID is NULL''
                   | None \<Rightarrow> JNI_TRACE_E ''rangeDataNtf MID is NULL'')
                  (JNI_TRACE_I ''exit''))))"
  proof (cases env)
    case NULL_ENV
    then show ?thesis by (simp add: containing_rules)
  next
    case Env
    show ?thesis
      unfolding Env
      apply (simp only: JNIEnv.distinct if_False)
      apply (rule containing_bind, rule spec_weaken [OF vendor])
      apply (rule containing_bind, rule spec_weaken [OF branch])
      apply (cases "mOnRangeDataNotificationReceived mgr")
       apply (simp_all add: containing_rules)
      done
  qed
qed

text \<open>
  C7. From a world with no exception pending, every handler of either copy, on every
  argument, contains the listener's faults: if it returns, the world differs by the added
  trace only, no exception is pending, and each call into the listener that threw is followed
  in the trace by the exception check, the clearing and an error line; and if it ends in a
  native fault instead, no call into the listener was made before. So a listener that throws
  never keeps a handler from returning normally, and the next notification starts from a
  world without a pending exception.
\<close>
theorem listener_exception_is_contained:
  assumes "\<not> pending w"
  shows "fault_contained (handle_active defs mgr a) w \<and> fault_contained (handle_unused defs mgr u) w"
proof
  have "fault_containing (handle_active defs mgr a)"
    by (cases a)
       (simp_all add: onRangeData_active_contains onRawUci_contains onSessionStatus_contains
          onDeviceState_contains onCoreGenericError_contains
          onMulticastListUpdate_active_contains onBlinkDataTx_contains)
  with assms show "fault_contained (handle_active defs mgr a) w"
    unfolding fault_containing_def by blast
next
  have "fault_containing (handle_unused defs mgr u)"
    by (cases u)
       (simp_all add: onRangeData_unused_contains onRawUci_contains onSessionStatus_contains
          onDeviceState_contains onCoreGenericError_contains
          onMulticastListUpdate_unused_contains onBlinkDataTx_contains onVendorUci_contains
          onVendorDeviceInfo_contains)
  with assms show "fault_contained (handle_unused defs mgr u) w"
    unfolding fault_containing_def by blast
qed

theorem listener_exception_is_contained_witness:
  "\<not> pending throwing_world
   \<and> fault_contained (handle_active sample_defs sample_manager (A_DeviceState 1)) throwing_world
   \<and> fault_contained (handle_unused sample_defs sample_manager (U_RangeData (sample_range_ntf 1 0 2)))
       throwing_world
   \<and> handle_active sample_defs sample_manager (A_DeviceState 1) throwing_world
       = Inr ((), throwing_world\<lparr>trace :=
           [TraceI ''enter:  State = %x'',
            EvCallVoidMethod (mObject sample_manager)
              (MethodID ''onDeviceStatusNotificationReceived'' ''(I)V'') [I 1],
            EvExceptionCheck, EvExceptionClear, TraceE ''fail to notify'', TraceI ''exit'']\<rparr>)"
  using listener_exception_is_contained
          [of throwing_world sample_defs sample_manager "A_DeviceState 1"
              "U_RangeData (sample_range_ntf 1 0 2)"]
  by (simp add: throwing_world_def sample_manager_def onDeviceStateNotificationReceived_def
      jni_defs handler_tail_defs)

end
